theory Spec2Isabelle
  imports Main "HOL-Library.Word"
begin

unbundle bit_operations_syntax

section \<open>Machine integers and kernel helper macros\<close>

text \<open>
  Arithmetic of the clock calculator is carried out on \<open>int\<close> with the C wrap-around
  written out: \<open>u32\<close>, \<open>u16\<close> and \<open>u8\<close> are the conversions to the unsigned types of
  these widths.  \<open>unsigned long\<close> has 32 bits on the 32-bit ARM kernels (R-Car Gen1/Gen2)
  and 64 bits on arm64 (Gen3/Gen4); the width is a parameter of the model.
\<close>

definition u8 :: "int \<Rightarrow> int" where
  "u8 x = x mod 2 ^ 8"

definition u16 :: "int \<Rightarrow> int" where
  "u16 x = x mod 2 ^ 16"

definition u32 :: "int \<Rightarrow> int" where
  "u32 x = x mod 2 ^ 32"

datatype abi = ILP32 | LP64

fun ulong_bits :: "abi \<Rightarrow> nat" where
  "ulong_bits ILP32 = 32"
| "ulong_bits LP64 = 64"

definition ulong :: "abi \<Rightarrow> int \<Rightarrow> int" where
  "ulong a x = x mod 2 ^ ulong_bits a"

text \<open>
  The macros \<open>DIV_ROUND_UP\<close> and \<open>DIV_ROUND_CLOSEST\<close> live in \<open>include/linux/math.h\<close>,
  outside the driver file.  \<open>DIV_ROUND_UP(n, d)\<close> is \<open>((n) + (d) - 1) / (d)\<close>, evaluated
  in the common unsigned type of its operands (the conversion \<open>w\<close>); for an unsigned
  first operand \<open>DIV_ROUND_CLOSEST(x, d)\<close> is \<open>((x) + (d) / 2) / (d)\<close>.
\<close>

definition DIV_ROUND_UP :: "(int \<Rightarrow> int) \<Rightarrow> int \<Rightarrow> int \<Rightarrow> int" where
  "DIV_ROUND_UP w n d = w (n + d - 1) div d"

definition DIV_ROUND_CLOSEST :: "int \<Rightarrow> int \<Rightarrow> int" where
  "DIV_ROUND_CLOSEST x d = u32 (x + d div 2) div d"

text \<open>A C condition \<open>w & m\<close> on a bit set.\<close>

definition tst :: "'a::len word \<Rightarrow> 'a word \<Rightarrow> bool" where
  "tst w m = (w AND m \<noteq> 0)"

definition BIT :: "nat \<Rightarrow> 'a::len word" where
  "BIT n = push_bit n 1"

section \<open>Register map and bit names\<close>

datatype reg =
  ICSCR | ICMCR | ICSSR | ICMSR | ICSIER | ICMIER | ICCCR | ICSAR
| ICMAR | ICRXTX | ICCCR2 | ICMPR | ICHPR | ICLPR | ICFBSCR | ICDMAER

type_synonym w32 = "32 word"

text \<open>ICSCR\<close>

definition SDBS :: w32 where "SDBS = BIT 3"
definition SIE :: w32 where "SIE = BIT 2"
definition GCAE :: w32 where "GCAE = BIT 1"
definition FNA :: w32 where "FNA = BIT 0"

text \<open>ICMCR\<close>

definition MDBS :: w32 where "MDBS = BIT 7"
definition FSCL :: w32 where "FSCL = BIT 6"
definition FSDA :: w32 where "FSDA = BIT 5"
definition OBPC :: w32 where "OBPC = BIT 4"
definition MIE :: w32 where "MIE = BIT 3"
definition TSBE :: w32 where "TSBE = BIT 2"
definition FSB :: w32 where "FSB = BIT 1"
definition ESG :: w32 where "ESG = BIT 0"

text \<open>ICSSR (also for ICSIER)\<close>

definition GCAR :: w32 where "GCAR = BIT 6"
definition STM :: w32 where "STM = BIT 5"
definition SSR :: w32 where "SSR = BIT 4"
definition SDE :: w32 where "SDE = BIT 3"
definition SDT :: w32 where "SDT = BIT 2"
definition SDR :: w32 where "SDR = BIT 1"
definition SAR :: w32 where "SAR = BIT 0"

text \<open>ICMSR (also for ICMIER)\<close>

definition MNR :: w32 where "MNR = BIT 6"
definition MAL :: w32 where "MAL = BIT 5"
definition MST :: w32 where "MST = BIT 4"
definition MDE :: w32 where "MDE = BIT 3"
definition MDT :: w32 where "MDT = BIT 2"
definition MDR :: w32 where "MDR = BIT 1"
definition MAT :: w32 where "MAT = BIT 0"

text \<open>ICDMAER\<close>

definition RSDMAE :: w32 where "RSDMAE = BIT 3"
definition TSDMAE :: w32 where "TSDMAE = BIT 2"
definition RMDMAE :: w32 where "RMDMAE = BIT 1"
definition TMDMAE :: w32 where "TMDMAE = BIT 0"

text \<open>ICCCR2\<close>

definition FMPE :: w32 where "FMPE = BIT 7"
definition CDFD :: w32 where "CDFD = BIT 2"
definition HLSE :: w32 where "HLSE = BIT 1"
definition SME :: w32 where "SME = BIT 0"

definition TCYC17 :: w32 where "TCYC17 = 0x0f"

definition RCAR_MIN_DMA_LEN :: int where "RCAR_MIN_DMA_LEN = 8"
definition RCAR_SCLD_RATIO :: int where "RCAR_SCLD_RATIO = 5"
definition RCAR_SCHD_RATIO :: int where "RCAR_SCHD_RATIO = 4"
definition RCAR_DEFAULT_SMD :: int where "RCAR_DEFAULT_SMD = 20"

definition RCAR_BUS_PHASE_START :: w32 where
  "RCAR_BUS_PHASE_START = MDBS OR MIE OR ESG"
definition RCAR_BUS_PHASE_DATA :: w32 where
  "RCAR_BUS_PHASE_DATA = MDBS OR MIE"
definition RCAR_BUS_PHASE_STOP :: w32 where
  "RCAR_BUS_PHASE_STOP = MDBS OR MIE OR FSB"

definition RCAR_IRQ_SEND :: w32 where
  "RCAR_IRQ_SEND = MNR OR MAL OR MST OR MAT OR MDE"
definition RCAR_IRQ_RECV :: w32 where
  "RCAR_IRQ_RECV = MNR OR MAL OR MST OR MAT OR MDR"
definition RCAR_IRQ_STOP :: w32 where
  "RCAR_IRQ_STOP = MST"

definition ID_LAST_MSG :: w32 where "ID_LAST_MSG = BIT 0"
definition ID_REP_AFTER_RD :: w32 where "ID_REP_AFTER_RD = BIT 1"
definition ID_DONE :: w32 where "ID_DONE = BIT 2"
definition ID_ARBLOST :: w32 where "ID_ARBLOST = BIT 3"
definition ID_NACK :: w32 where "ID_NACK = BIT 4"
definition ID_EPROTO :: w32 where "ID_EPROTO = BIT 5"

text \<open>persistent flags; \<open>ID_P_MASK\<close> is \<open>GENMASK(31, 27)\<close>\<close>

definition ID_P_FMPLUS :: w32 where "ID_P_FMPLUS = BIT 27"
definition ID_P_NOT_ATOMIC :: w32 where "ID_P_NOT_ATOMIC = BIT 28"
definition ID_P_HOST_NOTIFY :: w32 where "ID_P_HOST_NOTIFY = BIT 29"
definition ID_P_NO_RXDMA :: w32 where "ID_P_NO_RXDMA = BIT 30"
definition ID_P_PM_BLOCKED :: w32 where "ID_P_PM_BLOCKED = BIT 31"
definition ID_P_MASK :: w32 where "ID_P_MASK = push_bit 27 (mask 5)"

definition ID_SLAVE_NACK :: "8 word" where "ID_SLAVE_NACK = BIT 0"

text \<open>
  Constants of the I2C core that the driver uses but that are declared in headers
  outside the driver file (\<open>include/uapi/linux/i2c.h\<close>, \<open>include/linux/i2c.h\<close>, the
  errno headers); they carry the kernel's values.
\<close>

definition I2C_M_RD :: "16 word" where "I2C_M_RD = 0x0001"
definition I2C_M_DMA_SAFE :: "16 word" where "I2C_M_DMA_SAFE = 0x0200"
definition I2C_M_RECV_LEN :: "16 word" where "I2C_M_RECV_LEN = 0x0400"
definition I2C_SMBUS_BLOCK_MAX :: int where "I2C_SMBUS_BLOCK_MAX = 32"
definition I2C_MAX_STANDARD_MODE_FREQ :: int where "I2C_MAX_STANDARD_MODE_FREQ = 100000"
definition I2C_MAX_FAST_MODE_FREQ :: int where "I2C_MAX_FAST_MODE_FREQ = 400000"

definition ENXIO :: int where "ENXIO = 6"
definition EAGAIN :: int where "EAGAIN = 11"
definition EINVAL :: int where "EINVAL = 22"
definition EPROTO :: int where "EPROTO = 71"
definition EISCONN :: int where "EISCONN = 106"
definition ETIMEDOUT :: int where "ETIMEDOUT = 110"
definition EPROBE_DEFER :: int where "EPROBE_DEFER = 517"

section \<open>Data model\<close>

datatype rcar_i2c_type = I2C_RCAR_GEN1 | I2C_RCAR_GEN2 | I2C_RCAR_GEN3 | I2C_RCAR_GEN4

text \<open>The integer value of the enumerator, for the driver's order comparisons.\<close>

fun gen_of :: "rcar_i2c_type \<Rightarrow> nat" where
  "gen_of I2C_RCAR_GEN1 = 0"
| "gen_of I2C_RCAR_GEN2 = 1"
| "gen_of I2C_RCAR_GEN3 = 2"
| "gen_of I2C_RCAR_GEN4 = 3"

datatype dma_data_direction = DMA_TO_DEVICE | DMA_FROM_DEVICE | DMA_NONE

text \<open>
  A DMA channel handle is either a channel or an error pointer \<open>ERR_PTR(-e)\<close>
  (\<open>Chan_err e\<close>); a fresh controller holds \<open>ERR_PTR(-EPROBE_DEFER)\<close>.
\<close>

datatype dma_chan = Chan | Chan_err int

fun IS_ERR :: "dma_chan \<Rightarrow> bool" where
  "IS_ERR Chan = False"
| "IS_ERR (Chan_err e) = True"

text \<open>
  \<open>struct i2c_msg\<close>: \<open>len\<close> is a \<open>__u16\<close>; the buffer is the caller's memory starting
  at \<open>buf\<close>, indexed by byte offset.
\<close>

record i2c_msg =
  addr :: "16 word"
  mflags :: "16 word"
  len :: int
  buf :: "nat \<Rightarrow> 8 word"

record i2c_timings =
  bus_freq_hz :: "32 word"
  scl_fall_ns :: "32 word"
  scl_rise_ns :: "32 word"
  scl_int_delay_ns :: "32 word"

datatype slave_ev =
  I2C_SLAVE_READ_REQUESTED | I2C_SLAVE_WRITE_REQUESTED | I2C_SLAVE_READ_PROCESSED
| I2C_SLAVE_WRITE_RECEIVED | I2C_SLAVE_STOP

text \<open>
  Everything the driver does to the outside world is appended to a log, in program order:
  register accesses through \<open>priv->io\<close>, calls into the DMA engine, waking the waiting
  thread, warnings and error messages, and events delivered to the registered target.
\<close>

datatype io_event =
  Write reg w32
| Read reg
| Dma_map nat int dma_data_direction
| Dma_prep
| Dma_submit
| Dma_issue_pending
| Dma_terminate_sync
| Dma_unmap
| Wake_up
| Warn_spurious
| Dev_err int w32
| Slave_event slave_ev

text \<open>
  \<open>struct rcar_i2c_priv\<close>.  \<open>priv->msg\<close> points into the array of the submitted batch:
  the array is \<open>msgs\<close> and the pointer is the index \<open>msg\<close>.  \<open>io_regs\<close> holds the value
  last written to each register of the block behind \<open>priv->io\<close> (read back for the
  interrupt-enable registers), \<open>io_log\<close> the log above.  \<open>sg_len\<close> is
  \<open>sg_dma_len(&priv->sg)\<close>.
\<close>

record rcar_i2c_priv =
  flags :: w32
  msgs :: "i2c_msg list"
  msg :: nat
  msgs_left :: int
  pos :: int
  icccr :: int
  schd :: int
  scld :: int
  smd :: int
  recovery_icmcr :: w32
  devtype :: rcar_i2c_type
  slave :: bool
  slave_flags :: "8 word"
  dma_tx :: dma_chan
  dma_rx :: dma_chan
  sg_len :: int
  dma_direction :: dma_data_direction
  io_regs :: "reg \<Rightarrow> w32"
  io_log :: "io_event list"

text \<open>
  The controller context as \<open>rcar_i2c_probe\<close> leaves it after \<open>devm_kzalloc\<close> and the
  DMA initialisation: everything zero, no DMA in flight, both channel handles
  \<open>ERR_PTR(-EPROBE_DEFER)\<close>.
\<close>

definition probe_priv :: "rcar_i2c_type \<Rightarrow> rcar_i2c_priv" where
  "probe_priv d =
     \<lparr>flags = 0, msgs = [], msg = 0, msgs_left = 0, pos = 0, icccr = 0, schd = 0, scld = 0,
      smd = 0, recovery_icmcr = 0, devtype = d, slave = False, slave_flags = 0,
      dma_tx = Chan_err EPROBE_DEFER, dma_rx = Chan_err EPROBE_DEFER, sg_len = 0,
      dma_direction = DMA_NONE, io_regs = (\<lambda>r. 0), io_log = []\<rparr>"

definition emit :: "io_event \<Rightarrow> rcar_i2c_priv \<Rightarrow> rcar_i2c_priv" where
  "emit e priv = priv\<lparr>io_log := io_log priv @ [e]\<rparr>"

definition rcar_i2c_write :: "reg \<Rightarrow> w32 \<Rightarrow> rcar_i2c_priv \<Rightarrow> rcar_i2c_priv" where
  "rcar_i2c_write r val priv =
     priv\<lparr>io_regs := (io_regs priv)(r := val), io_log := io_log priv @ [Write r val]\<rparr>"

definition rcar_i2c_clear_irq :: "w32 \<Rightarrow> rcar_i2c_priv \<Rightarrow> rcar_i2c_priv" where
  "rcar_i2c_clear_irq val priv = rcar_i2c_write ICMSR (NOT val AND 0x7f) priv"

section \<open>Clock calculator\<close>

text \<open>
  \<open>rcar_i2c_clock_calculate\<close>.  \<open>clk_rate\<close> is the value of \<open>clk_get_rate\<close> (an
  \<open>unsigned long\<close>) and \<open>t\<close> the timings after \<open>i2c_parse_fw_timings\<close>, both supplied by
  collaborators outside the driver file.  The result is the return value together with
  the updated controller context.  The quotient \<open>scl\<close> only feeds the debug message;
  the ARM cores this controller is built into deliver 0 for an unsigned division by
  zero and carry on, which is what \<open>div\<close> does here.
\<close>

definition clk_cdf :: "int \<Rightarrow> int" where
  "clk_cdf rate = u32 (rate div 20000000)"

definition clk_cdf_width :: "rcar_i2c_type \<Rightarrow> nat" where
  "clk_cdf_width d = (if d = I2C_RCAR_GEN1 then 2 else 3)"

definition clk_ick :: "rcar_i2c_type \<Rightarrow> int \<Rightarrow> int" where
  "clk_ick d rate = u32 (rate div (if gen_of d < gen_of I2C_RCAR_GEN3 then u32 (clk_cdf rate + 1) else 1))"

definition clk_round :: "i2c_timings \<Rightarrow> int \<Rightarrow> int" where
  "clk_round t ick =
     (let sum = u32 (uint (scl_fall_ns t) + uint (scl_rise_ns t) + uint (scl_int_delay_ns t));
          round = DIV_ROUND_CLOSEST ick 1000000;
          round = DIV_ROUND_CLOSEST (u32 (round * sum)) 1000
      in round)"

text \<open>\<open>t.bus_freq_hz ?: 1\<close>\<close>

definition clk_freq :: "i2c_timings \<Rightarrow> int" where
  "clk_freq t = (if uint (bus_freq_hz t) \<noteq> 0 then uint (bus_freq_hz t) else 1)"

definition clk_scgd :: "i2c_timings \<Rightarrow> int \<Rightarrow> int \<Rightarrow> int" where
  "clk_scgd t ick round =
     (let scgd = DIV_ROUND_UP u32 ick (clk_freq t);
          scgd = DIV_ROUND_UP u32 (u32 (scgd - 20 - round)) 8
      in scgd)"

definition clk_x :: "abi \<Rightarrow> i2c_timings \<Rightarrow> int \<Rightarrow> int \<Rightarrow> int \<Rightarrow> int" where
  "clk_x a t rate smd0 round =
     (let sum_ratio = RCAR_SCHD_RATIO + RCAR_SCLD_RATIO;
          x = u32 (DIV_ROUND_UP (ulong a) rate (clk_freq t));
          x = DIV_ROUND_UP u32 (u32 (x - 8 - 2 * smd0 - round)) sum_ratio
      in x)"

definition rcar_i2c_clock_calculate ::
  "abi \<Rightarrow> int \<Rightarrow> i2c_timings \<Rightarrow> rcar_i2c_priv \<Rightarrow> int \<times> rcar_i2c_priv" where
  "rcar_i2c_clock_calculate a clk_rate t priv0 =
     (let priv = priv0\<lparr>smd := RCAR_DEFAULT_SMD\<rparr>;
          rate = clk_rate;
          cdf = clk_cdf rate;
          cdf_width = clk_cdf_width (devtype priv)
      in if cdf \<ge> 2 ^ cdf_width then (- EINVAL, priv)
         else
           let priv =
                 (if uint (bus_freq_hz t) > I2C_MAX_FAST_MODE_FREQ
                     \<and> gen_of (devtype priv) \<ge> gen_of I2C_RCAR_GEN4
                  then priv\<lparr>flags := flags priv OR ID_P_FMPLUS\<rparr>
                  else priv\<lparr>flags := flags priv AND NOT ID_P_FMPLUS\<rparr>);
               ick = clk_ick (devtype priv) rate;
               round = clk_round t ick
           in if gen_of (devtype priv) < gen_of I2C_RCAR_GEN3 then
                let scgd = clk_scgd t ick round;
                    scl = ick div u32 (20 + 8 * scgd + round)
                in if scgd > 0x3f then (- EINVAL, priv)
                   else (0, priv\<lparr>icccr := u32 (push_bit cdf_width scgd OR cdf)\<rparr>)
              else
                let x = clk_x a t rate (smd priv) round;
                    scl = u32 (rate div u32 (8 + 2 * smd priv + (RCAR_SCHD_RATIO + RCAR_SCLD_RATIO) * x + round))
                in if x = 0 \<or> u32 (x * RCAR_SCLD_RATIO) > 0xffff then (- EINVAL, priv)
                   else
                     let priv = priv\<lparr>icccr := cdf\<rparr>;
                         priv = priv\<lparr>schd := u16 (RCAR_SCHD_RATIO * x)\<rparr>;
                         priv = priv\<lparr>scld := u16 (RCAR_SCLD_RATIO * x)\<rparr>;
                         priv = (if smd priv \<ge> schd priv
                                 then priv\<lparr>smd := u8 (schd priv - 1)\<rparr> else priv)
                     in (0, priv))"

text \<open>
  The bus frequency that the produced register values stand for, by the two formulas of
  the driver's comment: \<open>SCL = ick / (20 + 8 * SCGD + F[...])\<close> with SCGD the upper field
  of ICCCR, and for Gen3+ \<open>SCL = clkp / (8 + 2 * SMD + SCLD + SCHD + F[...])\<close>.
\<close>

definition div_legacy :: "rcar_i2c_priv \<Rightarrow> int \<Rightarrow> int" where
  "div_legacy priv round = 20 + 8 * drop_bit (clk_cdf_width (devtype priv)) (icccr priv) + round"

definition div_modern :: "rcar_i2c_priv \<Rightarrow> int \<Rightarrow> int" where
  "div_modern priv round = 8 + 2 * smd priv + scld priv + schd priv + round"

definition scl_legacy :: "rcar_i2c_priv \<Rightarrow> int \<Rightarrow> int \<Rightarrow> int" where
  "scl_legacy priv ick round = ick div div_legacy priv round"

definition scl_modern :: "rcar_i2c_priv \<Rightarrow> int \<Rightarrow> int \<Rightarrow> int" where
  "scl_modern priv rate round = rate div div_modern priv round"

text \<open>
  The divider values as the specification words them, in exact integer arithmetic with
  no wrap-around: solve \<open>SCL = ick / (20 + 8 * G + correction)\<close> for \<open>G\<close>, and
  \<open>SCL = rate / (8 + 2 * 20 + 9 * x + correction)\<close> for \<open>x\<close>, rounding up (\<open>div\<close> on
  \<open>int\<close> rounds down, also below zero).  They are compared with \<open>clk_scgd\<close> and
  \<open>clk_x\<close>, which follow the code.
\<close>

definition ideal_scgd :: "i2c_timings \<Rightarrow> int \<Rightarrow> int \<Rightarrow> int" where
  "ideal_scgd t ick round = ((ick + clk_freq t - 1) div clk_freq t - 20 - round + 7) div 8"

definition ideal_x :: "i2c_timings \<Rightarrow> int \<Rightarrow> int \<Rightarrow> int" where
  "ideal_x t rate round = ((rate + clk_freq t - 1) div clk_freq t - 8 - 2 * 20 - round + 8) div 9"

section \<open>Controller initialisation\<close>

definition rcar_i2c_init :: "rcar_i2c_priv \<Rightarrow> rcar_i2c_priv" where
  "rcar_i2c_init priv0 =
     (let priv = rcar_i2c_write ICMIER 0 priv0;
          priv = rcar_i2c_write ICMCR MDBS priv;
          priv = rcar_i2c_write ICMSR 0 priv
      in if gen_of (devtype priv) < gen_of I2C_RCAR_GEN3
         then rcar_i2c_write ICCCR (word_of_int (icccr priv)) priv
         else
           let icccr2 = CDFD OR HLSE OR SME;
               icccr2 = (if tst (flags priv) ID_P_FMPLUS then icccr2 OR FMPE else icccr2);
               priv = rcar_i2c_write ICCCR2 icccr2 priv;
               priv = rcar_i2c_write ICCCR (word_of_int (icccr priv)) priv;
               priv = rcar_i2c_write ICMPR (word_of_int (smd priv)) priv;
               priv = rcar_i2c_write ICHPR (word_of_int (schd priv)) priv;
               priv = rcar_i2c_write ICLPR (word_of_int (scld priv)) priv
           in rcar_i2c_write ICFBSCR TCYC17 priv)"

section \<open>Message set-up\<close>

definition cur_msg :: "rcar_i2c_priv \<Rightarrow> i2c_msg" where
  "cur_msg priv = msgs priv ! msg priv"

definition rcar_i2c_is_recv :: "rcar_i2c_priv \<Rightarrow> bool" where
  "rcar_i2c_is_recv priv = tst (mflags (cur_msg priv)) I2C_M_RD"

text \<open>
  \<open>i2c_8bit_addr_from_msg\<close> is an inline helper of \<open>include/linux/i2c.h\<close>: the address
  shifted left by one with the read bit in bit 0, as a \<open>u8\<close>.
\<close>

definition i2c_8bit_addr_from_msg :: "i2c_msg \<Rightarrow> 8 word" where
  "i2c_8bit_addr_from_msg m =
     ucast (push_bit 1 (addr m) OR (if tst (mflags m) I2C_M_RD then 1 else 0))"

definition rcar_i2c_prepare_msg :: "rcar_i2c_priv \<Rightarrow> rcar_i2c_priv" where
  "rcar_i2c_prepare_msg priv0 =
     (let read = rcar_i2c_is_recv priv0;
          rep_start = \<not> tst (flags priv0) ID_REP_AFTER_RD;
          priv = priv0\<lparr>pos := 0\<rparr>;
          priv = priv\<lparr>flags := flags priv AND ID_P_MASK\<rparr>;
          priv = (if msgs_left priv = 1 then priv\<lparr>flags := flags priv OR ID_LAST_MSG\<rparr> else priv);
          priv = rcar_i2c_write ICMAR (ucast (i2c_8bit_addr_from_msg (cur_msg priv))) priv;
          priv = (if tst (flags priv) ID_P_NOT_ATOMIC
                  then rcar_i2c_write ICMIER (if read then RCAR_IRQ_RECV else RCAR_IRQ_SEND) priv
                  else priv)
      in if rep_start then rcar_i2c_write ICMCR RCAR_BUS_PHASE_START priv else priv)"

definition rcar_i2c_first_msg :: "i2c_msg list \<Rightarrow> int \<Rightarrow> rcar_i2c_priv \<Rightarrow> rcar_i2c_priv" where
  "rcar_i2c_first_msg ms num priv0 =
     (let priv = priv0\<lparr>msgs := ms, msg := 0\<rparr>;
          priv = priv\<lparr>msgs_left := num\<rparr>;
          priv = rcar_i2c_write ICMSR 0 priv
      in rcar_i2c_prepare_msg priv)"

definition rcar_i2c_next_msg :: "rcar_i2c_priv \<Rightarrow> rcar_i2c_priv" where
  "rcar_i2c_next_msg priv0 =
     (let priv = priv0\<lparr>msg := msg priv0 + 1\<rparr>;
          priv = priv\<lparr>msgs_left := msgs_left priv - 1\<rparr>
      in rcar_i2c_prepare_msg priv)"

section \<open>DMA offload\<close>

text \<open>
  What the hardware and the collaborators outside the driver deliver during one
  invocation of an interrupt handler: the values read from the status and data
  registers, the outcome of the three DMA engine calls, and the behaviour of the
  registered target's callback (\<open>i2c_slave_event\<close>: return value and the byte it
  leaves in \<open>value\<close>).  \<open>uninit_value\<close> is the content of the handler's uninitialised
  local \<open>u8 value\<close>.
\<close>

record hw_in =
  icmsr_in :: w32
  icrxtx_in :: w32
  icssr_in :: w32
  dma_map_ok :: bool
  dma_prep_ok :: bool
  dma_submit_ok :: bool
  slave_cb :: "slave_ev \<Rightarrow> 8 word \<Rightarrow> int \<times> 8 word"
  uninit_value :: "8 word"

definition rcar_i2c_cleanup_dma :: "bool \<Rightarrow> rcar_i2c_priv \<Rightarrow> rcar_i2c_priv" where
  "rcar_i2c_cleanup_dma terminate priv0 =
     (let priv = (if terminate then emit Dma_terminate_sync priv0 else priv0);
          priv = emit Dma_unmap priv;
          priv = (if gen_of (devtype priv) \<ge> gen_of I2C_RCAR_GEN3
                     \<and> dma_direction priv = DMA_FROM_DEVICE
                  then priv\<lparr>flags := flags priv OR ID_P_NO_RXDMA\<rparr> else priv);
          priv = priv\<lparr>dma_direction := DMA_NONE\<rparr>
      in rcar_i2c_write ICDMAER 0 priv)"

definition rcar_i2c_dma_callback :: "rcar_i2c_priv \<Rightarrow> rcar_i2c_priv" where
  "rcar_i2c_dma_callback priv0 =
     (let priv = priv0\<lparr>pos := pos priv0 + sg_len priv0\<rparr>
      in rcar_i2c_cleanup_dma False priv)"

definition rcar_i2c_dma :: "hw_in \<Rightarrow> rcar_i2c_priv \<Rightarrow> bool \<times> rcar_i2c_priv" where
  "rcar_i2c_dma inp priv0 =
     (let m = cur_msg priv0;
          read = tst (mflags m) I2C_M_RD;
          dir = (if read then DMA_FROM_DEVICE else DMA_TO_DEVICE);
          chan = (if read then dma_rx priv0 else dma_tx priv0)
      in if \<not> tst (flags priv0) ID_P_NOT_ATOMIC \<or> IS_ERR chan \<or> len m < RCAR_MIN_DMA_LEN
            \<or> \<not> tst (mflags m) I2C_M_DMA_SAFE \<or> (read \<and> tst (flags priv0) ID_P_NO_RXDMA)
         then (False, priv0)
         else
           let (off, l) = (if read then (0, len (cur_msg priv0) - 2)
                           else (1, len (cur_msg priv0) - 1));
               priv = emit (Dma_map off l dir) priv0
           in if \<not> dma_map_ok inp then (False, priv)
              else
                let priv = priv\<lparr>sg_len := l\<rparr>;
                    priv = priv\<lparr>dma_direction := dir\<rparr>;
                    priv = emit Dma_prep priv
                in if \<not> dma_prep_ok inp then (False, rcar_i2c_cleanup_dma False priv)
                   else
                     let priv = emit Dma_submit priv
                     in if \<not> dma_submit_ok inp then (False, rcar_i2c_cleanup_dma False priv)
                        else
                          let priv = (if read then rcar_i2c_write ICDMAER RMDMAE priv
                                      else rcar_i2c_write ICDMAER TMDMAE priv);
                              priv = emit Dma_issue_pending priv
                          in (True, priv))"

section \<open>Interrupt handlers\<close>

definition rcar_i2c_irq_send :: "hw_in \<Rightarrow> w32 \<Rightarrow> rcar_i2c_priv \<Rightarrow> rcar_i2c_priv" where
  "rcar_i2c_irq_send inp msr priv0 =
     (if \<not> tst msr MDE then emit Warn_spurious priv0
      else
        let irqs_to_clear = (if tst msr MAT then MDE OR MAT else MDE);
            (taken, priv) = (if pos priv0 = 1 then rcar_i2c_dma inp priv0 else (False, priv0))
        in if taken then priv
           else
             let priv =
                   (if pos priv < len (cur_msg priv) then
                      let priv = rcar_i2c_write ICRXTX
                                   (ucast (buf (cur_msg priv) (nat (pos priv)))) priv
                      in priv\<lparr>pos := pos priv + 1\<rparr>
                    else if tst (flags priv) ID_LAST_MSG
                      then rcar_i2c_write ICMCR RCAR_BUS_PHASE_STOP priv
                      else rcar_i2c_next_msg priv)
             in rcar_i2c_clear_irq irqs_to_clear priv)"

text \<open>
  The part of \<open>rcar_i2c_irq_recv\<close> after the received byte has been dealt with: the
  phase change before the last byte, the hand-over to the next message, and the
  clearing of the handled status bits.
\<close>

definition recv_phase :: "w32 \<Rightarrow> bool \<Rightarrow> rcar_i2c_priv \<Rightarrow> rcar_i2c_priv" where
  "recv_phase irqs_to_clear recv_len_init priv0 =
     (let priv =
            (if pos priv0 + 1 = len (cur_msg priv0) \<and> \<not> recv_len_init then
               (if tst (flags priv0) ID_LAST_MSG
                then rcar_i2c_write ICMCR RCAR_BUS_PHASE_STOP priv0
                else
                  let priv = rcar_i2c_write ICMCR RCAR_BUS_PHASE_START priv0
                  in priv\<lparr>flags := flags priv OR ID_REP_AFTER_RD\<rparr>)
             else priv0);
          priv = (if pos priv = len (cur_msg priv) \<and> \<not> tst (flags priv) ID_LAST_MSG
                  then rcar_i2c_next_msg priv else priv)
      in rcar_i2c_clear_irq irqs_to_clear priv)"

definition set_cur_msg :: "i2c_msg \<Rightarrow> rcar_i2c_priv \<Rightarrow> rcar_i2c_priv" where
  "set_cur_msg m priv = priv\<lparr>msgs := (msgs priv)[msg priv := m]\<rparr>"

definition rcar_i2c_irq_recv :: "hw_in \<Rightarrow> w32 \<Rightarrow> rcar_i2c_priv \<Rightarrow> rcar_i2c_priv" where
  "rcar_i2c_irq_recv inp msr priv0 =
     (let recv_len_init = (pos priv0 = 0 \<and> tst (mflags (cur_msg priv0)) I2C_M_RECV_LEN)
      in if \<not> tst msr MDR then priv0
         else if tst msr MAT then
           recv_phase (MDR OR MAT) recv_len_init (snd (rcar_i2c_dma inp priv0))
         else if pos priv0 < len (cur_msg priv0) then
           let priv = emit (Read ICRXTX) priv0;
               data = (ucast (icrxtx_in inp) :: 8 word);
               priv = set_cur_msg
                        ((cur_msg priv)\<lparr>buf := (buf (cur_msg priv))(nat (pos priv) := data)\<rparr>) priv
           in if recv_len_init then
                if data = 0 \<or> uint data > I2C_SMBUS_BLOCK_MAX
                then priv\<lparr>flags := flags priv OR (ID_DONE OR ID_EPROTO)\<rparr>
                else
                  let priv = set_cur_msg
                        ((cur_msg priv)\<lparr>len := u16 (len (cur_msg priv)
                                                    + uint (buf (cur_msg priv) 0))\<rparr>) priv;
                      (taken, priv) = rcar_i2c_dma inp priv
                  in if taken then priv
                     else recv_phase MDR False (priv\<lparr>pos := pos priv + 1\<rparr>)
              else recv_phase MDR recv_len_init (priv\<lparr>pos := pos priv + 1\<rparr>)
         else recv_phase MDR recv_len_init priv0)"

subsection \<open>Target (slave) events\<close>

definition i2c_slave_event ::
  "hw_in \<Rightarrow> slave_ev \<Rightarrow> 8 word \<Rightarrow> rcar_i2c_priv \<Rightarrow> int \<times> 8 word \<times> rcar_i2c_priv" where
  "i2c_slave_event inp ev val priv =
     (let (ret, val') = slave_cb inp ev val in (ret, val', emit (Slave_event ev) priv))"

definition slave_nack :: "int \<Rightarrow> rcar_i2c_priv \<Rightarrow> rcar_i2c_priv" where
  "slave_nack ret priv =
     (if ret \<noteq> 0 then priv\<lparr>slave_flags := slave_flags priv OR ID_SLAVE_NACK\<rparr> else priv)"

definition rcar_i2c_slave_irq :: "hw_in \<Rightarrow> rcar_i2c_priv \<Rightarrow> bool \<times> rcar_i2c_priv" where
  "rcar_i2c_slave_irq inp priv0 =
     (let priv = emit (Read ICSSR) priv0;
          ssr_raw = icssr_in inp AND 0xff;
          priv = emit (Read ICSIER) priv;
          ssr_filtered = ssr_raw AND io_regs priv ICSIER
      in if ssr_filtered = 0 then (False, priv)
         else
           let val = uninit_value inp;
               (val, priv) =
                 (if tst ssr_filtered SAR then
                    let (val, priv) =
                          (if tst ssr_raw STM then
                             let (ret, val, priv) = i2c_slave_event inp I2C_SLAVE_READ_REQUESTED val priv;
                                 priv = rcar_i2c_write ICRXTX (ucast val) priv;
                                 priv = rcar_i2c_write ICSIER (SDE OR SSR OR SAR) priv
                             in (val, priv)
                           else
                             let (ret, val, priv) = i2c_slave_event inp I2C_SLAVE_WRITE_REQUESTED val priv;
                                 priv = slave_nack ret priv;
                                 priv = emit (Read ICRXTX) priv;
                                 priv = rcar_i2c_write ICSIER (SDR OR SSR OR SAR) priv
                             in (val, priv))
                    in (val, rcar_i2c_write ICSSR (NOT (SAR OR SSR) AND 0xff) priv)
                  else (val, priv));
               (val, priv) =
                 (if tst ssr_filtered SSR then
                    let (ret, val, priv) = i2c_slave_event inp I2C_SLAVE_STOP val priv;
                        priv = rcar_i2c_write ICSCR (SIE OR SDBS) priv;
                        priv = priv\<lparr>slave_flags := slave_flags priv AND NOT ID_SLAVE_NACK\<rparr>;
                        priv = rcar_i2c_write ICSIER SAR priv
                    in (val, rcar_i2c_write ICSSR (NOT SSR AND 0xff) priv)
                  else (val, priv));
               (val, priv) =
                 (if tst ssr_filtered SDR then
                    let priv = emit (Read ICRXTX) priv;
                        val = ucast (icrxtx_in inp);
                        (ret, val, priv) = i2c_slave_event inp I2C_SLAVE_WRITE_RECEIVED val priv;
                        priv = slave_nack ret priv;
                        priv = rcar_i2c_write ICSCR
                                 (SIE OR SDBS OR (if tst (slave_flags priv) ID_SLAVE_NACK then FNA else 0))
                                 priv
                    in (val, rcar_i2c_write ICSSR (NOT SDR AND 0xff) priv)
                  else (val, priv));
               (val, priv) =
                 (if tst ssr_filtered SDE then
                    let (ret, val, priv) = i2c_slave_event inp I2C_SLAVE_READ_PROCESSED val priv;
                        priv = rcar_i2c_write ICRXTX (ucast val) priv
                    in (val, rcar_i2c_write ICSSR (NOT SDE AND 0xff) priv)
                  else (val, priv))
           in (True, priv))"

subsection \<open>The shared handler and its two entries\<close>

datatype irqreturn = IRQ_NONE | IRQ_HANDLED

text \<open>The code after the label \<open>out:\<close>.\<close>

definition irq_out :: "rcar_i2c_priv \<Rightarrow> rcar_i2c_priv" where
  "irq_out priv0 =
     (if tst (flags priv0) ID_DONE then
        let priv = rcar_i2c_write ICMIER 0 priv0;
            priv = rcar_i2c_write ICMSR 0 priv
        in if tst (flags priv) ID_P_NOT_ATOMIC then emit Wake_up priv else priv
      else priv0)"

text \<open>
  The branches of the shared handler for a non-zero status, each of which ends at the
  label \<open>out:\<close>.
\<close>

definition irq_event :: "hw_in \<Rightarrow> w32 \<Rightarrow> rcar_i2c_priv \<Rightarrow> rcar_i2c_priv" where
  "irq_event inp msr priv0 =
     (if tst msr MAL then priv0\<lparr>flags := flags priv0 OR (ID_DONE OR ID_ARBLOST)\<rparr>
      else if tst msr MNR then
        let priv = (if tst (flags priv0) ID_P_NOT_ATOMIC
                    then rcar_i2c_write ICMIER RCAR_IRQ_STOP priv0 else priv0)
        in priv\<lparr>flags := flags priv OR ID_NACK\<rparr>
      else if tst msr MST then
        let priv = priv0\<lparr>msgs_left := msgs_left priv0 - 1\<rparr>
        in priv\<lparr>flags := flags priv OR ID_DONE\<rparr>
      else if rcar_i2c_is_recv priv0 then rcar_i2c_irq_recv inp msr priv0
      else rcar_i2c_irq_send inp msr priv0)"

definition rcar_i2c_irq :: "hw_in \<Rightarrow> w32 \<Rightarrow> rcar_i2c_priv \<Rightarrow> irqreturn \<times> rcar_i2c_priv" where
  "rcar_i2c_irq inp msr priv0 =
     (if msr = 0 then
        let (handled, priv) = rcar_i2c_slave_irq inp priv0
        in if handled then (IRQ_HANDLED, priv) else (IRQ_NONE, priv)
      else (IRQ_HANDLED, irq_out (irq_event inp msr priv0)))"

text \<open>
  Reading ICMSR yields the hardware's status (\<open>icmsr_in\<close>); reading ICMIER yields the
  value last written to it.
\<close>

definition read_msr :: "hw_in \<Rightarrow> rcar_i2c_priv \<Rightarrow> w32 \<times> rcar_i2c_priv" where
  "read_msr inp priv0 =
     (let priv = emit (Read ICMSR) priv0;
          msr = icmsr_in inp
      in if tst (flags priv) ID_P_NOT_ATOMIC
         then (msr AND io_regs priv ICMIER, emit (Read ICMIER) priv)
         else (msr, priv))"

definition rcar_i2c_gen2_irq :: "hw_in \<Rightarrow> rcar_i2c_priv \<Rightarrow> irqreturn \<times> rcar_i2c_priv" where
  "rcar_i2c_gen2_irq inp priv0 =
     (let priv = (if \<not> tst (flags priv0) ID_REP_AFTER_RD
                  then rcar_i2c_write ICMCR RCAR_BUS_PHASE_DATA priv0 else priv0);
          (msr, priv) = read_msr inp priv
      in rcar_i2c_irq inp msr priv)"

definition rcar_i2c_gen3_irq :: "hw_in \<Rightarrow> rcar_i2c_priv \<Rightarrow> irqreturn \<times> rcar_i2c_priv" where
  "rcar_i2c_gen3_irq inp priv0 =
     (let (msr, priv) = read_msr inp priv0;
          priv = (if \<not> tst (flags priv) ID_REP_AFTER_RD \<and> msr \<noteq> 0
                  then rcar_i2c_write ICMCR RCAR_BUS_PHASE_DATA priv else priv)
      in rcar_i2c_irq inp msr priv)"

section \<open>Transfer entry point\<close>

text \<open>
  \<open>rcar_i2c_probe\<close> registers \<open>rcar_i2c_gen2_irq\<close> for Gen1/Gen2 and
  \<open>rcar_i2c_gen3_irq\<close> for the later generations.
\<close>

definition irqhandler :: "hw_in \<Rightarrow> rcar_i2c_priv \<Rightarrow> irqreturn \<times> rcar_i2c_priv" where
  "irqhandler inp priv =
     (if gen_of (devtype priv) < gen_of I2C_RCAR_GEN3
      then rcar_i2c_gen2_irq inp priv else rcar_i2c_gen3_irq inp priv)"

text \<open>
  While the submitting thread sleeps in \<open>wait_event_timeout\<close>, interrupts arrive and DMA
  transfers complete.  A completion callback only exists for a descriptor in flight.
\<close>

datatype xfer_event = Irq hw_in | Dma_complete

fun deliver :: "xfer_event \<Rightarrow> rcar_i2c_priv \<Rightarrow> rcar_i2c_priv" where
  "deliver (Irq inp) priv = snd (irqhandler inp priv)"
| "deliver Dma_complete priv =
     (if dma_direction priv \<noteq> DMA_NONE then rcar_i2c_dma_callback priv else priv)"

text \<open>
  The collaborators of \<open>rcar_i2c_master_xfer\<close> outside the driver file, as results:
  the bus-busy poll and the generic bus recovery, the reset controller, the DMA channel
  request, and the events that occur during the wait.  Runtime power management is not
  modelled.
\<close>

record xfer_env =
  barrier_poll :: int
  recover_bus :: int
  reset_control_reset :: int
  reset_poll :: int
  dma_request_chan :: "bool \<Rightarrow> dma_chan"
  slave_config :: "bool \<Rightarrow> int"
  events :: "xfer_event list"

definition rcar_i2c_bus_barrier :: "xfer_env \<Rightarrow> rcar_i2c_priv \<Rightarrow> int \<times> rcar_i2c_priv" where
  "rcar_i2c_bus_barrier env priv =
     (let ret = barrier_poll env
      in if ret \<noteq> 0
         then (recover_bus env, priv\<lparr>recovery_icmcr := MDBS OR OBPC OR FSDA OR FSCL\<rparr>)
         else (ret, priv))"

definition rcar_i2c_do_reset :: "xfer_env \<Rightarrow> rcar_i2c_priv \<Rightarrow> int" where
  "rcar_i2c_do_reset env priv =
     (if slave priv then - EISCONN
      else if reset_control_reset env \<noteq> 0 then reset_control_reset env
      else reset_poll env)"

definition rcar_i2c_request_dma_chan :: "xfer_env \<Rightarrow> bool \<Rightarrow> dma_chan" where
  "rcar_i2c_request_dma_chan env read =
     (let chan = dma_request_chan env read
      in if IS_ERR chan then chan
         else if slave_config env read \<noteq> 0 then Chan_err (- slave_config env read)
         else chan)"

definition rcar_i2c_request_dma :: "xfer_env \<Rightarrow> i2c_msg \<Rightarrow> rcar_i2c_priv \<Rightarrow> rcar_i2c_priv" where
  "rcar_i2c_request_dma env m priv =
     (let read = tst (mflags m) I2C_M_RD;
          chan = (if read then dma_rx priv else dma_tx priv)
      in if chan \<noteq> Chan_err EPROBE_DEFER then priv
         else
           let chan = rcar_i2c_request_dma_chan env read
           in if read then priv\<lparr>dma_rx := chan\<rparr> else priv\<lparr>dma_tx := chan\<rparr>)"

text \<open>The mapping of the final flags to the return value, after the wait.\<close>

definition xfer_result :: "bool \<Rightarrow> int \<Rightarrow> rcar_i2c_priv \<Rightarrow> int \<times> rcar_i2c_priv" where
  "xfer_result time_left num priv =
     (if \<not> time_left then (- ETIMEDOUT, rcar_i2c_init priv)
      else if tst (flags priv) ID_NACK then (- ENXIO, priv)
      else if tst (flags priv) ID_ARBLOST then (- EAGAIN, priv)
      else if tst (flags priv) ID_EPROTO then (- EPROTO, priv)
      else (num - msgs_left priv, priv))"

text \<open>The code after the label \<open>out:\<close> of \<open>rcar_i2c_master_xfer\<close>.\<close>

definition xfer_out :: "int \<times> rcar_i2c_priv \<Rightarrow> int \<times> rcar_i2c_priv" where
  "xfer_out rp =
     (let (ret, priv) = rp
      in if ret < 0 \<and> ret \<noteq> - ENXIO then (ret, emit (Dev_err ret (flags priv)) priv)
         else (ret, priv))"

text \<open>
  From \<open>rcar_i2c_init\<close> to the result mapping.  \<open>wait_event_timeout\<close> returns 0 exactly
  when its condition, the done flag, is still false at the end of the wait.
\<close>

definition xfer_run ::
  "xfer_env \<Rightarrow> i2c_msg list \<Rightarrow> int \<Rightarrow> rcar_i2c_priv \<Rightarrow> int \<times> rcar_i2c_priv" where
  "xfer_run env ms num priv0 =
     (let priv = rcar_i2c_init priv0;
          priv = fold (rcar_i2c_request_dma env) (take (nat num) ms) priv;
          priv = rcar_i2c_first_msg ms num priv;
          priv = fold deliver (events env) priv;
          time_left = tst (flags priv) ID_DONE;
          priv = (if dma_direction priv \<noteq> DMA_NONE then rcar_i2c_cleanup_dma True priv else priv)
      in xfer_result time_left num priv)"

definition rcar_i2c_master_xfer ::
  "xfer_env \<Rightarrow> i2c_msg list \<Rightarrow> int \<Rightarrow> rcar_i2c_priv \<Rightarrow> int \<times> rcar_i2c_priv" where
  "rcar_i2c_master_xfer env ms num priv0 =
     (let priv = priv0\<lparr>flags := flags priv0 OR ID_P_NOT_ATOMIC\<rparr>;
          (ret, priv) = rcar_i2c_bus_barrier env priv
      in if ret < 0 then xfer_out (ret, priv)
         else if gen_of (devtype priv) \<ge> gen_of I2C_RCAR_GEN3 then
           let ret = rcar_i2c_do_reset env priv
           in if ret \<noteq> 0 then xfer_out (ret, priv)
              else xfer_out (xfer_run env ms num (priv\<lparr>flags := flags priv AND NOT ID_P_NO_RXDMA\<rparr>))
         else xfer_out (xfer_run env ms num priv))"

section \<open>Reachable states of a transfer\<close>

text \<open>
  A batch as the entry points receive it: an array of \<open>num \<ge> 1\<close> messages whose lengths
  are \<open>__u16\<close> values.
\<close>

definition batch_wf :: "i2c_msg list \<Rightarrow> bool" where
  "batch_wf ms \<longleftrightarrow> ms \<noteq> [] \<and> list_all (\<lambda>m. 0 \<le> len m \<and> len m \<le> 65535) ms"

text \<open>
  The handlers are entered by the interrupt in may-sleep mode and, in atomic mode, by the
  polling loop of \<open>rcar_i2c_master_xfer_atomic\<close>, whose condition
  \<open>!(priv->flags & ID_DONE) && time_left\<close> ends the polling once the done flag is set.
\<close>

definition handler_runs :: "rcar_i2c_priv \<Rightarrow> bool" where
  "handler_runs priv \<longleftrightarrow> tst (flags priv) ID_P_NOT_ATOMIC \<or> \<not> tst (flags priv) ID_DONE"

text \<open>
  The states of a transfer: those that \<open>rcar_i2c_first_msg\<close> sets up for a batch while no
  DMA transfer is in flight (\<open>rcar_i2c_probe\<close> starts with \<open>DMA_NONE\<close>, and a transfer ends
  with it), and those reached from them by an interrupt of either entry, with any status
  and any data, or by the completion callback of a DMA transfer in flight.
\<close>

inductive reachable :: "rcar_i2c_priv \<Rightarrow> bool" where
  start: "batch_wf ms \<Longrightarrow> dma_direction priv = DMA_NONE \<Longrightarrow>
     reachable (rcar_i2c_first_msg ms (int (length ms)) priv)"
| irq_gen2: "reachable priv \<Longrightarrow> handler_runs priv \<Longrightarrow>
     reachable (snd (rcar_i2c_gen2_irq inp priv))"
| irq_gen3: "reachable priv \<Longrightarrow> handler_runs priv \<Longrightarrow>
     reachable (snd (rcar_i2c_gen3_irq inp priv))"
| dma_complete: "reachable priv \<Longrightarrow> dma_direction priv \<noteq> DMA_NONE \<Longrightarrow>
     reachable (rcar_i2c_dma_callback priv)"

text \<open>
  What the driver relies on without checking it.  A length-prefixed receive leaves room
  in its \<open>__u16\<close> length for the largest block count, which the handler adds to it.
  While a DMA transfer is in flight the DMA engine, not the handler, serves the data
  requests, so that the status shows no data-ready in a receive and no data-empty in a
  transmit; and in a receive the address-phase status accompanies only the first event
  of a message.
\<close>

definition msg_ok :: "i2c_msg \<Rightarrow> bool" where
  "msg_ok m \<longleftrightarrow> 0 \<le> len m \<and> len m \<le> 65535
     \<and> (tst (mflags m) I2C_M_RECV_LEN \<longrightarrow> len m + I2C_SMBUS_BLOCK_MAX \<le> 65535)"

definition batch_ok :: "i2c_msg list \<Rightarrow> bool" where
  "batch_ok ms \<longleftrightarrow> ms \<noteq> [] \<and> list_all msg_ok ms"

definition hw_discipline :: "rcar_i2c_priv \<Rightarrow> hw_in \<Rightarrow> bool" where
  "hw_discipline priv inp \<longleftrightarrow>
     (dma_direction priv \<noteq> DMA_NONE \<longrightarrow>
        (if rcar_i2c_is_recv priv then \<not> tst (icmsr_in inp) MDR else \<not> tst (icmsr_in inp) MDE))
     \<and> (tst (icmsr_in inp) MAT \<and> rcar_i2c_is_recv priv \<longrightarrow> pos priv = 0)"

text \<open>The states of a transfer in which batch and hardware keep to that.\<close>

inductive reachable_disciplined :: "rcar_i2c_priv \<Rightarrow> bool" where
  start: "batch_ok ms \<Longrightarrow> dma_direction priv = DMA_NONE \<Longrightarrow>
     reachable_disciplined (rcar_i2c_first_msg ms (int (length ms)) priv)"
| irq_gen2: "reachable_disciplined priv \<Longrightarrow> handler_runs priv \<Longrightarrow> hw_discipline priv inp \<Longrightarrow>
     reachable_disciplined (snd (rcar_i2c_gen2_irq inp priv))"
| irq_gen3: "reachable_disciplined priv \<Longrightarrow> handler_runs priv \<Longrightarrow> hw_discipline priv inp \<Longrightarrow>
     reachable_disciplined (snd (rcar_i2c_gen3_irq inp priv))"
| dma_complete: "reachable_disciplined priv \<Longrightarrow> dma_direction priv \<noteq> DMA_NONE \<Longrightarrow>
     reachable_disciplined (rcar_i2c_dma_callback priv)"

text \<open>
  The stop condition has been observed: the done flag is set and neither arbitration
  loss nor a protocol error accompanies it.
\<close>

definition stopped :: "rcar_i2c_priv \<Rightarrow> bool" where
  "stopped priv \<longleftrightarrow>
     tst (flags priv) ID_DONE \<and> \<not> tst (flags priv) ID_ARBLOST \<and> \<not> tst (flags priv) ID_EPROTO"

text \<open>
  The invariant of the message count, which every state of a transfer satisfies: the
  current message exists; the position is not negative; arbitration loss and protocol
  error come with the done flag; before the done flag the last-message flag mirrors the
  count; the count plus the index of the current message is the size of the batch, less
  one once the stop has been observed; a DMA transfer in flight has a positive length.
\<close>

definition count_inv :: "rcar_i2c_priv \<Rightarrow> bool" where
  "count_inv priv \<longleftrightarrow>
     msg priv < length (msgs priv)
     \<and> 0 \<le> pos priv
     \<and> (tst (flags priv) ID_ARBLOST \<longrightarrow> tst (flags priv) ID_DONE)
     \<and> (tst (flags priv) ID_EPROTO \<longrightarrow> tst (flags priv) ID_DONE)
     \<and> (\<not> tst (flags priv) ID_DONE \<longrightarrow> (tst (flags priv) ID_LAST_MSG \<longleftrightarrow> msgs_left priv = 1))
     \<and> int (msg priv) + msgs_left priv + (if stopped priv then 1 else 0) = int (length (msgs priv))
     \<and> (dma_direction priv \<noteq> DMA_NONE \<longrightarrow> 0 < sg_len priv)"


text \<open>
  The invariant of a transfer in which batch and hardware keep to what the driver relies
  on.  Besides the bounds on the position it records what keeps them: the later
  messages are well formed, and a DMA transfer in flight fits in the rest of the buffer.
\<close>

definition core_inv :: "rcar_i2c_priv \<Rightarrow> bool" where
  "core_inv priv \<longleftrightarrow>
     msg priv < length (msgs priv)
     \<and> 0 \<le> pos priv \<and> pos priv \<le> len (cur_msg priv) \<and> len (cur_msg priv) \<le> 65535
     \<and> (tst (mflags (cur_msg priv)) I2C_M_RECV_LEN \<and> pos priv = 0 \<and> dma_direction priv = DMA_NONE
          \<longrightarrow> len (cur_msg priv) + I2C_SMBUS_BLOCK_MAX \<le> 65535)
     \<and> (\<forall>i. msg priv < i \<and> i < length (msgs priv) \<longrightarrow> msg_ok (msgs priv ! i))
     \<and> (tst (flags priv) ID_ARBLOST \<longrightarrow> tst (flags priv) ID_DONE)
     \<and> (tst (flags priv) ID_EPROTO \<longrightarrow> tst (flags priv) ID_DONE)
     \<and> (\<not> tst (flags priv) ID_DONE \<longrightarrow> (tst (flags priv) ID_LAST_MSG \<longleftrightarrow> msgs_left priv = 1))
     \<and> int (msg priv) + msgs_left priv + (if stopped priv then 1 else 0) = int (length (msgs priv))
     \<and> (dma_direction priv \<noteq> DMA_NONE \<longrightarrow>
          0 < sg_len priv \<and> pos priv + sg_len priv \<le> len (cur_msg priv))"


text \<open>The activity that a handler invocation adds to the log.\<close>

definition activity :: "rcar_i2c_priv \<Rightarrow> rcar_i2c_priv \<Rightarrow> io_event list" where
  "activity before after = drop (length (io_log before)) (io_log after)"

text \<open>
  The eligibility conditions for DMA as the specification lists them: may-sleep mode, a
  channel for the direction, at least 8 bytes, a DMA-safe buffer and, for a receive, no
  ban on receive DMA.
\<close>

definition dma_feasible :: "rcar_i2c_priv \<Rightarrow> bool" where
  "dma_feasible priv \<longleftrightarrow>
     tst (flags priv) ID_P_NOT_ATOMIC
     \<and> \<not> IS_ERR (if rcar_i2c_is_recv priv then dma_rx priv else dma_tx priv)
     \<and> 8 \<le> len (cur_msg priv)
     \<and> tst (mflags (cur_msg priv)) I2C_M_DMA_SAFE
     \<and> (rcar_i2c_is_recv priv \<longrightarrow> \<not> tst (flags priv) ID_P_NO_RXDMA)"

text \<open>The log of a later context extends that of an earlier one, without a wake-up.\<close>

definition extends_log :: "rcar_i2c_priv \<Rightarrow> rcar_i2c_priv \<Rightarrow> bool" where
  "extends_log before after \<longleftrightarrow>
     (\<exists>ext. io_log after = io_log before @ ext \<and> Wake_up \<notin> set ext)"

section \<open>Example inputs\<close>

text \<open>Messages, contexts and hardware inputs at which the theorems are instantiated.\<close>

definition rd8 :: i2c_msg where
  "rd8 = \<lparr>addr = 0x50, mflags = I2C_M_RD OR I2C_M_DMA_SAFE, len = 8, buf = (\<lambda>i. 0)\<rparr>"

definition wr8 :: i2c_msg where
  "wr8 = \<lparr>addr = 0x50, mflags = I2C_M_DMA_SAFE, len = 8, buf = (\<lambda>i. 0x11)\<rparr>"

text \<open>An input with the given status and data in which every DMA engine call succeeds.\<close>

definition hw_ok :: "w32 \<Rightarrow> w32 \<Rightarrow> hw_in" where
  "hw_ok msr data =
     \<lparr>icmsr_in = msr, icrxtx_in = data, icssr_in = 0, dma_map_ok = True, dma_prep_ok = True,
      dma_submit_ok = True, slave_cb = (\<lambda>ev v. (0, v)), uninit_value = 0\<rparr>"

text \<open>The same, with a DMA engine that refuses to prepare a descriptor.\<close>

definition hw_noprep :: "w32 \<Rightarrow> w32 \<Rightarrow> hw_in" where
  "hw_noprep msr data = (hw_ok msr data)\<lparr>dma_prep_ok := False\<rparr>"

text \<open>A Gen3 controller in may-sleep mode with both DMA channels, working on \<open>ms\<close>.\<close>

definition dma_priv :: "i2c_msg list \<Rightarrow> rcar_i2c_priv" where
  "dma_priv ms =
     (probe_priv I2C_RCAR_GEN3)\<lparr>flags := ID_P_NOT_ATOMIC, msgs := ms, dma_tx := Chan, dma_rx := Chan\<rparr>"

text \<open>
  A two-byte receive followed by a one-byte transmit on a Gen2 controller in may-sleep
  mode, after the address phase and the first received byte: the handler has programmed
  the repeated start and recorded it.
\<close>

definition rd2 :: i2c_msg where
  "rd2 = \<lparr>addr = 0x50, mflags = I2C_M_RD, len = 2, buf = (\<lambda>i. 0)\<rparr>"

definition wr1 :: i2c_msg where
  "wr1 = \<lparr>addr = 0x50, mflags = 0, len = 1, buf = (\<lambda>i. 0x11)\<rparr>"

definition gen2_start :: rcar_i2c_priv where
  "gen2_start = rcar_i2c_first_msg [rd2, wr1] 2 ((probe_priv I2C_RCAR_GEN2)\<lparr>flags := ID_P_NOT_ATOMIC\<rparr>)"

definition gen2_rep_start :: rcar_i2c_priv where
  "gen2_rep_start =
     snd (rcar_i2c_gen2_irq (hw_ok MDR 0x42) (snd (rcar_i2c_gen2_irq (hw_ok (MAT OR MDR) 0) gen2_start)))"

text \<open>A block receive whose length is announced by its first byte.\<close>

definition rdl :: i2c_msg where
  "rdl = \<lparr>addr = 0x50, mflags = I2C_M_RD OR I2C_M_RECV_LEN, len = 1, buf = (\<lambda>i. 0)\<rparr>"









text \<open>
  Collaborators of \<open>rcar_i2c_master_xfer\<close> that all succeed: the bus is free, the reset
  works, both DMA channels are granted; \<open>evs\<close> are the events during the wait.
\<close>

definition env_ok :: "xfer_event list \<Rightarrow> xfer_env" where
  "env_ok evs =
     \<lparr>barrier_poll = 0, recover_bus = 0, reset_control_reset = 0, reset_poll = 0,
      dma_request_chan = (\<lambda>read. Chan), slave_config = (\<lambda>read. 0), events = evs\<rparr>"



text \<open>
  A length-prefixed receive with a DMA-safe buffer and a declared length of 8, and the
  events of its transfer on a Gen3 controller: the address phase, the completion of the
  DMA transfer, the last two bytes delivered to the handler, and the stop.
\<close>

definition rdl8 :: i2c_msg where
  "rdl8 = \<lparr>addr = 0x50, mflags = I2C_M_RD OR I2C_M_RECV_LEN OR I2C_M_DMA_SAFE, len = 8,
           buf = (\<lambda>i. 0)\<rparr>"

definition rdl8_events :: "xfer_event list" where
  "rdl8_events =
     [Irq (hw_ok (MAT OR MDR) 0), Dma_complete, Irq (hw_ok MDR 0), Irq (hw_ok MDR 0),
      Irq (hw_ok MST 0)]"

text \<open>A length-prefixed receive of declared length 1 with a DMA-safe buffer.\<close>

definition rdl_safe :: i2c_msg where
  "rdl_safe = \<lparr>addr = 0x50, mflags = I2C_M_RD OR I2C_M_RECV_LEN OR I2C_M_DMA_SAFE, len = 1,
               buf = (\<lambda>i. 0)\<rparr>"

section \<open>Properties of the clock calculator\<close>

lemma u32_id: "0 \<le> x \<Longrightarrow> x < 4294967296 \<Longrightarrow> u32 x = x"
  by (simp add: u32_def)

lemma u32_neg: "- 4294967296 \<le> x \<Longrightarrow> x < 0 \<Longrightarrow> u32 x = x + 4294967296"
proof -
  assume a: "- 4294967296 \<le> x" "x < 0"
  have "u32 x = (x + 4294967296) mod 4294967296" by (simp add: u32_def)
  also have "\<dots> = x + 4294967296" using a by (intro mod_pos_pos_trivial) auto
  finally show ?thesis .
qed

lemma u32_over: "4294967296 \<le> x \<Longrightarrow> x < 8589934592 \<Longrightarrow> u32 x = x - 4294967296"
proof -
  assume a: "4294967296 \<le> x" "x < 8589934592"
  have "u32 x = (x - 4294967296) mod 4294967296" by (simp add: u32_def)
  also have "\<dots> = x - 4294967296" using a by (intro mod_pos_pos_trivial) auto
  finally show ?thesis .
qed

lemma u32_add_left: "u32 (u32 a + b) = u32 (a + b)"
  by (simp add: u32_def mod_add_left_eq)

lemma u32_range: "0 \<le> u32 x" "u32 x < 4294967296"
  by (simp_all add: u32_def)

lemma ceil_div_ge: "0 < d \<Longrightarrow> n \<le> d * ((n + d - 1) div d)" for n d :: int
proof -
  assume d: "0 < d"
  have "d * ((n + d - 1) div d) = (n + d - 1) - (n + d - 1) mod d"
    by (simp add: minus_mod_eq_mult_div)
  moreover have "(n + d - 1) mod d < d" using d by simp
  ultimately show ?thesis by linarith
qed

lemma div_lt_intI: "0 < d \<Longrightarrow> a < c * d \<Longrightarrow> a div d < c" for a c d :: int
proof (rule ccontr)
  assume d: "0 < d" and a: "a < c * d" and n: "\<not> a div d < c"
  from n have "c \<le> a div d" by simp
  then have "c * d \<le> (a div d) * d" using d by (simp add: mult_right_mono)
  also have "\<dots> = a - a mod d" by (simp add: minus_mod_eq_div_mult)
  also have "\<dots> \<le> a" using d by simp
  finally show False using a by simp
qed

lemma ceil_div_le: "0 \<le> n \<Longrightarrow> 1 \<le> d \<Longrightarrow> (n + d - 1) div d \<le> n" for n d :: int
proof -
  assume n: "0 \<le> n" and d: "1 \<le> d"
  have "n * 1 \<le> n * d" using n d by (intro mult_left_mono) auto
  then have "n + d - 1 < (n + 1) * d" by (simp add: algebra_simps)
  then have "(n + d - 1) div d < n + 1" using d by (intro div_lt_intI) auto
  then show ?thesis by simp
qed

lemma drop_bit_field:
  assumes "0 \<le> c" "c < 2 ^ w"
  shows "drop_bit w (push_bit w s OR c) = (s::int)"
proof -
  have "take_bit w c = c" using assms by (simp add: take_bit_int_eq_self)
  then have nb: "\<not> bit c (n + w)" for n by (metis bit_take_bit_iff not_add_less2)
  show ?thesis by (rule bit_eqI) (simp add: bit_simps nb add.commute)
qed

lemma or_field:
  assumes "0 \<le> c" "c < 2 ^ w"
  shows "push_bit w s OR c = s * 2 ^ w + (c::int)"
proof -
  have "take_bit w c = c" using assms by (simp add: take_bit_int_eq_self)
  then have "push_bit w s OR c = push_bit w s OR take_bit w c" by simp
  also have "\<dots> = push_bit w s + take_bit w c"
    by (rule disjunctive_add [symmetric]) (auto simp: bit_simps)
  finally show ?thesis using \<open>take_bit w c = c\<close> by (simp add: push_bit_eq_mult)
qed

lemma clk_freq_range: "1 \<le> clk_freq t" "clk_freq t < 4294967296"
proof -
  have a: "0 \<le> uint (bus_freq_hz t)" by simp
  have b: "uint (bus_freq_hz t) < 4294967296" using uint_bounded [of "bus_freq_hz t"] by simp
  show "1 \<le> clk_freq t" unfolding clk_freq_def using a by arith
  show "clk_freq t < 4294967296" unfolding clk_freq_def using b by arith
qed

lemma clk_round_range: "0 \<le> clk_round t ick" "clk_round t ick \<le> 4294967"
proof -
  have "\<And>y. 0 \<le> u32 y div 1000 \<and> u32 y div 1000 \<le> 4294967"
  proof -
    fix y show "0 \<le> u32 y div 1000 \<and> u32 y div 1000 \<le> 4294967"
      using u32_range [of y] by arith
  qed
  then show "0 \<le> clk_round t ick" "clk_round t ick \<le> 4294967"
    by (simp_all add: clk_round_def DIV_ROUND_CLOSEST_def Let_def)
qed

lemma DIV_ROUND_UP_u32:
  assumes "0 \<le> n" "n < 4294967296" "1 \<le> d" "d < 4294967296"
  shows "DIV_ROUND_UP u32 n d = (if n + d - 1 < 4294967296 then (n + d - 1) div d else 0)"
proof (cases "n + d - 1 < 4294967296")
  case True
  then show ?thesis using assms by (simp add: DIV_ROUND_UP_def u32_id)
next
  case False
  then have "u32 (n + d - 1) = n + d - 1 - 4294967296" using assms by (intro u32_over) auto
  moreover have "n + d - 1 - 4294967296 < d" "0 \<le> n + d - 1 - 4294967296" using assms False by auto
  ultimately show ?thesis using False by (simp add: DIV_ROUND_UP_def div_pos_pos_trivial)
qed


lemma legacy_core:
  assumes ick: "0 \<le> ick" "ick < 4294967296"
    and rnd: "0 \<le> round" "round \<le> 4294967"
    and ok: "clk_scgd t ick round \<le> 63"
  shows "ick \<le> clk_freq t * (20 + 8 * clk_scgd t ick round + round)
       \<and> 0 \<le> clk_scgd t ick round
       \<and> clk_scgd t ick round = ((ick + clk_freq t - 1) div clk_freq t - 20 - round + 7) div 8"
proof -
  define f where "f = clk_freq t"
  define s where "s = DIV_ROUND_UP u32 ick f"
  define m where "m = s - 20 - round"
  have f: "1 \<le> f" "f < 4294967296" using clk_freq_range by (simp_all add: f_def)
  have s_eq: "s = (if ick + f - 1 < 4294967296 then (ick + f - 1) div f else 0)"
    unfolding s_def using ick f by (rule DIV_ROUND_UP_u32)
  have scgd: "clk_scgd t ick round = u32 (u32 m + 7) div 8"
    by (simp add: clk_scgd_def Let_def DIV_ROUND_UP_def f_def s_def m_def add.commute)
  have s_lo: "0 \<le> s" using s_eq ick f by (simp add: pos_imp_zdiv_nonneg_iff)
  have "(ick + f - 1) div f \<le> ick + f - 1" using ick f zdiv_mono2 [of "ick + f - 1" 1 f] by simp
  then have s_hi: "s < 4294967296" using s_eq by (auto split: if_splits)
  have small: "u32 (u32 m + 7) \<le> 511" using ok u32_range [of "u32 m + 7"] unfolding scgd by arith
  have m_rng: "- 4294967296 \<le> m" "m < 4294967296" using s_lo s_hi rnd by (simp_all add: m_def)
  have m_val: "- 7 \<le> m \<and> m \<le> 504 \<and> u32 (u32 m + 7) = m + 7"
  proof (cases "0 \<le> m")
    case True
    then have um: "u32 m = m" using m_rng by (simp add: u32_id)
    show ?thesis
    proof (cases "m + 7 < 4294967296")
      case True
      then have "u32 (m + 7) = m + 7" using \<open>0 \<le> m\<close> by (simp add: u32_id)
      then show ?thesis using small um \<open>0 \<le> m\<close> by simp
    next
      case False
      then have "s \<ge> 4294967296" using rnd by (simp add: m_def)
      then show ?thesis using s_hi by simp
    qed
  next
    case False
    then have um: "u32 m = m + 4294967296" using m_rng by (simp add: u32_neg)
    show ?thesis
    proof (cases "m + 7 < 0")
      case True
      then have "u32 (m + 7) = m + 7 + 4294967296" using m_rng by (intro u32_neg) auto
      moreover have "u32 (u32 m + 7) = u32 (m + 7)" by (rule u32_add_left)
      ultimately show ?thesis using small m_rng rnd s_lo by (simp add: m_def)
    next
      case False
      have "u32 (u32 m + 7) = u32 (m + 7)" by (rule u32_add_left)
      also have "\<dots> = m + 7" using False \<open>\<not> 0 \<le> m\<close> by (intro u32_id) auto
      finally show ?thesis using False \<open>\<not> 0 \<le> m\<close> small by simp
    qed
  qed
  have nowrap: "ick + f - 1 < 4294967296"
  proof (rule ccontr)
    assume "\<not> ?thesis"
    then have "s = 0" using s_eq by simp
    then show False using m_val rnd by (simp add: m_def)
  qed
  then have s_div: "s = (ick + f - 1) div f" using s_eq by simp
  have "ick \<le> f * s" unfolding s_div using f by (intro ceil_div_ge) auto
  moreover have "s \<le> 20 + 8 * ((m + 7) div 8) + round" unfolding m_def by arith
  ultimately have "ick \<le> f * (20 + 8 * ((m + 7) div 8) + round)"
    using f by (smt (verit) mult_left_mono)
  moreover have "0 \<le> (m + 7) div 8" using m_val by arith
  ultimately show ?thesis using m_val unfolding scgd by (simp add: f_def s_div m_def)
qed


lemma round_up_tail:
  assumes m: "- 4294967296 + k \<le> m" "m < 4294967296 - k" and k: "0 \<le> k" "k < 4294967296"
  shows "u32 (u32 m + k) = (if 0 \<le> m + k then m + k else m + k + 4294967296)"
proof -
  have "u32 (u32 m + k) = u32 (m + k)" by (rule u32_add_left)
  also have "\<dots> = (if 0 \<le> m + k then m + k else m + k + 4294967296)"
    using m k by (auto simp: u32_id u32_neg)
  finally show ?thesis .
qed

lemma legacy_exact:
  assumes ick: "0 \<le> ick" "ick < 160000000"
    and rnd: "0 \<le> round" "round \<le> 4294967"
  shows "(0 \<le> ideal_scgd t ick round \<and> clk_scgd t ick round = ideal_scgd t ick round)
       \<or> (ideal_scgd t ick round < 0 \<and> 63 < clk_scgd t ick round)"
proof -
  define f where "f = clk_freq t"
  define c where "c = (ick + f - 1) div f"
  define s where "s = DIV_ROUND_UP u32 ick f"
  define m where "m = s - 20 - round"
  have f: "1 \<le> f" "f < 4294967296" using clk_freq_range by (simp_all add: f_def)
  have s_eq: "s = (if ick + f - 1 < 4294967296 then c else 0)"
    unfolding s_def c_def using ick f by (intro DIV_ROUND_UP_u32) auto
  have scgd: "clk_scgd t ick round = u32 (u32 m + 7) div 8"
    by (simp add: clk_scgd_def Let_def DIV_ROUND_UP_def f_def s_def m_def add.commute)
  have ideal: "ideal_scgd t ick round = (c - 20 - round + 7) div 8"
    by (simp add: ideal_scgd_def c_def f_def)
  have c_lo: "0 \<le> c" unfolding c_def using ick f by (simp add: pos_imp_zdiv_nonneg_iff)
  have c_hi: "c \<le> ick" unfolding c_def using ick f by (intro ceil_div_le) auto
  have s_rng: "0 \<le> s" "s < 4294967296 - 13" "s \<le> c"
    using s_eq c_lo c_hi ick by (auto split: if_splits)
  have tail: "u32 (u32 m + 7) = (if 0 \<le> m + 7 then m + 7 else m + 7 + 4294967296)"
    using s_rng rnd by (intro round_up_tail) (auto simp: m_def)
  have wrap: "c - 20 - round + 7 < 0 \<and> m + 7 < 0" if w: "\<not> ick + f - 1 < 4294967296"
  proof -
    have "ick + f - 1 < 2 * f" using w ick by simp
    then have "c < 2" unfolding c_def using f by (intro div_lt_intI) auto
    moreover have "s = 0" using w s_eq by simp
    ultimately show ?thesis using rnd by (simp add: m_def)
  qed
  show ?thesis
  proof (cases "ick + f - 1 < 4294967296")
    case True
    then have sc: "s = c" using s_eq by simp
    show ?thesis
    proof (cases "0 \<le> m + 7")
      case True
      then have "clk_scgd t ick round = (m + 7) div 8" using tail scgd by simp
      moreover have "0 \<le> (m + 7) div 8" using True by arith
      ultimately show ?thesis using ideal sc by (simp add: m_def)
    next
      case False
      then have "clk_scgd t ick round = (m + 7 + 4294967296) div 8" using tail scgd by simp
      moreover have "63 < (m + 7 + 4294967296) div 8" using rnd s_rng unfolding m_def by arith
      moreover have "(m + 7) div 8 < 0" using False by arith
      ultimately show ?thesis using ideal sc by (simp add: m_def)
    qed
  next
    case False
    from wrap [OF False] have neg: "c - 20 - round + 7 < 0" "m + 7 < 0" by simp_all
    then have "clk_scgd t ick round = (m + 7 + 4294967296) div 8" using tail scgd by simp
    moreover have "63 < (m + 7 + 4294967296) div 8" using rnd s_rng unfolding m_def by arith
    moreover have "(c - 20 - round + 7) div 8 < 0" using neg by arith
    ultimately show ?thesis using ideal by simp
  qed
qed


lemma clk_x_range: "0 \<le> clk_x a t rate smd0 round" "clk_x a t rate smd0 round * 5 < 4294967296"
proof -
  have "\<And>y. 0 \<le> u32 y div 9 \<and> u32 y div 9 * 5 < 4294967296"
  proof -
    fix y show "0 \<le> u32 y div 9 \<and> u32 y div 9 * 5 < 4294967296"
      using u32_range [of y] by arith
  qed
  then show "0 \<le> clk_x a t rate smd0 round" "clk_x a t rate smd0 round * 5 < 4294967296"
    by (simp_all add: clk_x_def DIV_ROUND_UP_def Let_def RCAR_SCHD_RATIO_def RCAR_SCLD_RATIO_def)
qed

lemma modern_exact:
  assumes rate: "0 \<le> rate" "rate < 160000000"
    and rnd: "0 \<le> round" "round \<le> 4294967"
  shows "(1 \<le> ideal_x t rate round \<and> clk_x a t rate 20 round = ideal_x t rate round)
       \<or> (ideal_x t rate round \<le> 0
          \<and> (clk_x a t rate 20 round = 0 \<or> 65535 < clk_x a t rate 20 round * 5))"
proof -
  define f where "f = clk_freq t"
  define c where "c = (rate + f - 1) div f"
  define x0 where "x0 = u32 (DIV_ROUND_UP (ulong a) rate f)"
  define m where "m = x0 - 48 - round"
  have f: "1 \<le> f" "f < 4294967296" using clk_freq_range by (simp_all add: f_def)
  have c_lo: "0 \<le> c" unfolding c_def using rate f by (simp add: pos_imp_zdiv_nonneg_iff)
  have c_hi: "c \<le> rate" unfolding c_def using rate f by (intro ceil_div_le) auto
  have ul: "ulong a (rate + f - 1) =
      (if rate + f - 1 < 4294967296 \<or> a = LP64 then rate + f - 1 else rate + f - 1 - 4294967296)"
  proof (cases a)
    case ILP32
    have "ulong ILP32 (rate + f - 1) = u32 (rate + f - 1)" by (simp add: ulong_def u32_def)
    then show ?thesis using ILP32 rate f by (auto simp: u32_id u32_over)
  next
    case LP64
    have "ulong LP64 (rate + f - 1) = rate + f - 1"
      unfolding ulong_def using rate f by (intro mod_pos_pos_trivial) auto
    then show ?thesis using LP64 by simp
  qed
  have x0_eq: "x0 = (if rate + f - 1 < 4294967296 \<or> a = LP64 then c else 0)"
  proof (cases "rate + f - 1 < 4294967296 \<or> a = LP64")
    case True
    then have "x0 = u32 c" using ul by (simp add: x0_def DIV_ROUND_UP_def c_def)
    then show ?thesis using True c_lo c_hi rate by (simp add: u32_id)
  next
    case False
    then have "ulong a (rate + f - 1) = rate + f - 1 - 4294967296" using ul by simp
    moreover have "0 \<le> rate + f - 1 - 4294967296" "rate + f - 1 - 4294967296 < f"
      using False rate by auto
    ultimately have "DIV_ROUND_UP (ulong a) rate f = 0"
      by (simp add: DIV_ROUND_UP_def div_pos_pos_trivial)
    then show ?thesis using False by (simp add: x0_def u32_def)
  qed
  have x: "clk_x a t rate 20 round = u32 (u32 m + 8) div 9"
    by (simp add: clk_x_def Let_def DIV_ROUND_UP_def [of u32] f_def x0_def m_def
        RCAR_SCHD_RATIO_def RCAR_SCLD_RATIO_def add.commute)
  have ideal: "ideal_x t rate round = (c - 48 - round + 8) div 9"
    by (simp add: ideal_x_def c_def f_def)
  have x0_rng: "0 \<le> x0" "x0 \<le> c" using x0_eq c_lo by (auto split: if_splits)
  have tail: "u32 (u32 m + 8) = (if 0 \<le> m + 8 then m + 8 else m + 8 + 4294967296)"
    using x0_rng c_hi rate rnd by (intro round_up_tail) (auto simp: m_def)
  have big: "65535 < (m + 8 + 4294967296) div 9 * 5" using rnd x0_rng unfolding m_def by arith
  show ?thesis
  proof (cases "rate + f - 1 < 4294967296 \<or> a = LP64")
    case True
    then have xc: "x0 = c" using x0_eq by simp
    show ?thesis
    proof (cases "0 \<le> m + 8")
      case True
      then have "clk_x a t rate 20 round = (m + 8) div 9" using tail x by simp
      moreover have "0 \<le> (m + 8) div 9" using True by arith
      ultimately show ?thesis using ideal xc unfolding m_def by (cases "(c - 48 - round + 8) div 9 = 0") auto
    next
      case False
      then have "clk_x a t rate 20 round = (m + 8 + 4294967296) div 9" using tail x by simp
      moreover have "(m + 8) div 9 < 0" using False by arith
      ultimately show ?thesis using ideal xc big by (simp add: m_def)
    qed
  next
    case False
    then have "rate + f - 1 < 2 * f" using rate by auto
    then have "c < 2" unfolding c_def using f by (intro div_lt_intI) auto
    moreover have "x0 = 0" using False x0_eq by simp
    ultimately have neg: "c - 48 - round + 8 < 0" "m + 8 < 0" using rnd by (simp_all add: m_def)
    then have "clk_x a t rate 20 round = (m + 8 + 4294967296) div 9" using tail x by simp
    moreover have "(c - 48 - round + 8) div 9 < 0" using neg by arith
    ultimately show ?thesis using ideal big by simp
  qed
qed


lemma calc_fst:
  "fst (rcar_i2c_clock_calculate a rate t p) =
    (if 2 ^ clk_cdf_width (devtype p) \<le> clk_cdf rate then - EINVAL
     else if gen_of (devtype p) < gen_of I2C_RCAR_GEN3
       then (if 63 < clk_scgd t (clk_ick (devtype p) rate) (clk_round t (clk_ick (devtype p) rate))
             then - EINVAL else 0)
       else (if clk_x a t rate 20 (clk_round t (clk_ick (devtype p) rate)) = 0
                \<or> 65535 < u32 (clk_x a t rate 20 (clk_round t (clk_ick (devtype p) rate)) * 5)
             then - EINVAL else 0))"
  by (simp add: rcar_i2c_clock_calculate_def Let_def RCAR_DEFAULT_SMD_def RCAR_SCLD_RATIO_def)

lemma calc_devtype: "devtype (snd (rcar_i2c_clock_calculate a rate t p)) = devtype p"
  by (simp add: rcar_i2c_clock_calculate_def Let_def)

lemma calc_legacy_icccr:
  assumes "fst (rcar_i2c_clock_calculate a rate t p) = 0" "gen_of (devtype p) < gen_of I2C_RCAR_GEN3"
  shows "icccr (snd (rcar_i2c_clock_calculate a rate t p)) =
     u32 (push_bit (clk_cdf_width (devtype p))
            (clk_scgd t (clk_ick (devtype p) rate) (clk_round t (clk_ick (devtype p) rate)))
          OR clk_cdf rate)"
  using assms by (simp add: rcar_i2c_clock_calculate_def Let_def EINVAL_def split: if_splits)

lemma calc_modern_regs:
  assumes "fst (rcar_i2c_clock_calculate a rate t p) = 0" "\<not> gen_of (devtype p) < gen_of I2C_RCAR_GEN3"
  shows "icccr (snd (rcar_i2c_clock_calculate a rate t p)) = clk_cdf rate"
    and "schd (snd (rcar_i2c_clock_calculate a rate t p)) =
           u16 (4 * clk_x a t rate 20 (clk_round t (clk_ick (devtype p) rate)))"
    and "scld (snd (rcar_i2c_clock_calculate a rate t p)) =
           u16 (5 * clk_x a t rate 20 (clk_round t (clk_ick (devtype p) rate)))"
    and "smd (snd (rcar_i2c_clock_calculate a rate t p)) =
           (if 20 \<ge> u16 (4 * clk_x a t rate 20 (clk_round t (clk_ick (devtype p) rate)))
            then u8 (u16 (4 * clk_x a t rate 20 (clk_round t (clk_ick (devtype p) rate))) - 1) else 20)"
  using assms
  by (simp_all add: rcar_i2c_clock_calculate_def Let_def EINVAL_def RCAR_DEFAULT_SMD_def
      RCAR_SCLD_RATIO_def RCAR_SCHD_RATIO_def split: if_splits)

lemma clk_ick_range: "0 \<le> clk_ick d rate" "clk_ick d rate < 4294967296"
  by (simp_all add: clk_ick_def u32_range)

lemma clk_cdf_range: "0 \<le> clk_cdf rate"
  by (simp add: clk_cdf_def u32_range)

lemma cdf_width_cases: "clk_cdf_width d = 2 \<or> clk_cdf_width d = 3"
  by (simp add: clk_cdf_width_def)

lemma legacy_scgd_field:
  assumes ok: "fst (rcar_i2c_clock_calculate a rate t p) = 0" and leg: "gen_of (devtype p) < gen_of I2C_RCAR_GEN3"
  shows "drop_bit (clk_cdf_width (devtype p)) (icccr (snd (rcar_i2c_clock_calculate a rate t p)))
         = clk_scgd t (clk_ick (devtype p) rate) (clk_round t (clk_ick (devtype p) rate))"
    and "icccr (snd (rcar_i2c_clock_calculate a rate t p))
         = clk_scgd t (clk_ick (devtype p) rate) (clk_round t (clk_ick (devtype p) rate)) * 2 ^ clk_cdf_width (devtype p) + clk_cdf rate"
    and "clk_cdf rate < 2 ^ clk_cdf_width (devtype p)"
    and "0 \<le> clk_scgd t (clk_ick (devtype p) rate) (clk_round t (clk_ick (devtype p) rate))"
    and "clk_scgd t (clk_ick (devtype p) rate) (clk_round t (clk_ick (devtype p) rate)) \<le> 63"
proof -
  let ?w = "clk_cdf_width (devtype p)"
  let ?g = "clk_scgd t (clk_ick (devtype p) rate) (clk_round t (clk_ick (devtype p) rate))"
  have c: "clk_cdf rate < 2 ^ ?w" and g: "?g \<le> 63"
    using ok leg by (simp_all add: calc_fst EINVAL_def split: if_splits)
  have g0: "0 \<le> ?g"
    using legacy_core [OF clk_ick_range clk_round_range g] by simp
  have eq: "push_bit ?w ?g OR clk_cdf rate = ?g * 2 ^ ?w + clk_cdf rate"
    using clk_cdf_range c by (rule or_field)
  have "?g * 2 ^ ?w + clk_cdf rate < 64 * 2 ^ ?w"
  proof -
    have "?g * 2 ^ ?w \<le> 63 * 2 ^ ?w" using g by (intro mult_right_mono) auto
    then show ?thesis using c by linarith
  qed
  moreover have "(64::int) * 2 ^ ?w \<le> 4294967296" using cdf_width_cases [of "devtype p"] by auto
  moreover have "0 \<le> ?g * 2 ^ ?w + clk_cdf rate" using g0 clk_cdf_range by simp
  ultimately have "u32 (push_bit ?w ?g OR clk_cdf rate) = push_bit ?w ?g OR clk_cdf rate"
    unfolding eq by (intro u32_id) auto
  then have ic: "icccr (snd (rcar_i2c_clock_calculate a rate t p)) = push_bit ?w ?g OR clk_cdf rate"
    using calc_legacy_icccr [OF ok leg] by simp
  show "drop_bit ?w (icccr (snd (rcar_i2c_clock_calculate a rate t p))) = ?g"
    unfolding ic using clk_cdf_range c by (rule drop_bit_field)
  show "icccr (snd (rcar_i2c_clock_calculate a rate t p)) = ?g * 2 ^ ?w + clk_cdf rate"
    unfolding ic by (rule eq)
  show "clk_cdf rate < 2 ^ ?w" by (rule c)
  show "0 \<le> ?g" by (rule g0)
  show "?g \<le> 63" by (rule g)
qed


lemma rate_small:
  assumes "0 \<le> rate" "rate div 20000000 < 2 ^ 32" "clk_cdf rate < 2 ^ clk_cdf_width d"
  shows "clk_cdf rate = rate div 20000000" "rate < 160000000"
proof -
  have q: "0 \<le> rate div 20000000" using assms(1) by simp
  then show c: "clk_cdf rate = rate div 20000000" using assms(2) by (simp add: clk_cdf_def u32_id)
  have "clk_cdf rate < 8" using assms(3) cdf_width_cases [of d] by auto
  then show "rate < 160000000" unfolding c by arith
qed

lemma quot_le_freq:
  assumes "n \<le> f * d" "0 < d"
  shows "n div d \<le> (f::int)"
proof -
  have "n div d \<le> (f * d) div d" using assms by (intro zdiv_mono1) auto
  then show ?thesis using assms by simp
qed

lemma modern_success:
  assumes ok: "fst (rcar_i2c_clock_calculate a rate t p) = 0"
    and mod: "\<not> gen_of (devtype p) < gen_of I2C_RCAR_GEN3"
    and rate: "0 \<le> rate" "rate div 20000000 < 2 ^ 32"
  defines "x \<equiv> clk_x a t rate 20 (clk_round t (clk_ick (devtype p) rate))"
  shows "x = ideal_x t rate (clk_round t (clk_ick (devtype p) rate))"
    and "1 \<le> x" and "x \<le> 13107"
    and "rate \<le> clk_freq t * (48 + 9 * x + clk_round t (clk_ick (devtype p) rate))"
    and "rate < 160000000" and "clk_cdf rate = rate div 20000000" and "clk_cdf rate < 8"
proof -
  let ?r = "clk_round t (clk_ick (devtype p) rate)"
  have c: "clk_cdf rate < 2 ^ clk_cdf_width (devtype p)"
    and x0: "x \<noteq> 0" and x5: "u32 (x * 5) \<le> 65535"
    using ok mod by (simp_all add: calc_fst EINVAL_def x_def split: if_splits)
  show small: "rate < 160000000" and "clk_cdf rate = rate div 20000000"
    using rate_small [OF rate c] by simp_all
  show "clk_cdf rate < 8" using c cdf_width_cases [of "devtype p"] by auto
  have "u32 (x * 5) = x * 5" using clk_x_range [of a t rate 20 ?r] by (simp add: u32_id x_def)
  then have x5': "x * 5 \<le> 65535" using x5 by simp
  then show "x \<le> 13107" by arith
  from modern_exact [OF rate(1) small clk_round_range [of t "clk_ick (devtype p) rate"], of t a] x0 x5'
  show ex: "x = ideal_x t rate ?r" and "1 \<le> x" by (auto simp: x_def)
  define f where "f = clk_freq t"
  define cc where "cc = (rate + f - 1) div f"
  have f: "1 \<le> f" using clk_freq_range by (simp add: f_def)
  have "rate \<le> f * cc" unfolding cc_def using f by (intro ceil_div_ge) auto
  moreover have "cc \<le> 48 + 9 * x + ?r" unfolding ex ideal_x_def cc_def f_def by arith
  ultimately show "rate \<le> clk_freq t * (48 + 9 * x + ?r)"
    using f unfolding f_def by (smt (verit) mult_left_mono)
qed

text \<open>
  Where the bound on the frequency holds.  Let the reference rate be such that its
  quotient by 20 MHz fits in 32 bits, and let the requested frequency count as 1 Hz when
  it is 0, as the code's \<open>?: 1\<close> does.  Whenever the calculator succeeds: in the legacy
  family the frequency of the produced registers, \<open>ick / (20 + 8 * SCGD + round)\<close>, is at
  most the requested one; in the modern family \<open>rate / (8 + 2 * SMD + SCLD + SCHD + round)\<close>
  is at most the requested one for the default mask duration 20 with which the divider
  was solved, and for the final mask duration whenever it was not clamped (SCHD above
  20).  Both bounds are also shown without the rounding of the division, as
  \<open>clock \<le> frequency * divisor\<close>.
\<close>

lemma clock_not_above_request_unclamped:
  assumes ok: "rcar_i2c_clock_calculate a rate t priv0 = (0, priv)"
    and rate: "0 \<le> rate" "rate div 20000000 < 2 ^ 32"
  shows "(gen_of (devtype priv0) < gen_of I2C_RCAR_GEN3 \<longrightarrow>
            clk_ick (devtype priv0) rate
              \<le> clk_freq t * div_legacy priv (clk_round t (clk_ick (devtype priv0) rate))
          \<and> scl_legacy priv (clk_ick (devtype priv0) rate)
               (clk_round t (clk_ick (devtype priv0) rate)) \<le> clk_freq t)
       \<and> (gen_of I2C_RCAR_GEN3 \<le> gen_of (devtype priv0) \<longrightarrow>
            rate \<le> clk_freq t
               * div_modern (priv\<lparr>smd := RCAR_DEFAULT_SMD\<rparr>) (clk_round t (clk_ick (devtype priv0) rate))
          \<and> scl_modern (priv\<lparr>smd := RCAR_DEFAULT_SMD\<rparr>) rate
               (clk_round t (clk_ick (devtype priv0) rate)) \<le> clk_freq t
          \<and> (RCAR_DEFAULT_SMD < schd priv \<longrightarrow>
               scl_modern priv rate (clk_round t (clk_ick (devtype priv0) rate)) \<le> clk_freq t))"
proof (intro conjI impI)
  let ?ick = "clk_ick (devtype priv0) rate"
  let ?r = "clk_round t ?ick"
  have ok0: "fst (rcar_i2c_clock_calculate a rate t priv0) = 0"
    and priv: "priv = snd (rcar_i2c_clock_calculate a rate t priv0)" using ok by simp_all
  have dt: "devtype priv = devtype priv0" unfolding priv by (rule calc_devtype)
  {
    assume leg: "gen_of (devtype priv0) < gen_of I2C_RCAR_GEN3"
    let ?g = "clk_scgd t ?ick ?r"
    note fld = legacy_scgd_field [OF ok0 leg]
    have d: "div_legacy priv ?r = 20 + 8 * ?g + ?r"
      using fld(1) by (simp add: div_legacy_def priv calc_devtype)
    show le: "?ick \<le> clk_freq t * div_legacy priv ?r"
      unfolding d using legacy_core [OF clk_ick_range clk_round_range fld(5)] by blast
    have "0 < div_legacy priv ?r" unfolding d using fld(4) clk_round_range(1) [of t ?ick] by simp
    then show "scl_legacy priv ?ick ?r \<le> clk_freq t"
      unfolding scl_legacy_def using le by (intro quot_le_freq) auto
  }
  {
    assume "gen_of I2C_RCAR_GEN3 \<le> gen_of (devtype priv0)"
    then have mod: "\<not> gen_of (devtype priv0) < gen_of I2C_RCAR_GEN3" by simp
    let ?x = "clk_x a t rate 20 ?r"
    note m = modern_success [OF ok0 mod rate]
    note regs = calc_modern_regs [OF ok0 mod]
    have h: "schd priv = 4 * ?x" using regs(2) m(2,3) by (simp add: priv u16_def)
    have l: "scld priv = 5 * ?x" using regs(3) m(2,3) by (simp add: priv u16_def)
    have d20: "div_modern (priv\<lparr>smd := RCAR_DEFAULT_SMD\<rparr>) ?r = 48 + 9 * ?x + ?r"
      by (simp add: div_modern_def h l RCAR_DEFAULT_SMD_def)
    show le: "rate \<le> clk_freq t * div_modern (priv\<lparr>smd := RCAR_DEFAULT_SMD\<rparr>) ?r"
      unfolding d20 by (rule m(4))
    have pos: "0 < 48 + 9 * ?x + ?r" using m(2) clk_round_range(1) [of t ?ick] by simp
    show sc: "scl_modern (priv\<lparr>smd := RCAR_DEFAULT_SMD\<rparr>) rate ?r \<le> clk_freq t"
      unfolding scl_modern_def using le pos unfolding d20 by (intro quot_le_freq) auto
    assume "RCAR_DEFAULT_SMD < schd priv"
    then have "smd priv = 20" using regs(4) regs(2) by (simp add: priv RCAR_DEFAULT_SMD_def)
    then have "div_modern priv ?r = 48 + 9 * ?x + ?r" by (simp add: div_modern_def h l)
    then show "scl_modern priv rate ?r \<le> clk_freq t"
      unfolding scl_modern_def using m(4) pos by (intro quot_le_freq) auto
  }
qed


text \<open>
  For example, a Gen3 controller at 133.33 MHz asked for 400 kHz succeeds without
  clamping (SCHD 112), and the resulting frequency is bounded.
\<close>

lemma clock_not_above_request_unclamped_example:
  "fst (rcar_i2c_clock_calculate LP64 133333333
          \<lparr>bus_freq_hz = 400000, scl_fall_ns = 35, scl_rise_ns = 200, scl_int_delay_ns = 50\<rparr>
          (probe_priv I2C_RCAR_GEN3)) = 0
   \<and> scl_modern
        (snd (rcar_i2c_clock_calculate LP64 133333333
          \<lparr>bus_freq_hz = 400000, scl_fall_ns = 35, scl_rise_ns = 200, scl_int_delay_ns = 50\<rparr>
          (probe_priv I2C_RCAR_GEN3)))
        133333333
        (clk_round \<lparr>bus_freq_hz = 400000, scl_fall_ns = 35, scl_rise_ns = 200, scl_int_delay_ns = 50\<rparr>
           (clk_ick I2C_RCAR_GEN3 133333333)) \<le> 400000"
proof -
  let ?t = "\<lparr>bus_freq_hz = 400000, scl_fall_ns = 35, scl_rise_ns = 200, scl_int_delay_ns = 50\<rparr>"
  let ?R = "rcar_i2c_clock_calculate LP64 133333333 ?t (probe_priv I2C_RCAR_GEN3)"
  have ev: "fst ?R = 0 \<and> schd (snd ?R) = 112"
    by (simp add: rcar_i2c_clock_calculate_def probe_priv_def Let_def clk_cdf_def clk_cdf_width_def
      clk_ick_def clk_round_def clk_x_def clk_freq_def DIV_ROUND_UP_def DIV_ROUND_CLOSEST_def
      u32_def u16_def u8_def ulong_def RCAR_DEFAULT_SMD_def RCAR_SCHD_RATIO_def
      RCAR_SCLD_RATIO_def EINVAL_def I2C_MAX_FAST_MODE_FREQ_def)
  then have ok: "?R = (0, snd ?R)" by (simp add: prod_eq_iff)
  have f: "clk_freq ?t = 400000" by (simp add: clk_freq_def)
  have d: "devtype (probe_priv I2C_RCAR_GEN3) = I2C_RCAR_GEN3" by (simp add: probe_priv_def)
  from clock_not_above_request_unclamped [OF ok] ev show ?thesis
    by (simp add: f d RCAR_DEFAULT_SMD_def)
qed


text \<open>
  Claim C1.  The frequency of the final register values is not always at or below the
  requested one: the calculator solves the divider \<open>x\<close> with the default mask duration
  20 and then clamps the mask duration below SCHD without solving again.  On a Gen4
  controller with a 100 MHz reference clock and a request of 1 MHz it succeeds with
  SCHD 12, SCLD 15 and the mask duration clamped from 20 to 11.  The divisor of the
  final registers is 86 and they stand for 1162790 Hz, above the requested 1000000 Hz;
  with the mask duration 20 of the solution the divisor is 104 and the frequency
  961538 Hz.
\<close>

theorem clock_clamp_exceeds_request:
  "fst (rcar_i2c_clock_calculate LP64 100000000
          \<lparr>bus_freq_hz = 1000000, scl_fall_ns = 35, scl_rise_ns = 200, scl_int_delay_ns = 50\<rparr>
          (probe_priv I2C_RCAR_GEN4)) = 0
   \<and> schd (snd (rcar_i2c_clock_calculate LP64 100000000
          \<lparr>bus_freq_hz = 1000000, scl_fall_ns = 35, scl_rise_ns = 200, scl_int_delay_ns = 50\<rparr>
          (probe_priv I2C_RCAR_GEN4))) = 12
   \<and> scld (snd (rcar_i2c_clock_calculate LP64 100000000
          \<lparr>bus_freq_hz = 1000000, scl_fall_ns = 35, scl_rise_ns = 200, scl_int_delay_ns = 50\<rparr>
          (probe_priv I2C_RCAR_GEN4))) = 15
   \<and> smd (snd (rcar_i2c_clock_calculate LP64 100000000
          \<lparr>bus_freq_hz = 1000000, scl_fall_ns = 35, scl_rise_ns = 200, scl_int_delay_ns = 50\<rparr>
          (probe_priv I2C_RCAR_GEN4))) = 11
   \<and> div_modern (snd (rcar_i2c_clock_calculate LP64 100000000
          \<lparr>bus_freq_hz = 1000000, scl_fall_ns = 35, scl_rise_ns = 200, scl_int_delay_ns = 50\<rparr>
          (probe_priv I2C_RCAR_GEN4)))
        (clk_round \<lparr>bus_freq_hz = 1000000, scl_fall_ns = 35, scl_rise_ns = 200, scl_int_delay_ns = 50\<rparr>
           (clk_ick I2C_RCAR_GEN4 100000000)) = 86
   \<and> scl_modern (snd (rcar_i2c_clock_calculate LP64 100000000
          \<lparr>bus_freq_hz = 1000000, scl_fall_ns = 35, scl_rise_ns = 200, scl_int_delay_ns = 50\<rparr>
          (probe_priv I2C_RCAR_GEN4)))
        100000000
        (clk_round \<lparr>bus_freq_hz = 1000000, scl_fall_ns = 35, scl_rise_ns = 200, scl_int_delay_ns = 50\<rparr>
           (clk_ick I2C_RCAR_GEN4 100000000)) = 1162790
   \<and> clk_freq \<lparr>bus_freq_hz = 1000000, scl_fall_ns = 35, scl_rise_ns = 200, scl_int_delay_ns = 50\<rparr>
       = 1000000
   \<and> scl_modern ((snd (rcar_i2c_clock_calculate LP64 100000000
          \<lparr>bus_freq_hz = 1000000, scl_fall_ns = 35, scl_rise_ns = 200, scl_int_delay_ns = 50\<rparr>
          (probe_priv I2C_RCAR_GEN4)))\<lparr>smd := RCAR_DEFAULT_SMD\<rparr>)
        100000000
        (clk_round \<lparr>bus_freq_hz = 1000000, scl_fall_ns = 35, scl_rise_ns = 200, scl_int_delay_ns = 50\<rparr>
           (clk_ick I2C_RCAR_GEN4 100000000)) = 961538"
  by (simp add: rcar_i2c_clock_calculate_def probe_priv_def Let_def clk_cdf_def clk_cdf_width_def
      clk_ick_def clk_round_def clk_x_def clk_freq_def DIV_ROUND_UP_def DIV_ROUND_CLOSEST_def
      u32_def u16_def u8_def ulong_def scl_modern_def div_modern_def
      RCAR_DEFAULT_SMD_def RCAR_SCHD_RATIO_def RCAR_SCLD_RATIO_def EINVAL_def
      I2C_MAX_FAST_MODE_FREQ_def)


lemma legacy_ick:
  assumes rate: "0 \<le> rate" "rate div 20000000 < 2 ^ 32"
    and c: "clk_cdf rate < 2 ^ clk_cdf_width d"
  shows "clk_ick d rate = (if gen_of d < gen_of I2C_RCAR_GEN3 then rate div (rate div 20000000 + 1) else rate)"
    and "clk_ick d rate < 160000000"
proof -
  note s = rate_small [OF rate c]
  have q: "0 \<le> rate div 20000000" "rate div 20000000 < 8"
    using rate(1) s(2) by simp_all
  have u: "u32 (rate div 20000000 + 1) = rate div 20000000 + 1" using q by (simp add: u32_id)
  have "0 \<le> rate div (rate div 20000000 + 1)" using rate(1) q by (simp add: pos_imp_zdiv_nonneg_iff)
  moreover have le: "rate div (rate div 20000000 + 1) \<le> rate"
    using rate(1) q zdiv_mono2 [of rate 1 "rate div 20000000 + 1"] by simp
  ultimately show e: "clk_ick d rate = (if gen_of d < gen_of I2C_RCAR_GEN3 then rate div (rate div 20000000 + 1) else rate)"
    using s rate(1) by (simp add: clk_ick_def u u32_id)
  show "clk_ick d rate < 160000000" unfolding e using le s(2) by simp
qed

text \<open>
  Where the range check is exact: for every reference rate whose quotient by 20 MHz fits
  in 32 bits (every rate on a 32-bit kernel), every requested frequency and every timing
  set, with \<open>round\<close> the correction term as the code computes it.  The calculator returns
  \<open>-EINVAL\<close> exactly when the pre-divider does not fit its 2-bit (Gen1) or 3-bit field,
  or, solved in exact integer arithmetic, SCGD falls outside its 6-bit field (legacy) or
  \<open>x\<close> is below 1 or \<open>5 * x\<close> exceeds 16 bits (modern).  Otherwise it returns 0 and every
  produced field equals the value of the exact formula and fits its width.
\<close>

lemma clock_range_checked_32:
  assumes rate: "0 \<le> rate" "rate div 20000000 < 2 ^ 32"
  shows
    "(fst (rcar_i2c_clock_calculate a rate t priv) = - EINVAL \<longleftrightarrow>
        2 ^ clk_cdf_width (devtype priv) \<le> rate div 20000000
      \<or> (gen_of (devtype priv) < gen_of I2C_RCAR_GEN3
          \<and> (ideal_scgd t (clk_ick (devtype priv) rate) (clk_round t (clk_ick (devtype priv) rate)) < 0
             \<or> 63 < ideal_scgd t (clk_ick (devtype priv) rate) (clk_round t (clk_ick (devtype priv) rate))))
      \<or> (gen_of I2C_RCAR_GEN3 \<le> gen_of (devtype priv)
          \<and> (ideal_x t rate (clk_round t (clk_ick (devtype priv) rate)) < 1
             \<or> 65535 < 5 * ideal_x t rate (clk_round t (clk_ick (devtype priv) rate)))))
   \<and> (fst (rcar_i2c_clock_calculate a rate t priv) \<noteq> - EINVAL \<longrightarrow>
        fst (rcar_i2c_clock_calculate a rate t priv) = 0
      \<and> clk_ick (devtype priv) rate =
          (if gen_of (devtype priv) < gen_of I2C_RCAR_GEN3
           then rate div (rate div 20000000 + 1) else rate)
      \<and> (gen_of (devtype priv) < gen_of I2C_RCAR_GEN3 \<longrightarrow>
           icccr (snd (rcar_i2c_clock_calculate a rate t priv)) =
             ideal_scgd t (clk_ick (devtype priv) rate) (clk_round t (clk_ick (devtype priv) rate))
               * 2 ^ clk_cdf_width (devtype priv) + rate div 20000000
         \<and> rate div 20000000 < 2 ^ clk_cdf_width (devtype priv)
         \<and> 0 \<le> ideal_scgd t (clk_ick (devtype priv) rate) (clk_round t (clk_ick (devtype priv) rate))
         \<and> ideal_scgd t (clk_ick (devtype priv) rate) (clk_round t (clk_ick (devtype priv) rate)) < 2 ^ 6)
      \<and> (gen_of I2C_RCAR_GEN3 \<le> gen_of (devtype priv) \<longrightarrow>
           icccr (snd (rcar_i2c_clock_calculate a rate t priv)) = rate div 20000000
         \<and> rate div 20000000 < 2 ^ 3
         \<and> schd (snd (rcar_i2c_clock_calculate a rate t priv))
             = 4 * ideal_x t rate (clk_round t (clk_ick (devtype priv) rate))
         \<and> scld (snd (rcar_i2c_clock_calculate a rate t priv))
             = 5 * ideal_x t rate (clk_round t (clk_ick (devtype priv) rate))
         \<and> 0 < schd (snd (rcar_i2c_clock_calculate a rate t priv))
         \<and> scld (snd (rcar_i2c_clock_calculate a rate t priv)) < 2 ^ 16
         \<and> smd (snd (rcar_i2c_clock_calculate a rate t priv))
             = (if 4 * ideal_x t rate (clk_round t (clk_ick (devtype priv) rate)) \<le> 20
                then 4 * ideal_x t rate (clk_round t (clk_ick (devtype priv) rate)) - 1 else 20)
         \<and> 0 \<le> smd (snd (rcar_i2c_clock_calculate a rate t priv))
         \<and> smd (snd (rcar_i2c_clock_calculate a rate t priv))
             < schd (snd (rcar_i2c_clock_calculate a rate t priv))))"
proof -
  let ?R = "rcar_i2c_clock_calculate a rate t priv"
  let ?d = "devtype priv"
  let ?w = "clk_cdf_width ?d"
  let ?ick = "clk_ick ?d rate"
  let ?r = "clk_round t ?ick"
  have q0: "0 \<le> rate div 20000000" using rate(1) by simp
  have cdf: "clk_cdf rate = rate div 20000000" using q0 rate(2) by (simp add: clk_cdf_def u32_id)
  show ?thesis
  proof (cases "2 ^ ?w \<le> rate div 20000000")
    case True
    then have "fst ?R = - EINVAL" by (simp add: calc_fst cdf)
    then show ?thesis using True by simp
  next
    case fit: False
    then have c: "clk_cdf rate < 2 ^ ?w" by (simp add: cdf)
    note ick = legacy_ick [OF rate c]
    show ?thesis
    proof (cases "gen_of ?d < gen_of I2C_RCAR_GEN3")
      case leg: True
      let ?g = "clk_scgd t ?ick ?r"
      let ?i = "ideal_scgd t ?ick ?r"
      from legacy_exact [OF clk_ick_range(1) ick(2) clk_round_range [of t ?ick], of t]
      have ex: "(0 \<le> ?i \<and> ?g = ?i) \<or> (?i < 0 \<and> 63 < ?g)" .
      show ?thesis
      proof (cases "fst ?R = 0")
        case ok: True
        note fld = legacy_scgd_field [OF ok leg]
        from ex fld(5) have gi: "?g = ?i" "0 \<le> ?i" by auto
        have "icccr (snd ?R) = ?i * 2 ^ ?w + rate div 20000000"
          using fld(2) by (simp add: gi(1) cdf)
        moreover have "?i \<le> 63" using fld(5) gi(1) by simp
        ultimately show ?thesis using ok leg fit gi(2) ick(1) by (simp add: EINVAL_def)
      next
        case bad: False
        then have e: "fst ?R = - EINVAL" and g: "63 < ?g"
          using leg c by (auto simp: calc_fst split: if_splits)
        from ex g have "?i < 0 \<or> 63 < ?i" by auto
        then show ?thesis using e leg by simp
      qed
    next
      case mod: False
      let ?x = "clk_x a t rate 20 ?r"
      let ?i = "ideal_x t rate ?r"
      note s = rate_small [OF rate c]
      from modern_exact [OF rate(1) s(2) clk_round_range [of t ?ick], of t a]
      have ex: "(1 \<le> ?i \<and> ?x = ?i) \<or> (?i \<le> 0 \<and> (?x = 0 \<or> 65535 < ?x * 5))" .
      have x5: "u32 (?x * 5) = ?x * 5" using clk_x_range [of a t rate 20 ?r] by (simp add: u32_id)
      have c8: "rate div 20000000 < 2 ^ 3" using s(2) by simp
      show ?thesis
      proof (cases "fst ?R = 0")
        case ok: True
        note m = modern_success [OF ok mod rate]
        note regs = calc_modern_regs [OF ok mod]
        have h: "schd (snd ?R) = 4 * ?i" using regs(2) m(2,3) by (simp add: u16_def m(1) [symmetric])
        have l: "scld (snd ?R) = 5 * ?i" using regs(3) m(2,3) by (simp add: u16_def m(1) [symmetric])
        have i: "1 \<le> ?i" "?i \<le> 13107" using m(1,2,3) by simp_all
        have sm: "smd (snd ?R) = (if 4 * ?i \<le> 20 then 4 * ?i - 1 else 20)"
          using regs(4) i unfolding regs(2) [symmetric] h by (auto simp: u8_def)
        have "icccr (snd ?R) = rate div 20000000" using regs(1) by (simp add: cdf)
        then show ?thesis using ok mod fit c8 h l i sm ick(1) by (simp add: EINVAL_def)
      next
        case bad: False
        then have e: "fst ?R = - EINVAL" and g: "?x = 0 \<or> 65535 < ?x * 5"
          using mod c by (auto simp: calc_fst x5 split: if_splits)
        from ex g have "?i < 1 \<or> 65535 < 5 * ?i" by auto
        then show ?thesis using e mod by simp
      qed
    qed
  qed
qed


text \<open>
  For example, 100 kHz cannot be reached from a 1 MHz reference clock on Gen2 (the exact
  SCGD is negative), and the calculator gives the range error.
\<close>

lemma clock_range_checked_32_example:
  "(0::int) \<le> 1000000 \<and> (1000000::int) div 20000000 < 2 ^ 32
   \<and> fst (rcar_i2c_clock_calculate ILP32 1000000
          \<lparr>bus_freq_hz = 100000, scl_fall_ns = 35, scl_rise_ns = 200, scl_int_delay_ns = 50\<rparr>
          (probe_priv I2C_RCAR_GEN2)) = - EINVAL"
proof -
  let ?t = "\<lparr>bus_freq_hz = 100000, scl_fall_ns = 35, scl_rise_ns = 200, scl_int_delay_ns = 50\<rparr>"
  have h1: "(0::int) \<le> 1000000" and h2: "(1000000::int) div 20000000 < 2 ^ 32" by simp_all
  have d: "devtype (probe_priv I2C_RCAR_GEN2) = I2C_RCAR_GEN2" by (simp add: probe_priv_def)
  have i: "ideal_scgd ?t (clk_ick I2C_RCAR_GEN2 1000000) (clk_round ?t (clk_ick I2C_RCAR_GEN2 1000000)) < 0"
    by (simp add: ideal_scgd_def clk_ick_def clk_cdf_def clk_round_def clk_freq_def
        DIV_ROUND_CLOSEST_def u32_def Let_def)
  from clock_range_checked_32 [OF h1 h2, of ILP32 ?t "probe_priv I2C_RCAR_GEN2"] i
  show ?thesis by (simp add: d)
qed

text \<open>
  The correction term itself is computed in \<open>u32\<close>, and the lemma above takes it as
  computed.  For example, with a rise time of 32293009 ns at 133.33 MHz the product
  \<open>round * sum\<close> exceeds 32 bits: the exact term is 4294982, the computed one 14, and the
  calculator succeeds with SCHD 568.
\<close>

lemma clock_round_wraps_example:
  "clk_round \<lparr>bus_freq_hz = 100000, scl_fall_ns = 35, scl_rise_ns = 32293009, scl_int_delay_ns = 50\<rparr>
       (clk_ick I2C_RCAR_GEN3 133333333) = 14
   \<and> (133 * (35 + 32293009 + 50) + 500) div 1000 = (4294982 :: int)
   \<and> fst (rcar_i2c_clock_calculate ILP32 133333333
          \<lparr>bus_freq_hz = 100000, scl_fall_ns = 35, scl_rise_ns = 32293009, scl_int_delay_ns = 50\<rparr>
          (probe_priv I2C_RCAR_GEN3)) = 0
   \<and> schd (snd (rcar_i2c_clock_calculate ILP32 133333333
          \<lparr>bus_freq_hz = 100000, scl_fall_ns = 35, scl_rise_ns = 32293009, scl_int_delay_ns = 50\<rparr>
          (probe_priv I2C_RCAR_GEN3))) = 568"
  by (simp add: rcar_i2c_clock_calculate_def probe_priv_def Let_def clk_cdf_def clk_cdf_width_def
      clk_ick_def clk_round_def clk_x_def clk_freq_def DIV_ROUND_UP_def DIV_ROUND_CLOSEST_def
      u32_def u16_def u8_def ulong_def
      RCAR_DEFAULT_SMD_def RCAR_SCHD_RATIO_def RCAR_SCLD_RATIO_def EINVAL_def
      I2C_MAX_FAST_MODE_FREQ_def)


section \<open>Bit tests\<close>

lemma tst_BIT: "n < LENGTH('a) \<Longrightarrow> tst w (BIT n :: 'a::len word) = bit w n"
  by (simp add: tst_def BIT_def push_bit_of_1 and_exp_eq_0_iff_not_bit)

lemma bit_BIT: "bit (BIT k :: 'a::len word) n \<longleftrightarrow> n = k \<and> k < LENGTH('a)"
  by (auto simp: BIT_def bit_simps)

lemma tst_or [simp]: "tst (w OR m) k = (tst w k \<or> tst m k)"
  by (simp add: tst_def word_ao_dist or_eq_0_iff)

lemma tst_zero [simp]: "tst 0 k = False"
  by (simp add: tst_def)

lemma flag_tests [simp]:
    "tst ID_LAST_MSG ID_LAST_MSG = True"
    "tst ID_LAST_MSG ID_REP_AFTER_RD = False"
    "tst ID_LAST_MSG ID_DONE = False"
    "tst ID_LAST_MSG ID_ARBLOST = False"
    "tst ID_LAST_MSG ID_NACK = False"
    "tst ID_LAST_MSG ID_EPROTO = False"
    "tst ID_LAST_MSG ID_P_FMPLUS = False"
    "tst ID_LAST_MSG ID_P_NOT_ATOMIC = False"
    "tst ID_LAST_MSG ID_P_NO_RXDMA = False"
    "tst ID_REP_AFTER_RD ID_LAST_MSG = False"
    "tst ID_REP_AFTER_RD ID_REP_AFTER_RD = True"
    "tst ID_REP_AFTER_RD ID_DONE = False"
    "tst ID_REP_AFTER_RD ID_ARBLOST = False"
    "tst ID_REP_AFTER_RD ID_NACK = False"
    "tst ID_REP_AFTER_RD ID_EPROTO = False"
    "tst ID_REP_AFTER_RD ID_P_FMPLUS = False"
    "tst ID_REP_AFTER_RD ID_P_NOT_ATOMIC = False"
    "tst ID_REP_AFTER_RD ID_P_NO_RXDMA = False"
    "tst ID_DONE ID_LAST_MSG = False"
    "tst ID_DONE ID_REP_AFTER_RD = False"
    "tst ID_DONE ID_DONE = True"
    "tst ID_DONE ID_ARBLOST = False"
    "tst ID_DONE ID_NACK = False"
    "tst ID_DONE ID_EPROTO = False"
    "tst ID_DONE ID_P_FMPLUS = False"
    "tst ID_DONE ID_P_NOT_ATOMIC = False"
    "tst ID_DONE ID_P_NO_RXDMA = False"
    "tst ID_ARBLOST ID_LAST_MSG = False"
    "tst ID_ARBLOST ID_REP_AFTER_RD = False"
    "tst ID_ARBLOST ID_DONE = False"
    "tst ID_ARBLOST ID_ARBLOST = True"
    "tst ID_ARBLOST ID_NACK = False"
    "tst ID_ARBLOST ID_EPROTO = False"
    "tst ID_ARBLOST ID_P_FMPLUS = False"
    "tst ID_ARBLOST ID_P_NOT_ATOMIC = False"
    "tst ID_ARBLOST ID_P_NO_RXDMA = False"
    "tst ID_NACK ID_LAST_MSG = False"
    "tst ID_NACK ID_REP_AFTER_RD = False"
    "tst ID_NACK ID_DONE = False"
    "tst ID_NACK ID_ARBLOST = False"
    "tst ID_NACK ID_NACK = True"
    "tst ID_NACK ID_EPROTO = False"
    "tst ID_NACK ID_P_FMPLUS = False"
    "tst ID_NACK ID_P_NOT_ATOMIC = False"
    "tst ID_NACK ID_P_NO_RXDMA = False"
    "tst ID_EPROTO ID_LAST_MSG = False"
    "tst ID_EPROTO ID_REP_AFTER_RD = False"
    "tst ID_EPROTO ID_DONE = False"
    "tst ID_EPROTO ID_ARBLOST = False"
    "tst ID_EPROTO ID_NACK = False"
    "tst ID_EPROTO ID_EPROTO = True"
    "tst ID_EPROTO ID_P_FMPLUS = False"
    "tst ID_EPROTO ID_P_NOT_ATOMIC = False"
    "tst ID_EPROTO ID_P_NO_RXDMA = False"
    "tst ID_P_FMPLUS ID_LAST_MSG = False"
    "tst ID_P_FMPLUS ID_REP_AFTER_RD = False"
    "tst ID_P_FMPLUS ID_DONE = False"
    "tst ID_P_FMPLUS ID_ARBLOST = False"
    "tst ID_P_FMPLUS ID_NACK = False"
    "tst ID_P_FMPLUS ID_EPROTO = False"
    "tst ID_P_FMPLUS ID_P_FMPLUS = True"
    "tst ID_P_FMPLUS ID_P_NOT_ATOMIC = False"
    "tst ID_P_FMPLUS ID_P_NO_RXDMA = False"
    "tst ID_P_NOT_ATOMIC ID_LAST_MSG = False"
    "tst ID_P_NOT_ATOMIC ID_REP_AFTER_RD = False"
    "tst ID_P_NOT_ATOMIC ID_DONE = False"
    "tst ID_P_NOT_ATOMIC ID_ARBLOST = False"
    "tst ID_P_NOT_ATOMIC ID_NACK = False"
    "tst ID_P_NOT_ATOMIC ID_EPROTO = False"
    "tst ID_P_NOT_ATOMIC ID_P_FMPLUS = False"
    "tst ID_P_NOT_ATOMIC ID_P_NOT_ATOMIC = True"
    "tst ID_P_NOT_ATOMIC ID_P_NO_RXDMA = False"
    "tst ID_P_NO_RXDMA ID_LAST_MSG = False"
    "tst ID_P_NO_RXDMA ID_REP_AFTER_RD = False"
    "tst ID_P_NO_RXDMA ID_DONE = False"
    "tst ID_P_NO_RXDMA ID_ARBLOST = False"
    "tst ID_P_NO_RXDMA ID_NACK = False"
    "tst ID_P_NO_RXDMA ID_EPROTO = False"
    "tst ID_P_NO_RXDMA ID_P_FMPLUS = False"
    "tst ID_P_NO_RXDMA ID_P_NOT_ATOMIC = False"
    "tst ID_P_NO_RXDMA ID_P_NO_RXDMA = True"
  by (simp_all add: tst_def BIT_def ID_LAST_MSG_def ID_REP_AFTER_RD_def ID_DONE_def ID_ARBLOST_def ID_NACK_def ID_EPROTO_def ID_P_FMPLUS_def ID_P_NOT_ATOMIC_def ID_P_NO_RXDMA_def)

lemma flag_mask [simp]:
    "tst (w AND ID_P_MASK) ID_LAST_MSG = False"
    "tst (w AND ID_P_MASK) ID_REP_AFTER_RD = False"
    "tst (w AND ID_P_MASK) ID_DONE = False"
    "tst (w AND ID_P_MASK) ID_ARBLOST = False"
    "tst (w AND ID_P_MASK) ID_NACK = False"
    "tst (w AND ID_P_MASK) ID_EPROTO = False"
    "tst (w AND ID_P_MASK) ID_P_FMPLUS = tst w ID_P_FMPLUS"
    "tst (w AND ID_P_MASK) ID_P_NOT_ATOMIC = tst w ID_P_NOT_ATOMIC"
    "tst (w AND ID_P_MASK) ID_P_NO_RXDMA = tst w ID_P_NO_RXDMA"
  by (simp_all add: tst_BIT bit_simps ID_LAST_MSG_def ID_REP_AFTER_RD_def ID_DONE_def ID_ARBLOST_def ID_NACK_def ID_EPROTO_def ID_P_FMPLUS_def ID_P_NOT_ATOMIC_def ID_P_NO_RXDMA_def ID_P_MASK_def)

lemma flag_clear_rxdma [simp]:
  "tst (w AND NOT ID_P_NO_RXDMA) ID_P_NO_RXDMA = False"
  "tst (w AND NOT ID_P_NO_RXDMA) ID_DONE = tst w ID_DONE"
  "tst (w AND NOT ID_P_NO_RXDMA) ID_P_NOT_ATOMIC = tst w ID_P_NOT_ATOMIC"
  by (simp_all add: tst_BIT bit_simps bit_BIT ID_LAST_MSG_def ID_REP_AFTER_RD_def ID_DONE_def ID_ARBLOST_def ID_NACK_def ID_EPROTO_def ID_P_FMPLUS_def ID_P_NOT_ATOMIC_def ID_P_NO_RXDMA_def)

lemma msr_and [simp]:
    "tst (a AND b) MNR = (tst a MNR \<and> tst b MNR)"
    "tst (a AND b) MAL = (tst a MAL \<and> tst b MAL)"
    "tst (a AND b) MST = (tst a MST \<and> tst b MST)"
    "tst (a AND b) MDE = (tst a MDE \<and> tst b MDE)"
    "tst (a AND b) MDR = (tst a MDR \<and> tst b MDR)"
    "tst (a AND b) MAT = (tst a MAT \<and> tst b MAT)"
  by (simp_all add: tst_BIT bit_simps MNR_def MAL_def MST_def MDE_def MDR_def MAT_def)

lemma tst_nonzero: "tst w k \<Longrightarrow> w \<noteq> 0"
  by (auto simp: tst_def)

section \<open>Effect of the elementary operations on the context\<close>

lemma emit_fields [simp]:
  "flags (emit e priv) = flags priv"
  "msgs (emit e priv) = msgs priv"
  "msg (emit e priv) = msg priv"
  "msgs_left (emit e priv) = msgs_left priv"
  "pos (emit e priv) = pos priv"
  "icccr (emit e priv) = icccr priv"
  "schd (emit e priv) = schd priv"
  "scld (emit e priv) = scld priv"
  "smd (emit e priv) = smd priv"
  "recovery_icmcr (emit e priv) = recovery_icmcr priv"
  "devtype (emit e priv) = devtype priv"
  "slave (emit e priv) = slave priv"
  "slave_flags (emit e priv) = slave_flags priv"
  "dma_tx (emit e priv) = dma_tx priv"
  "dma_rx (emit e priv) = dma_rx priv"
  "sg_len (emit e priv) = sg_len priv"
  "dma_direction (emit e priv) = dma_direction priv"
  "io_regs (emit e priv) = io_regs priv"
  "io_log (emit e priv) = io_log priv @ [e]"
  by (simp_all add: emit_def)

lemma write_fields [simp]:
  "flags (rcar_i2c_write r v priv) = flags priv"
  "msgs (rcar_i2c_write r v priv) = msgs priv"
  "msg (rcar_i2c_write r v priv) = msg priv"
  "msgs_left (rcar_i2c_write r v priv) = msgs_left priv"
  "pos (rcar_i2c_write r v priv) = pos priv"
  "icccr (rcar_i2c_write r v priv) = icccr priv"
  "schd (rcar_i2c_write r v priv) = schd priv"
  "scld (rcar_i2c_write r v priv) = scld priv"
  "smd (rcar_i2c_write r v priv) = smd priv"
  "recovery_icmcr (rcar_i2c_write r v priv) = recovery_icmcr priv"
  "devtype (rcar_i2c_write r v priv) = devtype priv"
  "slave (rcar_i2c_write r v priv) = slave priv"
  "slave_flags (rcar_i2c_write r v priv) = slave_flags priv"
  "dma_tx (rcar_i2c_write r v priv) = dma_tx priv"
  "dma_rx (rcar_i2c_write r v priv) = dma_rx priv"
  "sg_len (rcar_i2c_write r v priv) = sg_len priv"
  "dma_direction (rcar_i2c_write r v priv) = dma_direction priv"
  "io_regs (rcar_i2c_write r v priv) = (io_regs priv)(r := v)"
  "io_log (rcar_i2c_write r v priv) = io_log priv @ [Write r v]"
  by (simp_all add: rcar_i2c_write_def)

lemma clear_irq_fields [simp]:
  "flags (rcar_i2c_clear_irq v priv) = flags priv"
  "msgs (rcar_i2c_clear_irq v priv) = msgs priv"
  "msg (rcar_i2c_clear_irq v priv) = msg priv"
  "msgs_left (rcar_i2c_clear_irq v priv) = msgs_left priv"
  "pos (rcar_i2c_clear_irq v priv) = pos priv"
  "icccr (rcar_i2c_clear_irq v priv) = icccr priv"
  "schd (rcar_i2c_clear_irq v priv) = schd priv"
  "scld (rcar_i2c_clear_irq v priv) = scld priv"
  "smd (rcar_i2c_clear_irq v priv) = smd priv"
  "recovery_icmcr (rcar_i2c_clear_irq v priv) = recovery_icmcr priv"
  "devtype (rcar_i2c_clear_irq v priv) = devtype priv"
  "slave (rcar_i2c_clear_irq v priv) = slave priv"
  "slave_flags (rcar_i2c_clear_irq v priv) = slave_flags priv"
  "dma_tx (rcar_i2c_clear_irq v priv) = dma_tx priv"
  "dma_rx (rcar_i2c_clear_irq v priv) = dma_rx priv"
  "sg_len (rcar_i2c_clear_irq v priv) = sg_len priv"
  "dma_direction (rcar_i2c_clear_irq v priv) = dma_direction priv"
  "io_regs (rcar_i2c_clear_irq v priv) = (io_regs priv)(ICMSR := NOT v AND 0x7f)"
  "io_log (rcar_i2c_clear_irq v priv) = io_log priv @ [Write ICMSR (NOT v AND 0x7f)]"
  by (simp_all add: rcar_i2c_clear_irq_def)

lemma cur_msg_frame [simp]:
  "cur_msg (emit e priv) = cur_msg priv"
  "cur_msg (rcar_i2c_write r v priv) = cur_msg priv"
  "cur_msg (rcar_i2c_clear_irq v priv) = cur_msg priv"
  "cur_msg (priv\<lparr>flags := f\<rparr>) = cur_msg priv"
  "cur_msg (priv\<lparr>pos := n\<rparr>) = cur_msg priv"
  "cur_msg (priv\<lparr>msgs_left := k\<rparr>) = cur_msg priv"
  "cur_msg (priv\<lparr>sg_len := l\<rparr>) = cur_msg priv"
  "cur_msg (priv\<lparr>dma_direction := d\<rparr>) = cur_msg priv"
  by (simp_all add: cur_msg_def)

lemma cur_msg_set [simp]:
  "msg priv < length (msgs priv) \<Longrightarrow> cur_msg (set_cur_msg m priv) = m"
  by (simp add: cur_msg_def set_cur_msg_def)

lemma set_cur_msg_fields [simp]:
  "flags (set_cur_msg m priv) = flags priv"
  "msg (set_cur_msg m priv) = msg priv"
  "msgs_left (set_cur_msg m priv) = msgs_left priv"
  "pos (set_cur_msg m priv) = pos priv"
  "icccr (set_cur_msg m priv) = icccr priv"
  "schd (set_cur_msg m priv) = schd priv"
  "scld (set_cur_msg m priv) = scld priv"
  "smd (set_cur_msg m priv) = smd priv"
  "recovery_icmcr (set_cur_msg m priv) = recovery_icmcr priv"
  "devtype (set_cur_msg m priv) = devtype priv"
  "slave (set_cur_msg m priv) = slave priv"
  "slave_flags (set_cur_msg m priv) = slave_flags priv"
  "dma_tx (set_cur_msg m priv) = dma_tx priv"
  "dma_rx (set_cur_msg m priv) = dma_rx priv"
  "sg_len (set_cur_msg m priv) = sg_len priv"
  "dma_direction (set_cur_msg m priv) = dma_direction priv"
  "io_regs (set_cur_msg m priv) = io_regs priv"
  "io_log (set_cur_msg m priv) = io_log priv"
  "msgs (set_cur_msg m priv) = (msgs priv)[msg priv := m]"
  by (simp_all add: set_cur_msg_def)

lemma is_recv_frame [simp]:
  "rcar_i2c_is_recv (emit e priv) = rcar_i2c_is_recv priv"
  "rcar_i2c_is_recv (rcar_i2c_write r v priv) = rcar_i2c_is_recv priv"
  "rcar_i2c_is_recv (priv\<lparr>flags := f\<rparr>) = rcar_i2c_is_recv priv"
  "rcar_i2c_is_recv (priv\<lparr>pos := n\<rparr>) = rcar_i2c_is_recv priv"
  "rcar_i2c_is_recv (priv\<lparr>msgs_left := k\<rparr>) = rcar_i2c_is_recv priv"
  by (simp_all add: rcar_i2c_is_recv_def)

lemma prepare_msg_fields [simp]:
  "msgs (rcar_i2c_prepare_msg priv) = msgs priv"
  "msg (rcar_i2c_prepare_msg priv) = msg priv"
  "msgs_left (rcar_i2c_prepare_msg priv) = msgs_left priv"
  "devtype (rcar_i2c_prepare_msg priv) = devtype priv"
  "slave (rcar_i2c_prepare_msg priv) = slave priv"
  "slave_flags (rcar_i2c_prepare_msg priv) = slave_flags priv"
  "dma_tx (rcar_i2c_prepare_msg priv) = dma_tx priv"
  "dma_rx (rcar_i2c_prepare_msg priv) = dma_rx priv"
  "sg_len (rcar_i2c_prepare_msg priv) = sg_len priv"
  "dma_direction (rcar_i2c_prepare_msg priv) = dma_direction priv"
  "pos (rcar_i2c_prepare_msg priv) = 0"
  "flags (rcar_i2c_prepare_msg priv) =
     (if msgs_left priv = 1 then flags priv AND ID_P_MASK OR ID_LAST_MSG
      else flags priv AND ID_P_MASK)"
  "cur_msg (rcar_i2c_prepare_msg priv) = cur_msg priv"
  by (simp_all add: rcar_i2c_prepare_msg_def Let_def cur_msg_def)

lemma next_msg_fields [simp]:
  "msgs (rcar_i2c_next_msg priv) = msgs priv"
  "devtype (rcar_i2c_next_msg priv) = devtype priv"
  "slave (rcar_i2c_next_msg priv) = slave priv"
  "slave_flags (rcar_i2c_next_msg priv) = slave_flags priv"
  "dma_tx (rcar_i2c_next_msg priv) = dma_tx priv"
  "dma_rx (rcar_i2c_next_msg priv) = dma_rx priv"
  "sg_len (rcar_i2c_next_msg priv) = sg_len priv"
  "dma_direction (rcar_i2c_next_msg priv) = dma_direction priv"
  "msg (rcar_i2c_next_msg priv) = msg priv + 1"
  "msgs_left (rcar_i2c_next_msg priv) = msgs_left priv - 1"
  "pos (rcar_i2c_next_msg priv) = 0"
  "flags (rcar_i2c_next_msg priv) =
     (if msgs_left priv = 2 then flags priv AND ID_P_MASK OR ID_LAST_MSG
      else flags priv AND ID_P_MASK)"
  "cur_msg (rcar_i2c_next_msg priv) = msgs priv ! (msg priv + 1)"
  by (simp_all add: rcar_i2c_next_msg_def Let_def cur_msg_def)

lemma first_msg_fields [simp]:
  "devtype (rcar_i2c_first_msg ms num priv) = devtype priv"
  "slave (rcar_i2c_first_msg ms num priv) = slave priv"
  "slave_flags (rcar_i2c_first_msg ms num priv) = slave_flags priv"
  "dma_tx (rcar_i2c_first_msg ms num priv) = dma_tx priv"
  "dma_rx (rcar_i2c_first_msg ms num priv) = dma_rx priv"
  "sg_len (rcar_i2c_first_msg ms num priv) = sg_len priv"
  "dma_direction (rcar_i2c_first_msg ms num priv) = dma_direction priv"
  "msgs (rcar_i2c_first_msg ms num priv) = ms"
  "msg (rcar_i2c_first_msg ms num priv) = 0"
  "msgs_left (rcar_i2c_first_msg ms num priv) = num"
  "pos (rcar_i2c_first_msg ms num priv) = 0"
  "flags (rcar_i2c_first_msg ms num priv) =
     (if num = 1 then flags priv AND ID_P_MASK OR ID_LAST_MSG else flags priv AND ID_P_MASK)"
  "cur_msg (rcar_i2c_first_msg ms num priv) = ms ! 0"
  by (simp_all add: rcar_i2c_first_msg_def Let_def cur_msg_def)

lemma cleanup_dma_fields [simp]:
  "icccr (rcar_i2c_cleanup_dma term priv) = icccr priv"
  "schd (rcar_i2c_cleanup_dma term priv) = schd priv"
  "scld (rcar_i2c_cleanup_dma term priv) = scld priv"
  "smd (rcar_i2c_cleanup_dma term priv) = smd priv"
  "msgs (rcar_i2c_cleanup_dma term priv) = msgs priv"
  "msg (rcar_i2c_cleanup_dma term priv) = msg priv"
  "msgs_left (rcar_i2c_cleanup_dma term priv) = msgs_left priv"
  "pos (rcar_i2c_cleanup_dma term priv) = pos priv"
  "devtype (rcar_i2c_cleanup_dma term priv) = devtype priv"
  "slave (rcar_i2c_cleanup_dma term priv) = slave priv"
  "slave_flags (rcar_i2c_cleanup_dma term priv) = slave_flags priv"
  "dma_tx (rcar_i2c_cleanup_dma term priv) = dma_tx priv"
  "dma_rx (rcar_i2c_cleanup_dma term priv) = dma_rx priv"
  "sg_len (rcar_i2c_cleanup_dma term priv) = sg_len priv"
  "dma_direction (rcar_i2c_cleanup_dma term priv) = DMA_NONE"
  "flags (rcar_i2c_cleanup_dma term priv) =
     (if gen_of I2C_RCAR_GEN3 \<le> gen_of (devtype priv) \<and> dma_direction priv = DMA_FROM_DEVICE
      then flags priv OR ID_P_NO_RXDMA else flags priv)"
  "io_regs (rcar_i2c_cleanup_dma term priv) = (io_regs priv)(ICDMAER := 0)"
  "io_log (rcar_i2c_cleanup_dma term priv) =
     io_log priv @ (if term then [Dma_terminate_sync] else []) @ [Dma_unmap, Write ICDMAER 0]"
  "cur_msg (rcar_i2c_cleanup_dma term priv) = cur_msg priv"
  by (auto simp add: rcar_i2c_cleanup_dma_def Let_def cur_msg_def)

lemma dma_callback_fields [simp]:
  "icccr (rcar_i2c_dma_callback priv) = icccr priv"
  "schd (rcar_i2c_dma_callback priv) = schd priv"
  "scld (rcar_i2c_dma_callback priv) = scld priv"
  "smd (rcar_i2c_dma_callback priv) = smd priv"
  "msgs (rcar_i2c_dma_callback priv) = msgs priv"
  "msg (rcar_i2c_dma_callback priv) = msg priv"
  "msgs_left (rcar_i2c_dma_callback priv) = msgs_left priv"
  "devtype (rcar_i2c_dma_callback priv) = devtype priv"
  "slave (rcar_i2c_dma_callback priv) = slave priv"
  "slave_flags (rcar_i2c_dma_callback priv) = slave_flags priv"
  "dma_tx (rcar_i2c_dma_callback priv) = dma_tx priv"
  "dma_rx (rcar_i2c_dma_callback priv) = dma_rx priv"
  "sg_len (rcar_i2c_dma_callback priv) = sg_len priv"
  "pos (rcar_i2c_dma_callback priv) = pos priv + sg_len priv"
  "dma_direction (rcar_i2c_dma_callback priv) = DMA_NONE"
  "io_regs (rcar_i2c_dma_callback priv) = (io_regs priv)(ICDMAER := 0)"
  "io_log (rcar_i2c_dma_callback priv) = io_log priv @ [Dma_unmap, Write ICDMAER 0]"
  "cur_msg (rcar_i2c_dma_callback priv) = cur_msg priv"
  "tst (flags (rcar_i2c_dma_callback priv)) ID_DONE = tst (flags priv) ID_DONE"
  "tst (flags (rcar_i2c_dma_callback priv)) ID_LAST_MSG = tst (flags priv) ID_LAST_MSG"
  "tst (flags (rcar_i2c_dma_callback priv)) ID_ARBLOST = tst (flags priv) ID_ARBLOST"
  "tst (flags (rcar_i2c_dma_callback priv)) ID_EPROTO = tst (flags priv) ID_EPROTO"
  "tst (flags (rcar_i2c_dma_callback priv)) ID_NACK = tst (flags priv) ID_NACK"
  "tst (flags (rcar_i2c_dma_callback priv)) ID_P_NOT_ATOMIC = tst (flags priv) ID_P_NOT_ATOMIC"
  by (simp_all add: rcar_i2c_dma_callback_def Let_def)

section \<open>The DMA hand-over\<close>

lemma dma_fields [simp]:
  "msgs (snd (rcar_i2c_dma inp priv)) = msgs priv"
  "msg (snd (rcar_i2c_dma inp priv)) = msg priv"
  "msgs_left (snd (rcar_i2c_dma inp priv)) = msgs_left priv"
  "pos (snd (rcar_i2c_dma inp priv)) = pos priv"
  "icccr (snd (rcar_i2c_dma inp priv)) = icccr priv"
  "schd (snd (rcar_i2c_dma inp priv)) = schd priv"
  "scld (snd (rcar_i2c_dma inp priv)) = scld priv"
  "smd (snd (rcar_i2c_dma inp priv)) = smd priv"
  "devtype (snd (rcar_i2c_dma inp priv)) = devtype priv"
  "slave (snd (rcar_i2c_dma inp priv)) = slave priv"
  "slave_flags (snd (rcar_i2c_dma inp priv)) = slave_flags priv"
  "dma_tx (snd (rcar_i2c_dma inp priv)) = dma_tx priv"
  "dma_rx (snd (rcar_i2c_dma inp priv)) = dma_rx priv"
  "cur_msg (snd (rcar_i2c_dma inp priv)) = cur_msg priv"
  "rcar_i2c_is_recv (snd (rcar_i2c_dma inp priv)) = rcar_i2c_is_recv priv"
  by (simp_all add: rcar_i2c_dma_def Let_def cur_msg_def rcar_i2c_is_recv_def split: prod.splits)

lemma dma_taken_iff:
  "fst (rcar_i2c_dma inp priv) \<longleftrightarrow>
     dma_feasible priv \<and> dma_map_ok inp \<and> dma_prep_ok inp \<and> dma_submit_ok inp"
  by (auto simp add: rcar_i2c_dma_def dma_feasible_def rcar_i2c_is_recv_def Let_def
      RCAR_MIN_DMA_LEN_def split: prod.splits)

lemma dma_taken_state:
  assumes "fst (rcar_i2c_dma inp priv)"
  shows "dma_direction (snd (rcar_i2c_dma inp priv))
           = (if rcar_i2c_is_recv priv then DMA_FROM_DEVICE else DMA_TO_DEVICE)"
    and "sg_len (snd (rcar_i2c_dma inp priv))
           = (if rcar_i2c_is_recv priv then len (cur_msg priv) - 2 else len (cur_msg priv) - 1)"
    and "flags (snd (rcar_i2c_dma inp priv)) = flags priv"
    and "io_regs (snd (rcar_i2c_dma inp priv))
           = (io_regs priv)(ICDMAER := (if rcar_i2c_is_recv priv then RMDMAE else TMDMAE))"
    and "io_log (snd (rcar_i2c_dma inp priv)) = io_log priv @
           (if rcar_i2c_is_recv priv
            then [Dma_map 0 (len (cur_msg priv) - 2) DMA_FROM_DEVICE, Dma_prep, Dma_submit,
                  Write ICDMAER RMDMAE, Dma_issue_pending]
            else [Dma_map 1 (len (cur_msg priv) - 1) DMA_TO_DEVICE, Dma_prep, Dma_submit,
                  Write ICDMAER TMDMAE, Dma_issue_pending])"
  using assms
  by (auto simp add: rcar_i2c_dma_def rcar_i2c_is_recv_def Let_def split: prod.splits if_splits)

lemma dma_failed_state:
  assumes "\<not> fst (rcar_i2c_dma inp priv)"
  shows "dma_direction (snd (rcar_i2c_dma inp priv))
           = (if dma_feasible priv \<and> dma_map_ok inp then DMA_NONE else dma_direction priv)"
    and "flags (snd (rcar_i2c_dma inp priv)) = flags priv
         \<or> flags (snd (rcar_i2c_dma inp priv)) = flags priv OR ID_P_NO_RXDMA"
    and "io_regs (snd (rcar_i2c_dma inp priv)) ICMIER = io_regs priv ICMIER"
    and "io_log (snd (rcar_i2c_dma inp priv)) = io_log priv @
           (if \<not> dma_feasible priv then []
            else [Dma_map (if rcar_i2c_is_recv priv then 0 else 1)
                    (if rcar_i2c_is_recv priv then len (cur_msg priv) - 2 else len (cur_msg priv) - 1)
                    (if rcar_i2c_is_recv priv then DMA_FROM_DEVICE else DMA_TO_DEVICE)]
              @ (if \<not> dma_map_ok inp then []
                 else Dma_prep # (if dma_prep_ok inp then [Dma_submit] else [])
                      @ [Dma_unmap, Write ICDMAER 0]))"
  using assms
  by (auto simp add: rcar_i2c_dma_def dma_feasible_def rcar_i2c_is_recv_def Let_def
      RCAR_MIN_DMA_LEN_def split: prod.splits if_splits)

lemma dma_flags_tst:
  "k \<in> {ID_LAST_MSG, ID_REP_AFTER_RD, ID_DONE, ID_ARBLOST, ID_NACK, ID_EPROTO, ID_P_NOT_ATOMIC}
   \<Longrightarrow> tst (flags (snd (rcar_i2c_dma inp priv))) k = tst (flags priv) k"
  using dma_taken_state(3) [of inp priv] dma_failed_state(2) [of inp priv]
  by (cases "fst (rcar_i2c_dma inp priv)") auto

section \<open>Claims about the DMA hand-over\<close>

lemma activity_append [simp]: "activity priv (priv'\<lparr>io_log := io_log priv @ ext\<rparr>) = ext"
  by (simp add: activity_def)

lemma activity_eq: "io_log priv' = io_log priv @ ext \<Longrightarrow> activity priv priv' = ext"
  by (simp add: activity_def)

text \<open>
  Claim C5.  The DMA routine takes a message over exactly when every eligibility
  condition holds and the three DMA engine calls succeed.  When it does, it maps only
  the interior of the buffer: for a receive \<open>len - 2\<close> bytes from offset 0, so that the
  completion callback leaves the position two bytes before the end; for a transmit
  \<open>len - 1\<close> bytes from offset 1.  A buffer of 7 bytes is never taken over, and an
  8-byte receive is taken over for 6 bytes.
\<close>

theorem dma_covers_interior_when_eligible:
  "(fst (rcar_i2c_dma inp priv) \<longleftrightarrow>
      dma_feasible priv \<and> dma_map_ok inp \<and> dma_prep_ok inp \<and> dma_submit_ok inp)
   \<and> (fst (rcar_i2c_dma inp priv) \<and> rcar_i2c_is_recv priv \<longrightarrow>
        activity priv (snd (rcar_i2c_dma inp priv)) =
          [Dma_map 0 (len (cur_msg priv) - 2) DMA_FROM_DEVICE, Dma_prep, Dma_submit,
           Write ICDMAER RMDMAE, Dma_issue_pending]
      \<and> sg_len (snd (rcar_i2c_dma inp priv)) = len (cur_msg priv) - 2
      \<and> pos (rcar_i2c_dma_callback (snd (rcar_i2c_dma inp priv)))
          = pos priv + (len (cur_msg priv) - 2))
   \<and> (fst (rcar_i2c_dma inp priv) \<and> \<not> rcar_i2c_is_recv priv \<longrightarrow>
        activity priv (snd (rcar_i2c_dma inp priv)) =
          [Dma_map 1 (len (cur_msg priv) - 1) DMA_TO_DEVICE, Dma_prep, Dma_submit,
           Write ICDMAER TMDMAE, Dma_issue_pending]
      \<and> sg_len (snd (rcar_i2c_dma inp priv)) = len (cur_msg priv) - 1
      \<and> pos (rcar_i2c_dma_callback (snd (rcar_i2c_dma inp priv)))
          = pos priv + (len (cur_msg priv) - 1))
   \<and> (len (cur_msg priv) = 7 \<longrightarrow> \<not> fst (rcar_i2c_dma inp priv))
   \<and> (len (cur_msg priv) = 8 \<and> rcar_i2c_is_recv priv \<and> fst (rcar_i2c_dma inp priv) \<longrightarrow>
        sg_len (snd (rcar_i2c_dma inp priv)) = 6)"
proof (intro conjI impI)
  show "fst (rcar_i2c_dma inp priv) \<longleftrightarrow>
      dma_feasible priv \<and> dma_map_ok inp \<and> dma_prep_ok inp \<and> dma_submit_ok inp"
    by (rule dma_taken_iff)
  show "\<not> fst (rcar_i2c_dma inp priv)" if "len (cur_msg priv) = 7"
    using that by (simp add: dma_taken_iff dma_feasible_def)
next
  assume a: "fst (rcar_i2c_dma inp priv) \<and> rcar_i2c_is_recv priv"
  then have t: "fst (rcar_i2c_dma inp priv)" and r: "rcar_i2c_is_recv priv" by simp_all
  note st = dma_taken_state [OF t]
  show "activity priv (snd (rcar_i2c_dma inp priv)) =
          [Dma_map 0 (len (cur_msg priv) - 2) DMA_FROM_DEVICE, Dma_prep, Dma_submit,
           Write ICDMAER RMDMAE, Dma_issue_pending]"
    using st(5) r by (intro activity_eq) simp
  show "sg_len (snd (rcar_i2c_dma inp priv)) = len (cur_msg priv) - 2" using st(2) r by simp
  then show "pos (rcar_i2c_dma_callback (snd (rcar_i2c_dma inp priv)))
          = pos priv + (len (cur_msg priv) - 2)" by simp
next
  assume a: "fst (rcar_i2c_dma inp priv) \<and> \<not> rcar_i2c_is_recv priv"
  then have t: "fst (rcar_i2c_dma inp priv)" and r: "\<not> rcar_i2c_is_recv priv" by simp_all
  note st = dma_taken_state [OF t]
  show "activity priv (snd (rcar_i2c_dma inp priv)) =
          [Dma_map 1 (len (cur_msg priv) - 1) DMA_TO_DEVICE, Dma_prep, Dma_submit,
           Write ICDMAER TMDMAE, Dma_issue_pending]"
    using st(5) r by (intro activity_eq) simp
  show "sg_len (snd (rcar_i2c_dma inp priv)) = len (cur_msg priv) - 1" using st(2) r by simp
  then show "pos (rcar_i2c_dma_callback (snd (rcar_i2c_dma inp priv)))
          = pos priv + (len (cur_msg priv) - 1)" by simp
next
  assume "len (cur_msg priv) = 8 \<and> rcar_i2c_is_recv priv \<and> fst (rcar_i2c_dma inp priv)"
  then show "sg_len (snd (rcar_i2c_dma inp priv)) = 6"
    using dma_taken_state(2) [of inp priv] by simp
qed

lemma msg_flag_tests [simp]:
  "tst (I2C_M_RD :: 16 word) I2C_M_RD" "\<not> tst (I2C_M_RD :: 16 word) I2C_M_DMA_SAFE"
  "\<not> tst (I2C_M_RD :: 16 word) I2C_M_RECV_LEN"
  "tst (I2C_M_DMA_SAFE :: 16 word) I2C_M_DMA_SAFE" "\<not> tst (I2C_M_DMA_SAFE :: 16 word) I2C_M_RD"
  "\<not> tst (I2C_M_DMA_SAFE :: 16 word) I2C_M_RECV_LEN"
  "tst (I2C_M_RECV_LEN :: 16 word) I2C_M_RECV_LEN" "\<not> tst (I2C_M_RECV_LEN :: 16 word) I2C_M_RD"
  "\<not> tst (I2C_M_RECV_LEN :: 16 word) I2C_M_DMA_SAFE"
  by (simp_all add: tst_def I2C_M_RD_def I2C_M_DMA_SAFE_def I2C_M_RECV_LEN_def)

text \<open>
  Witness for C5: an 8-byte DMA-safe receive on a Gen3 controller in may-sleep mode with
  a receive channel is taken over, for its first 6 bytes.
\<close>

theorem dma_covers_interior_when_eligible_witness:
  "len (cur_msg (dma_priv [rd8])) = 8 \<and> rcar_i2c_is_recv (dma_priv [rd8])
   \<and> fst (rcar_i2c_dma (hw_ok (MAT OR MDR) 0) (dma_priv [rd8]))
   \<and> sg_len (snd (rcar_i2c_dma (hw_ok (MAT OR MDR) 0) (dma_priv [rd8]))) = 6"
proof -
  have l: "len (cur_msg (dma_priv [rd8])) = 8" and r: "rcar_i2c_is_recv (dma_priv [rd8])"
    by (simp_all add: dma_priv_def probe_priv_def cur_msg_def rd8_def rcar_i2c_is_recv_def)
  have f: "dma_feasible (dma_priv [rd8])"
    using l r by (simp add: dma_feasible_def) (simp add: dma_priv_def probe_priv_def cur_msg_def rd8_def)
  have e: "dma_map_ok (hw_ok (MAT OR MDR) 0)" "dma_prep_ok (hw_ok (MAT OR MDR) 0)"
    "dma_submit_ok (hw_ok (MAT OR MDR) 0)" by (simp_all add: hw_ok_def)
  from dma_covers_interior_when_eligible [of "hw_ok (MAT OR MDR) 0" "dma_priv [rd8]"] l r f e
  show ?thesis by simp
qed

section \<open>Result mapping\<close>

lemma xfer_result_cong:
  assumes "tst (flags q) ID_NACK = tst (flags p) ID_NACK"
    and "tst (flags q) ID_ARBLOST = tst (flags p) ID_ARBLOST"
    and "tst (flags q) ID_EPROTO = tst (flags p) ID_EPROTO"
    and "msgs_left q = msgs_left p"
  shows "fst (xfer_result tleft num q) = fst (xfer_result tleft num p)"
  using assms by (simp add: xfer_result_def)

lemma xfer_out_fst [simp]: "fst (xfer_out rp) = fst rp"
  by (simp add: xfer_out_def case_prod_beta)

lemma recv_phase_stay:
  assumes "pos p \<noteq> len (cur_msg p)"
  shows "pos (recv_phase irqs rli p) = pos p"
    and "cur_msg (recv_phase irqs rli p) = cur_msg p"
    and "msgs (recv_phase irqs rli p) = msgs p"
    and "msg (recv_phase irqs rli p) = msg p"
    and "msgs_left (recv_phase irqs rli p) = msgs_left p"
    and "tst (flags (recv_phase irqs rli p)) ID_NACK = tst (flags p) ID_NACK"
    and "tst (flags (recv_phase irqs rli p)) ID_ARBLOST = tst (flags p) ID_ARBLOST"
    and "tst (flags (recv_phase irqs rli p)) ID_EPROTO = tst (flags p) ID_EPROTO"
    and "\<exists>mid. io_log (recv_phase irqs rli p) = io_log p @ mid @ [Write ICMSR (NOT irqs AND 0x7f)]"
    and "tst (flags (recv_phase irqs rli p)) ID_DONE = tst (flags p) ID_DONE"
  using assms by (simp_all add: recv_phase_def Let_def)

text \<open>
  Claim C9.  Whenever one of the three DMA engine calls fails, the DMA routine reports
  failure to its caller; after a failed preparation or submission it has unmapped the
  buffer and cleared the DMA enable register, and no DMA is in flight; the flags and the
  message count from which the transfer result is computed are untouched.  Each handler
  that made the attempt goes on byte-wise, it leaves the done flag as it was, and the
  result computed from the state it leaves is the one computed before the event.  The transmit handler, which attempts
  DMA at position 1, sends byte 1 itself and advances to position 2.  The receive
  handler, which attempts DMA with the address phase, acknowledges the address phase
  and stays at position 0, and on the next data-ready event it reads the first byte
  from the data register, stores it and advances to position 1.  The receive handler
  of a length-prefixed message, which attempts DMA after a valid length byte, has
  stored the byte and added it to the length, and advances to position 1.
\<close>

theorem dma_failure_falls_back_to_pio:
  assumes fail: "\<not> (dma_map_ok inp \<and> dma_prep_ok inp \<and> dma_submit_ok inp)"
  shows "\<not> fst (rcar_i2c_dma inp priv)
    \<and> (dma_feasible priv \<and> dma_map_ok inp \<longrightarrow>
         dma_direction (snd (rcar_i2c_dma inp priv)) = DMA_NONE
       \<and> (\<exists>pre. activity priv (snd (rcar_i2c_dma inp priv)) = pre @ [Dma_unmap, Write ICDMAER 0]))
    \<and> (\<not> (dma_feasible priv \<and> dma_map_ok inp) \<longrightarrow>
         dma_direction (snd (rcar_i2c_dma inp priv)) = dma_direction priv)
    \<and> fst (xfer_result tleft num (snd (rcar_i2c_dma inp priv))) = fst (xfer_result tleft num priv)
    \<and> (tst msr MDE \<and> pos priv = 1 \<and> 1 < len (cur_msg priv) \<longrightarrow>
         pos (rcar_i2c_irq_send inp msr priv) = 2
       \<and> msg (rcar_i2c_irq_send inp msr priv) = msg priv
       \<and> msgs (rcar_i2c_irq_send inp msr priv) = msgs priv
       \<and> (\<exists>pre. activity priv (rcar_i2c_irq_send inp msr priv) =
             pre @ [Write ICRXTX (ucast (buf (cur_msg priv) 1)),
                    Write ICMSR (NOT (if tst msr MAT then MDE OR MAT else MDE) AND 0x7f)])
       \<and> fst (xfer_out (xfer_result tleft num (rcar_i2c_irq_send inp msr priv)))
           = fst (xfer_out (xfer_result tleft num priv))
       \<and> (tst (flags (rcar_i2c_irq_send inp msr priv)) ID_DONE \<longleftrightarrow> tst (flags priv) ID_DONE))
    \<and> (tst msr MDR \<and> tst msr MAT \<and> pos priv = 0 \<and> 1 < len (cur_msg priv)
        \<and> msg priv < length (msgs priv) \<longrightarrow>
         pos (rcar_i2c_irq_recv inp msr priv) = 0
       \<and> msg (rcar_i2c_irq_recv inp msr priv) = msg priv
       \<and> msgs (rcar_i2c_irq_recv inp msr priv) = msgs priv
       \<and> (\<exists>pre. activity priv (rcar_i2c_irq_recv inp msr priv) =
             pre @ [Write ICMSR (NOT (MDR OR MAT) AND 0x7f)])
       \<and> fst (xfer_out (xfer_result tleft num (rcar_i2c_irq_recv inp msr priv)))
           = fst (xfer_out (xfer_result tleft num priv))
       \<and> (tst (flags (rcar_i2c_irq_recv inp msr priv)) ID_DONE \<longleftrightarrow> tst (flags priv) ID_DONE)
       \<and> (tst nxt_msr MDR \<and> \<not> tst nxt_msr MAT \<and> \<not> tst (mflags (cur_msg priv)) I2C_M_RECV_LEN \<longrightarrow>
            pos (rcar_i2c_irq_recv nxt_inp nxt_msr (rcar_i2c_irq_recv inp msr priv)) = 1
          \<and> buf (cur_msg (rcar_i2c_irq_recv nxt_inp nxt_msr (rcar_i2c_irq_recv inp msr priv))) 0
              = ucast (icrxtx_in nxt_inp)
          \<and> (\<exists>post. activity (rcar_i2c_irq_recv inp msr priv)
                 (rcar_i2c_irq_recv nxt_inp nxt_msr (rcar_i2c_irq_recv inp msr priv))
               = Read ICRXTX # post)))
    \<and> (tst msr MDR \<and> \<not> tst msr MAT \<and> pos priv = 0 \<and> 0 < len (cur_msg priv)
        \<and> msg priv < length (msgs priv) \<and> tst (mflags (cur_msg priv)) I2C_M_RECV_LEN
        \<and> (ucast (icrxtx_in inp) :: 8 word) \<noteq> 0
        \<and> uint (ucast (icrxtx_in inp) :: 8 word) \<le> I2C_SMBUS_BLOCK_MAX
        \<and> len (cur_msg priv) + I2C_SMBUS_BLOCK_MAX \<le> 65535 \<longrightarrow>
         pos (rcar_i2c_irq_recv inp msr priv) = 1
       \<and> msg (rcar_i2c_irq_recv inp msr priv) = msg priv
       \<and> len (cur_msg (rcar_i2c_irq_recv inp msr priv))
           = len (cur_msg priv) + uint (ucast (icrxtx_in inp) :: 8 word)
       \<and> buf (cur_msg (rcar_i2c_irq_recv inp msr priv)) 0 = ucast (icrxtx_in inp)
       \<and> fst (xfer_out (xfer_result tleft num (rcar_i2c_irq_recv inp msr priv)))
           = fst (xfer_out (xfer_result tleft num priv))
       \<and> (tst (flags (rcar_i2c_irq_recv inp msr priv)) ID_DONE \<longleftrightarrow> tst (flags priv) ID_DONE))"
proof -
  have nt: "\<not> fst (rcar_i2c_dma inp q)" for q using fail by (auto simp: dma_taken_iff)
  note st = dma_failed_state [OF nt]
  have res: "fst (xfer_result tleft num (snd (rcar_i2c_dma inp priv))) = fst (xfer_result tleft num priv)"
    by (intro xfer_result_cong) (simp_all add: dma_flags_tst)
  have clean: "\<exists>pre. activity priv (snd (rcar_i2c_dma inp priv)) = pre @ [Dma_unmap, Write ICDMAER 0]"
    if "dma_feasible priv \<and> dma_map_ok inp"
  proof (cases "dma_prep_ok inp")
    case True
    have "activity priv (snd (rcar_i2c_dma inp priv)) =
        [Dma_map (if rcar_i2c_is_recv priv then 0 else 1)
           (if rcar_i2c_is_recv priv then len (cur_msg priv) - 2 else len (cur_msg priv) - 1)
           (if rcar_i2c_is_recv priv then DMA_FROM_DEVICE else DMA_TO_DEVICE), Dma_prep, Dma_submit]
        @ [Dma_unmap, Write ICDMAER 0]"
      using st(4) [of priv] that True by (intro activity_eq) simp
    then show ?thesis by blast
  next
    case False
    have "activity priv (snd (rcar_i2c_dma inp priv)) =
        [Dma_map (if rcar_i2c_is_recv priv then 0 else 1)
           (if rcar_i2c_is_recv priv then len (cur_msg priv) - 2 else len (cur_msg priv) - 1)
           (if rcar_i2c_is_recv priv then DMA_FROM_DEVICE else DMA_TO_DEVICE), Dma_prep]
        @ [Dma_unmap, Write ICDMAER 0]"
      using st(4) [of priv] that False by (intro activity_eq) simp
    then show ?thesis by blast
  qed
  have send: "pos (rcar_i2c_irq_send inp msr priv) = 2
       \<and> msg (rcar_i2c_irq_send inp msr priv) = msg priv
       \<and> msgs (rcar_i2c_irq_send inp msr priv) = msgs priv
       \<and> (\<exists>pre. activity priv (rcar_i2c_irq_send inp msr priv) =
             pre @ [Write ICRXTX (ucast (buf (cur_msg priv) 1)),
                    Write ICMSR (NOT (if tst msr MAT then MDE OR MAT else MDE) AND 0x7f)])
       \<and> fst (xfer_out (xfer_result tleft num (rcar_i2c_irq_send inp msr priv)))
           = fst (xfer_out (xfer_result tleft num priv))
       \<and> (tst (flags (rcar_i2c_irq_send inp msr priv)) ID_DONE \<longleftrightarrow> tst (flags priv) ID_DONE)"
    if a: "tst msr MDE \<and> pos priv = 1 \<and> 1 < len (cur_msg priv)"
  proof -
    let ?q = "snd (rcar_i2c_dma inp priv)"
    obtain ext where ext: "io_log ?q = io_log priv @ ext" using st(4) by blast
    have eq: "rcar_i2c_irq_send inp msr priv =
        rcar_i2c_clear_irq (if tst msr MAT then MDE OR MAT else MDE)
          ((rcar_i2c_write ICRXTX (ucast (buf (cur_msg priv) 1)) ?q)\<lparr>pos := 2\<rparr>)"
      using a nt by (simp add: rcar_i2c_irq_send_def Let_def case_prod_beta)
    have "activity priv (rcar_i2c_irq_send inp msr priv) =
        ext @ [Write ICRXTX (ucast (buf (cur_msg priv) 1)),
               Write ICMSR (NOT (if tst msr MAT then MDE OR MAT else MDE) AND 0x7f)]"
      unfolding eq by (intro activity_eq) (simp add: ext)
    moreover have "fst (xfer_result tleft num (rcar_i2c_irq_send inp msr priv))
        = fst (xfer_result tleft num priv)"
      unfolding eq by (intro xfer_result_cong) (simp_all add: dma_flags_tst)
    moreover have "tst (flags (rcar_i2c_irq_send inp msr priv)) ID_DONE = tst (flags priv) ID_DONE"
      unfolding eq by (simp add: dma_flags_tst)
    ultimately show ?thesis unfolding eq by auto
  qed
  have recv1: "pos (rcar_i2c_irq_recv inp msr priv) = 0
       \<and> msg (rcar_i2c_irq_recv inp msr priv) = msg priv
       \<and> msgs (rcar_i2c_irq_recv inp msr priv) = msgs priv
       \<and> (\<exists>pre. activity priv (rcar_i2c_irq_recv inp msr priv) =
             pre @ [Write ICMSR (NOT (MDR OR MAT) AND 0x7f)])
       \<and> fst (xfer_out (xfer_result tleft num (rcar_i2c_irq_recv inp msr priv)))
           = fst (xfer_out (xfer_result tleft num priv))
       \<and> (tst (flags (rcar_i2c_irq_recv inp msr priv)) ID_DONE \<longleftrightarrow> tst (flags priv) ID_DONE)
       \<and> (tst nxt_msr MDR \<and> \<not> tst nxt_msr MAT \<and> \<not> tst (mflags (cur_msg priv)) I2C_M_RECV_LEN \<longrightarrow>
            pos (rcar_i2c_irq_recv nxt_inp nxt_msr (rcar_i2c_irq_recv inp msr priv)) = 1
          \<and> buf (cur_msg (rcar_i2c_irq_recv nxt_inp nxt_msr (rcar_i2c_irq_recv inp msr priv))) 0
              = ucast (icrxtx_in nxt_inp)
          \<and> (\<exists>post. activity (rcar_i2c_irq_recv inp msr priv)
                 (rcar_i2c_irq_recv nxt_inp nxt_msr (rcar_i2c_irq_recv inp msr priv))
               = Read ICRXTX # post))"
    if a: "tst msr MDR \<and> tst msr MAT \<and> pos priv = 0 \<and> 1 < len (cur_msg priv)
        \<and> msg priv < length (msgs priv)"
  proof -
    let ?q = "snd (rcar_i2c_dma inp priv)"
    define r where "r = rcar_i2c_irq_recv inp msr priv"
    obtain ext where ext: "io_log ?q = io_log priv @ ext" using st(4) by blast
    have eq: "r = rcar_i2c_clear_irq (MDR OR MAT) ?q"
      using a by (simp add: r_def rcar_i2c_irq_recv_def recv_phase_def Let_def)
    have act: "activity priv r = ext @ [Write ICMSR (NOT (MDR OR MAT) AND 0x7f)]"
      unfolding eq by (intro activity_eq) (simp add: ext)
    have rs: "fst (xfer_result tleft num r) = fst (xfer_result tleft num priv)"
      unfolding eq by (intro xfer_result_cong) (simp_all add: dma_flags_tst)
    have f: "pos r = 0" "msg r = msg priv" "msgs r = msgs priv" "cur_msg r = cur_msg priv"
      "tst (flags r) ID_DONE = tst (flags priv) ID_DONE"
      using a by (simp_all add: eq dma_flags_tst)
    have nxt: "pos (rcar_i2c_irq_recv nxt_inp nxt_msr r) = 1
          \<and> buf (cur_msg (rcar_i2c_irq_recv nxt_inp nxt_msr r)) 0 = ucast (icrxtx_in nxt_inp)
          \<and> (\<exists>post. activity r (rcar_i2c_irq_recv nxt_inp nxt_msr r) = Read ICRXTX # post)"
      if b: "tst nxt_msr MDR \<and> \<not> tst nxt_msr MAT \<and> \<not> tst (mflags (cur_msg priv)) I2C_M_RECV_LEN"
    proof -
      define s where "s = (set_cur_msg
          ((cur_msg r)\<lparr>buf := (buf (cur_msg r))(nat (pos r) := ucast (icrxtx_in nxt_inp))\<rparr>)
          (emit (Read ICRXTX) r))\<lparr>pos := 1\<rparr>"
      have idx: "msg r < length (msgs r)" using a f by simp
      have e2: "rcar_i2c_irq_recv nxt_inp nxt_msr r = recv_phase MDR False s"
        using a b f by (simp add: rcar_i2c_irq_recv_def Let_def s_def)
      have cs: "cur_msg s = (cur_msg priv)\<lparr>buf := (buf (cur_msg priv))(0 := ucast (icrxtx_in nxt_inp))\<rparr>"
        using idx f by (simp add: s_def)
      have ps: "pos s \<noteq> len (cur_msg s)" using a by (simp add: cs) (simp add: s_def)
      note ph = recv_phase_stay [OF ps, of MDR False]
      obtain mid where mid: "io_log (recv_phase MDR False s)
          = io_log s @ mid @ [Write ICMSR (NOT MDR AND 0x7f)]" using ph(9) by blast
      have "activity r (rcar_i2c_irq_recv nxt_inp nxt_msr r)
          = Read ICRXTX # mid @ [Write ICMSR (NOT MDR AND 0x7f)]"
        unfolding e2 by (intro activity_eq) (simp add: mid, simp add: s_def)
      then show ?thesis unfolding e2 using ph(1,2) cs by (simp add: s_def)
    qed
    show ?thesis using f act rs nxt unfolding r_def by auto
  qed
  have recv2: "pos (rcar_i2c_irq_recv inp msr priv) = 1
       \<and> msg (rcar_i2c_irq_recv inp msr priv) = msg priv
       \<and> len (cur_msg (rcar_i2c_irq_recv inp msr priv))
           = len (cur_msg priv) + uint (ucast (icrxtx_in inp) :: 8 word)
       \<and> buf (cur_msg (rcar_i2c_irq_recv inp msr priv)) 0 = ucast (icrxtx_in inp)
       \<and> fst (xfer_out (xfer_result tleft num (rcar_i2c_irq_recv inp msr priv)))
           = fst (xfer_out (xfer_result tleft num priv))
       \<and> (tst (flags (rcar_i2c_irq_recv inp msr priv)) ID_DONE \<longleftrightarrow> tst (flags priv) ID_DONE)"
    if a: "tst msr MDR \<and> \<not> tst msr MAT \<and> pos priv = 0 \<and> 0 < len (cur_msg priv)
        \<and> msg priv < length (msgs priv) \<and> tst (mflags (cur_msg priv)) I2C_M_RECV_LEN
        \<and> (ucast (icrxtx_in inp) :: 8 word) \<noteq> 0
        \<and> uint (ucast (icrxtx_in inp) :: 8 word) \<le> I2C_SMBUS_BLOCK_MAX
        \<and> len (cur_msg priv) + I2C_SMBUS_BLOCK_MAX \<le> 65535"
  proof -
    define d where "d = (ucast (icrxtx_in inp) :: 8 word)"
    have d0: "uint d \<noteq> 0" using a by (simp add: d_def uint_0_iff)
    have d1: "0 \<le> uint d" by simp
    have d2: "uint d \<le> 32" using a by (simp add: d_def I2C_SMBUS_BLOCK_MAX_def)
    have d_rng: "1 \<le> uint d" "uint d \<le> 32" using d0 d1 d2 by arith+
    define n where "n = len (cur_msg priv) + uint d"
    have n: "u16 n = n" "2 \<le> n"
      using a d_rng by (simp_all add: u16_def n_def I2C_SMBUS_BLOCK_MAX_def)
    define s where "s = set_cur_msg
        ((cur_msg priv)\<lparr>buf := (buf (cur_msg priv))(nat (pos priv) := d)\<rparr>) (emit (Read ICRXTX) priv)"
    have ms: "cur_msg s = (cur_msg priv)\<lparr>buf := (buf (cur_msg priv))(0 := d)\<rparr>"
      using a by (simp add: s_def)
    have ixs: "msg s < length (msgs s)" using a by (simp add: s_def)
    define q where "q = set_cur_msg
        ((cur_msg s)\<lparr>len := u16 (len (cur_msg s) + uint (buf (cur_msg s) 0))\<rparr>) s"
    have cq: "cur_msg q = (cur_msg priv)\<lparr>buf := (buf (cur_msg priv))(0 := d), len := n\<rparr>"
      using ixs n(1) by (simp add: q_def ms n_def)
    define x where "x = (snd (rcar_i2c_dma inp q))\<lparr>pos := 1\<rparr>"
    have e: "rcar_i2c_irq_recv inp msr priv = recv_phase MDR False x"
      using a nt [of q] d0 d2
      by (simp add: rcar_i2c_irq_recv_def Let_def case_prod_beta q_def s_def d_def x_def
          uint_0_iff I2C_SMBUS_BLOCK_MAX_def)
    have cx: "cur_msg x = cur_msg q" by (simp add: x_def)
    have px: "pos x \<noteq> len (cur_msg x)" using n(2) by (simp add: cx cq) (simp add: x_def)
    note ph = recv_phase_stay [OF px, of MDR False]
    have fx: "pos x = 1" "msg x = msg priv" "msgs_left x = msgs_left priv"
      "tst (flags x) ID_NACK = tst (flags priv) ID_NACK"
      "tst (flags x) ID_ARBLOST = tst (flags priv) ID_ARBLOST"
      "tst (flags x) ID_EPROTO = tst (flags priv) ID_EPROTO"
      "tst (flags x) ID_DONE = tst (flags priv) ID_DONE"
      by (simp_all add: x_def q_def s_def dma_flags_tst)
    have rs: "fst (xfer_result tleft num (recv_phase MDR False x)) = fst (xfer_result tleft num priv)"
      by (intro xfer_result_cong) (simp_all add: ph fx)
    show ?thesis unfolding e using ph(1,2,4,10) fx cx cq rs by (simp add: n_def d_def)
  qed
  show ?thesis using nt [of priv] st(1) [of priv] res clean send recv1 recv2 by auto
qed

text \<open>
  Witness for C9, with a DMA engine that refuses the descriptor.  The 8-byte DMA-safe
  transmit at position 1: the handler sends byte 1 itself.  The 8-byte DMA-safe receive
  at its address phase: the handler stays at position 0 and the next data-ready event
  stores the byte 0x55.  The length-prefixed receive whose first byte 7 makes its length
  8: the handler advances to position 1.
\<close>

theorem dma_failure_falls_back_to_pio_witness:
  "\<not> (dma_map_ok (hw_noprep MDE 0) \<and> dma_prep_ok (hw_noprep MDE 0) \<and> dma_submit_ok (hw_noprep MDE 0))
   \<and> pos (rcar_i2c_irq_send (hw_noprep MDE 0) MDE ((dma_priv [wr8])\<lparr>pos := 1\<rparr>)) = 2
   \<and> pos (rcar_i2c_irq_recv (hw_noprep (MAT OR MDR) 0) (MAT OR MDR) (dma_priv [rd8])) = 0
   \<and> pos (rcar_i2c_irq_recv (hw_ok MDR 0x55) MDR
            (rcar_i2c_irq_recv (hw_noprep (MAT OR MDR) 0) (MAT OR MDR) (dma_priv [rd8]))) = 1
   \<and> buf (cur_msg (rcar_i2c_irq_recv (hw_ok MDR 0x55) MDR
            (rcar_i2c_irq_recv (hw_noprep (MAT OR MDR) 0) (MAT OR MDR) (dma_priv [rd8])))) 0
       = ucast (icrxtx_in (hw_ok MDR 0x55))
   \<and> dma_feasible ((dma_priv [rdl_safe])\<lparr>msgs := [rdl_safe\<lparr>len := 8\<rparr>]\<rparr>)
   \<and> pos (rcar_i2c_irq_recv (hw_noprep MDR 7) MDR (dma_priv [rdl_safe])) = 1
   \<and> len (cur_msg (rcar_i2c_irq_recv (hw_noprep MDR 7) MDR (dma_priv [rdl_safe])))
       = len (cur_msg (dma_priv [rdl_safe])) + uint (ucast (icrxtx_in (hw_noprep MDR 7)) :: 8 word)"
proof -
  have f: "\<not> (dma_map_ok (hw_noprep m d) \<and> dma_prep_ok (hw_noprep m d) \<and> dma_submit_ok (hw_noprep m d))"
    for m d by (simp add: hw_noprep_def)
  have a1: "tst MDE MDE \<and> pos ((dma_priv [wr8])\<lparr>pos := 1\<rparr>) = 1
      \<and> 1 < len (cur_msg ((dma_priv [wr8])\<lparr>pos := 1\<rparr>))"
    by code_simp
  have a2: "tst (MAT OR MDR) MDR \<and> tst (MAT OR MDR) MAT \<and> pos (dma_priv [rd8]) = 0
      \<and> 1 < len (cur_msg (dma_priv [rd8])) \<and> msg (dma_priv [rd8]) < length (msgs (dma_priv [rd8]))"
    by code_simp
  have b2: "tst MDR MDR \<and> \<not> tst MDR MAT \<and> \<not> tst (mflags (cur_msg (dma_priv [rd8]))) I2C_M_RECV_LEN"
    by code_simp
  have a3: "tst MDR MDR \<and> \<not> tst MDR MAT \<and> pos (dma_priv [rdl_safe]) = 0
      \<and> 0 < len (cur_msg (dma_priv [rdl_safe]))
      \<and> msg (dma_priv [rdl_safe]) < length (msgs (dma_priv [rdl_safe]))
      \<and> tst (mflags (cur_msg (dma_priv [rdl_safe]))) I2C_M_RECV_LEN
      \<and> (ucast (icrxtx_in (hw_noprep MDR 7)) :: 8 word) \<noteq> 0
      \<and> uint (ucast (icrxtx_in (hw_noprep MDR 7)) :: 8 word) \<le> I2C_SMBUS_BLOCK_MAX
      \<and> len (cur_msg (dma_priv [rdl_safe])) + I2C_SMBUS_BLOCK_MAX \<le> 65535"
    by code_simp
  have feas: "dma_feasible ((dma_priv [rdl_safe])\<lparr>msgs := [rdl_safe\<lparr>len := 8\<rparr>]\<rparr>)"
    by code_simp
  from dma_failure_falls_back_to_pio [where inp = "hw_noprep MDE 0"
      and priv = "(dma_priv [wr8])\<lparr>pos := 1\<rparr>" and msr = MDE, OF f] a1
  have s: "pos (rcar_i2c_irq_send (hw_noprep MDE 0) MDE ((dma_priv [wr8])\<lparr>pos := 1\<rparr>)) = 2"
    by blast
  from dma_failure_falls_back_to_pio [where inp = "hw_noprep (MAT OR MDR) 0"
      and priv = "dma_priv [rd8]" and msr = "MAT OR MDR"
      and nxt_msr = MDR and nxt_inp = "hw_ok MDR 0x55", OF f] a2 b2
  have r1: "pos (rcar_i2c_irq_recv (hw_noprep (MAT OR MDR) 0) (MAT OR MDR) (dma_priv [rd8])) = 0"
    "pos (rcar_i2c_irq_recv (hw_ok MDR 0x55) MDR
        (rcar_i2c_irq_recv (hw_noprep (MAT OR MDR) 0) (MAT OR MDR) (dma_priv [rd8]))) = 1"
    "buf (cur_msg (rcar_i2c_irq_recv (hw_ok MDR 0x55) MDR
        (rcar_i2c_irq_recv (hw_noprep (MAT OR MDR) 0) (MAT OR MDR) (dma_priv [rd8])))) 0
       = ucast (icrxtx_in (hw_ok MDR 0x55))"
    by blast+
  from dma_failure_falls_back_to_pio [where inp = "hw_noprep MDR 7"
      and priv = "dma_priv [rdl_safe]" and msr = MDR, OF f] a3
  have r2: "pos (rcar_i2c_irq_recv (hw_noprep MDR 7) MDR (dma_priv [rdl_safe])) = 1"
    "len (cur_msg (rcar_i2c_irq_recv (hw_noprep MDR 7) MDR (dma_priv [rdl_safe])))
       = len (cur_msg (dma_priv [rdl_safe])) + uint (ucast (icrxtx_in (hw_noprep MDR 7)) :: 8 word)"
    by blast+
  show ?thesis using f s r1 r2 feas by blast
qed

section \<open>The log only grows\<close>

lemma extends_log_refl [simp]: "extends_log priv priv"
  by (simp add: extends_log_def)

lemma extends_log_trans: "extends_log p q \<Longrightarrow> extends_log q r \<Longrightarrow> extends_log p r"
  by (auto simp: extends_log_def)

lemma extends_log_activity:
  "extends_log p q \<Longrightarrow> io_log q = io_log p @ activity p q \<and> Wake_up \<notin> set (activity p q)"
  by (auto simp: extends_log_def activity_def)

lemma extends_prepare_msg: "extends_log priv (rcar_i2c_prepare_msg priv)"
  by (simp add: extends_log_def rcar_i2c_prepare_msg_def Let_def)

lemma extends_dma: "extends_log priv (snd (rcar_i2c_dma inp priv))"
  using dma_taken_state(5) [of inp priv] dma_failed_state(4) [of inp priv]
  by (cases "fst (rcar_i2c_dma inp priv)") (auto simp: extends_log_def)

lemma extends_intros:
  "e \<noteq> Wake_up \<Longrightarrow> extends_log p q \<Longrightarrow> extends_log p (emit e q)"
  "extends_log p q \<Longrightarrow> extends_log p (rcar_i2c_write r v q)"
  "extends_log p q \<Longrightarrow> extends_log p (rcar_i2c_clear_irq v q)"
  "extends_log p q \<Longrightarrow> extends_log p (q\<lparr>flags := f\<rparr>)"
  "extends_log p q \<Longrightarrow> extends_log p (q\<lparr>pos := n\<rparr>)"
  "extends_log p q \<Longrightarrow> extends_log p (q\<lparr>msgs_left := k\<rparr>)"
  "extends_log p q \<Longrightarrow> extends_log p (set_cur_msg m q)"
  "extends_log p q \<Longrightarrow> extends_log p (rcar_i2c_next_msg q)"
  "extends_log p q \<Longrightarrow> extends_log p (snd (rcar_i2c_dma inp q))"
  "extends_log p p"
proof -
  show "extends_log p q \<Longrightarrow> extends_log p (rcar_i2c_next_msg q)"
    using extends_prepare_msg [of "q\<lparr>msg := msg q + 1, msgs_left := msgs_left q - 1\<rparr>"]
    by (auto simp: extends_log_def rcar_i2c_next_msg_def Let_def)
  show "extends_log p q \<Longrightarrow> extends_log p (snd (rcar_i2c_dma inp q))"
    by (erule extends_log_trans) (rule extends_dma)
qed (auto simp: extends_log_def)

lemma extends_irq_send: "extends_log priv (rcar_i2c_irq_send inp msr priv)"
  unfolding rcar_i2c_irq_send_def Let_def case_prod_beta
  by (auto intro!: extends_intros)

lemma extends_recv_phase: "extends_log p q \<Longrightarrow> extends_log p (recv_phase irqs rli q)"
  unfolding recv_phase_def Let_def
  by (auto intro!: extends_intros)

lemma extends_irq_recv: "extends_log priv (rcar_i2c_irq_recv inp msr priv)"
  unfolding rcar_i2c_irq_recv_def Let_def case_prod_beta
  by (auto intro!: extends_recv_phase extends_intros)

lemma extends_irq_event: "extends_log priv (irq_event inp msr priv)"
  unfolding irq_event_def Let_def
  by (auto intro!: extends_irq_recv extends_irq_send extends_intros)

section \<open>The shared handler\<close>

lemma recv_phase_not_atomic [simp]:
  "tst (flags (recv_phase irqs rli priv)) ID_P_NOT_ATOMIC = tst (flags priv) ID_P_NOT_ATOMIC"
  by (simp add: recv_phase_def Let_def)

lemma irq_event_not_atomic [simp]:
  "tst (flags (irq_event inp msr priv)) ID_P_NOT_ATOMIC = tst (flags priv) ID_P_NOT_ATOMIC"
  by (simp add: irq_event_def rcar_i2c_irq_send_def rcar_i2c_irq_recv_def Let_def
      case_prod_beta dma_flags_tst)

lemma irq_out_flags [simp]: "flags (irq_out priv) = flags priv"
  by (simp add: irq_out_def Let_def)

lemma irq_out_log:
  "io_log (irq_out priv) = io_log priv @
     (if tst (flags priv) ID_DONE
      then [Write ICMIER 0, Write ICMSR 0] @ (if tst (flags priv) ID_P_NOT_ATOMIC then [Wake_up] else [])
      else [])"
  by (simp add: irq_out_def Let_def)

lemma irq_nonzero:
  "msr \<noteq> 0 \<Longrightarrow> rcar_i2c_irq inp msr priv = (IRQ_HANDLED, irq_out (irq_event inp msr priv))"
  by (simp add: rcar_i2c_irq_def)

text \<open>
  Claim C10.  An invocation of the shared handler with a master status pending (a
  non-zero masked status; with none the handler only serves the target interface) that
  ends with the done flag set has, as its last register activity, written 0 to ICMIER
  and then 0 to ICMSR, whichever branch set the flag; the waiting thread is woken after
  these two writes, only in may-sleep mode, and nowhere earlier in the invocation.
\<close>

theorem done_ends_with_irq_cleanup:
  assumes "msr \<noteq> 0" and "tst (flags (snd (rcar_i2c_irq inp msr priv))) ID_DONE"
  shows "\<exists>pre. activity priv (snd (rcar_i2c_irq inp msr priv)) =
           pre @ [Write ICMIER 0, Write ICMSR 0]
               @ (if tst (flags priv) ID_P_NOT_ATOMIC then [Wake_up] else [])
         \<and> Wake_up \<notin> set pre"
proof -
  let ?q = "irq_event inp msr priv"
  have r: "snd (rcar_i2c_irq inp msr priv) = irq_out ?q" using assms(1) by (simp add: irq_nonzero)
  have d: "tst (flags ?q) ID_DONE" using assms(2) by (simp add: r)
  from extends_log_activity [OF extends_irq_event [of priv inp msr]]
  have e: "io_log ?q = io_log priv @ activity priv ?q" and w: "Wake_up \<notin> set (activity priv ?q)"
    by simp_all
  have "activity priv (irq_out ?q) = activity priv ?q @ [Write ICMIER 0, Write ICMSR 0]
      @ (if tst (flags priv) ID_P_NOT_ATOMIC then [Wake_up] else [])"
    by (rule activity_eq) (simp add: irq_out_log d e [symmetric])
  then show ?thesis using w unfolding r by blast
qed

text \<open>
  Witness for C10: arbitration loss in may-sleep mode; the invocation consists of the two
  writes and the wake-up.
\<close>

theorem done_ends_with_irq_cleanup_witness:
  "MAL \<noteq> 0 \<and> tst (flags (snd (rcar_i2c_irq (hw_ok MAL 0) MAL (dma_priv [wr8])))) ID_DONE
   \<and> (\<exists>pre. activity (dma_priv [wr8]) (snd (rcar_i2c_irq (hw_ok MAL 0) MAL (dma_priv [wr8]))) =
           pre @ [Write ICMIER 0, Write ICMSR 0]
               @ (if tst (flags (dma_priv [wr8])) ID_P_NOT_ATOMIC then [Wake_up] else [])
         \<and> Wake_up \<notin> set pre)"
proof -
  have n: "MAL \<noteq> 0" by (simp add: MAL_def BIT_def)
  have t: "tst MAL MAL" by (simp add: tst_def MAL_def BIT_def)
  have d: "tst (flags (snd (rcar_i2c_irq (hw_ok MAL 0) MAL (dma_priv [wr8])))) ID_DONE"
    by (simp add: irq_nonzero [OF n] irq_event_def t)
  from done_ends_with_irq_cleanup [OF n d] n d show ?thesis by blast
qed




section \<open>The two interrupt entries\<close>

text \<open>
  Claim C8, as amended.  The legacy entry writes the data-phase value to ICMCR before it
  reads the status register, unless a repeated start after a read is in progress, in
  which case it writes nothing before the read; the write does not depend on the status.
  The later entry reads the status first (and the enable register, in may-sleep mode)
  and then writes the data-phase value only if the masked status is not zero and no
  repeated start after a read is in progress.  Both then pass the masked status to the
  shared handler.
\<close>

theorem irq_entries_order:
  "rcar_i2c_gen2_irq inp priv =
     rcar_i2c_irq inp
       (if tst (flags priv) ID_P_NOT_ATOMIC then icmsr_in inp AND io_regs priv ICMIER
        else icmsr_in inp)
       (priv\<lparr>io_regs := (if \<not> tst (flags priv) ID_REP_AFTER_RD
                          then (io_regs priv)(ICMCR := RCAR_BUS_PHASE_DATA) else io_regs priv),
             io_log := io_log priv
               @ (if \<not> tst (flags priv) ID_REP_AFTER_RD then [Write ICMCR RCAR_BUS_PHASE_DATA] else [])
               @ [Read ICMSR]
               @ (if tst (flags priv) ID_P_NOT_ATOMIC then [Read ICMIER] else [])\<rparr>)
   \<and> rcar_i2c_gen3_irq inp priv =
     rcar_i2c_irq inp
       (if tst (flags priv) ID_P_NOT_ATOMIC then icmsr_in inp AND io_regs priv ICMIER
        else icmsr_in inp)
       (priv\<lparr>io_regs := (if \<not> tst (flags priv) ID_REP_AFTER_RD
                             \<and> (if tst (flags priv) ID_P_NOT_ATOMIC
                                 then icmsr_in inp AND io_regs priv ICMIER else icmsr_in inp) \<noteq> 0
                          then (io_regs priv)(ICMCR := RCAR_BUS_PHASE_DATA) else io_regs priv),
             io_log := io_log priv
               @ [Read ICMSR]
               @ (if tst (flags priv) ID_P_NOT_ATOMIC then [Read ICMIER] else [])
               @ (if \<not> tst (flags priv) ID_REP_AFTER_RD
                     \<and> (if tst (flags priv) ID_P_NOT_ATOMIC
                         then icmsr_in inp AND io_regs priv ICMIER else icmsr_in inp) \<noteq> 0
                  then [Write ICMCR RCAR_BUS_PHASE_DATA] else [])\<rparr>)"
  by (simp add: rcar_i2c_gen2_irq_def rcar_i2c_gen3_irq_def read_msr_def Let_def emit_def
      rcar_i2c_write_def)

text \<open>
  Claim C8 as stated, with an unconditional write by the legacy entry, fails in the
  state reached after the first byte of a two-byte receive that is followed by another
  message: the repeated start is pending, and the legacy entry starts with the read of
  the status register and never writes the data-phase value.
\<close>

theorem gen2_entry_skips_write_counterexample:
  "tst (flags gen2_rep_start) ID_REP_AFTER_RD
   \<and> hd (activity gen2_rep_start (snd (rcar_i2c_gen2_irq (hw_ok MDR 0x43) gen2_rep_start)))
       = Read ICMSR
   \<and> Write ICMCR RCAR_BUS_PHASE_DATA
       \<notin> set (activity gen2_rep_start (snd (rcar_i2c_gen2_irq (hw_ok MDR 0x43) gen2_rep_start)))"
  by code_simp

section \<open>The length byte of a block receive\<close>

lemma irq_out_fields [simp]:
  "msgs (irq_out priv) = msgs priv" "msg (irq_out priv) = msg priv"
  "msgs_left (irq_out priv) = msgs_left priv" "pos (irq_out priv) = pos priv"
  "dma_direction (irq_out priv) = dma_direction priv" "sg_len (irq_out priv) = sg_len priv"
  "devtype (irq_out priv) = devtype priv" "cur_msg (irq_out priv) = cur_msg priv"
  by (simp_all add: irq_out_def Let_def cur_msg_def)

text \<open>
  The byte-wise path.  Let the current message be a receive flagged as length-not-final,
  at position 0 with room in its \<open>__u16\<close> length for the largest block count, and let a
  data-ready event arrive (no address-phase, arbitration, NACK or stop bit).  If the
  byte read is 0 or above the block maximum 32, the handler sets the done and
  protocol-error flags, leaves position, message index, message count and length as
  they were, does nothing but disable the interrupts, clear the status and wake the
  waiter, and the result of the transfer is \<open>-EPROTO\<close> (no NACK or arbitration loss
  having been recorded).  Otherwise the byte is added to the length of the message and
  the DMA routine decides on the new length: if it is feasible and its three calls
  succeed, \<open>len - 2\<close> bytes of the new length are handed over and the position stays 0;
  if not, the position advances to 1.
\<close>

lemma recv_len_first_byte:
  assumes recv: "rcar_i2c_is_recv priv"
    and rl: "tst (mflags (cur_msg priv)) I2C_M_RECV_LEN"
    and first: "pos priv = 0" "0 < len (cur_msg priv)"
    and room: "len (cur_msg priv) + I2C_SMBUS_BLOCK_MAX \<le> 65535"
    and idx: "msg priv < length (msgs priv)"
    and msr: "tst msr MDR" "\<not> tst msr MAT" "\<not> tst msr MAL" "\<not> tst msr MNR" "\<not> tst msr MST"
    and clean: "\<not> tst (flags priv) ID_NACK" "\<not> tst (flags priv) ID_ARBLOST"
  shows "(ucast (icrxtx_in inp) = (0 :: 8 word)
          \<or> uint (ucast (icrxtx_in inp) :: 8 word) > I2C_SMBUS_BLOCK_MAX \<longrightarrow>
           tst (flags (snd (rcar_i2c_irq inp msr priv))) ID_DONE
         \<and> tst (flags (snd (rcar_i2c_irq inp msr priv))) ID_EPROTO
         \<and> pos (snd (rcar_i2c_irq inp msr priv)) = 0
         \<and> msg (snd (rcar_i2c_irq inp msr priv)) = msg priv
         \<and> msgs_left (snd (rcar_i2c_irq inp msr priv)) = msgs_left priv
         \<and> len (cur_msg (snd (rcar_i2c_irq inp msr priv))) = len (cur_msg priv)
         \<and> activity priv (snd (rcar_i2c_irq inp msr priv)) =
             [Read ICRXTX, Write ICMIER 0, Write ICMSR 0]
             @ (if tst (flags priv) ID_P_NOT_ATOMIC then [Wake_up] else [])
         \<and> fst (xfer_out (xfer_result True num (snd (rcar_i2c_irq inp msr priv)))) = - EPROTO)
      \<and> (\<not> (ucast (icrxtx_in inp) = (0 :: 8 word)
             \<or> uint (ucast (icrxtx_in inp) :: 8 word) > I2C_SMBUS_BLOCK_MAX) \<longrightarrow>
           len (msgs (snd (rcar_i2c_irq inp msr priv)) ! msg priv)
             = len (cur_msg priv) + uint (ucast (icrxtx_in inp) :: 8 word)
         \<and> (if tst (flags priv) ID_P_NOT_ATOMIC \<and> \<not> IS_ERR (dma_rx priv)
                \<and> 8 \<le> len (cur_msg priv) + uint (ucast (icrxtx_in inp) :: 8 word)
                \<and> tst (mflags (cur_msg priv)) I2C_M_DMA_SAFE
                \<and> \<not> tst (flags priv) ID_P_NO_RXDMA
                \<and> dma_map_ok inp \<and> dma_prep_ok inp \<and> dma_submit_ok inp
             then pos (snd (rcar_i2c_irq inp msr priv)) = 0
                \<and> dma_direction (snd (rcar_i2c_irq inp msr priv)) = DMA_FROM_DEVICE
                \<and> sg_len (snd (rcar_i2c_irq inp msr priv))
                    = len (cur_msg priv) + uint (ucast (icrxtx_in inp) :: 8 word) - 2
             else pos (snd (rcar_i2c_irq inp msr priv)) = 1
                \<and> msg (snd (rcar_i2c_irq inp msr priv)) = msg priv))"
proof (intro conjI impI)
  let ?d = "ucast (icrxtx_in inp) :: 8 word"
  have nz: "msr \<noteq> 0" using msr(1) by (rule tst_nonzero)
  have ev: "snd (rcar_i2c_irq inp msr priv) = irq_out (rcar_i2c_irq_recv inp msr priv)"
    using msr recv by (simp add: irq_nonzero [OF nz] irq_event_def)
  let ?s = "set_cur_msg ((cur_msg priv)\<lparr>buf := (buf (cur_msg priv))(0 := ?d)\<rparr>) (emit (Read ICRXTX) priv)"
  have s_idx: "msg ?s < length (msgs ?s)" using idx by simp
  {
    assume bad: "?d = 0 \<or> uint ?d > I2C_SMBUS_BLOCK_MAX"
    have r: "rcar_i2c_irq_recv inp msr priv = ?s\<lparr>flags := flags priv OR (ID_DONE OR ID_EPROTO)\<rparr>"
      using msr first rl idx bad by (simp add: rcar_i2c_irq_recv_def Let_def)
    let ?p = "snd (rcar_i2c_irq inp msr priv)"
    show "tst (flags ?p) ID_DONE" "tst (flags ?p) ID_EPROTO" "pos ?p = 0" "msg ?p = msg priv"
      "msgs_left ?p = msgs_left priv"
      using first by (simp_all add: ev r)
    show "len (cur_msg ?p) = len (cur_msg priv)"
      using idx by (simp add: ev r cur_msg_def set_cur_msg_def)
    show "activity priv ?p = [Read ICRXTX, Write ICMIER 0, Write ICMSR 0]
             @ (if tst (flags priv) ID_P_NOT_ATOMIC then [Wake_up] else [])"
      unfolding ev r by (rule activity_eq) (simp add: irq_out_log)
    show "fst (xfer_out (xfer_result True num ?p)) = - EPROTO"
      using clean by (simp add: ev r xfer_result_def xfer_out_def EPROTO_def ENXIO_def)
  }
  {
    assume good: "\<not> (?d = 0 \<or> uint ?d > I2C_SMBUS_BLOCK_MAX)"
    have d0: "uint ?d \<noteq> 0" using good by (simp add: uint_0_iff)
    have d1: "0 \<le> uint ?d" by simp
    have d2: "uint ?d \<le> 32" using good by (simp add: I2C_SMBUS_BLOCK_MAX_def)
    have d_rng: "1 \<le> uint ?d" "uint ?d \<le> 32" using d0 d1 d2 by arith+
    let ?n = "len (cur_msg priv) + uint ?d"
    have n: "u16 ?n = ?n" using first room d_rng by (simp add: u16_def I2C_SMBUS_BLOCK_MAX_def)
    define q where "q = set_cur_msg
        ((cur_msg ?s)\<lparr>len := u16 (len (cur_msg ?s) + uint (buf (cur_msg ?s) 0))\<rparr>) ?s"
    have cq: "cur_msg q = (cur_msg priv)\<lparr>buf := (buf (cur_msg priv))(0 := ?d), len := ?n\<rparr>"
      unfolding q_def using idx n by simp
    have fq: "flags q = flags priv" "pos q = 0" "msg q = msg priv" "dma_rx q = dma_rx priv"
      unfolding q_def using first by simp_all
    have r: "rcar_i2c_irq_recv inp msr priv =
        (if fst (rcar_i2c_dma inp q) then snd (rcar_i2c_dma inp q)
         else recv_phase MDR False ((snd (rcar_i2c_dma inp q))\<lparr>pos := 1\<rparr>))"
      unfolding q_def using msr first rl idx good
      by (simp add: rcar_i2c_irq_recv_def Let_def case_prod_beta)
    have rq: "rcar_i2c_is_recv q" using recv by (simp add: rcar_i2c_is_recv_def cq)
    have feas: "dma_feasible q \<longleftrightarrow> tst (flags priv) ID_P_NOT_ATOMIC \<and> \<not> IS_ERR (dma_rx priv)
        \<and> 8 \<le> ?n \<and> tst (mflags (cur_msg priv)) I2C_M_DMA_SAFE \<and> \<not> tst (flags priv) ID_P_NO_RXDMA"
      using rq by (simp add: dma_feasible_def cq fq)
    let ?p = "snd (rcar_i2c_irq inp msr priv)"
    have len_idx: "len (msgs q ! msg priv) = ?n" using cq fq(3) by (simp add: cur_msg_def)
    have ph_msgs: "msgs (recv_phase MDR False x) = msgs x" for x
      by (simp add: recv_phase_def Let_def)
    show "len (msgs ?p ! msg priv) = ?n"
      using len_idx by (simp add: ev r ph_msgs)
    show "if tst (flags priv) ID_P_NOT_ATOMIC \<and> \<not> IS_ERR (dma_rx priv) \<and> 8 \<le> ?n
            \<and> tst (mflags (cur_msg priv)) I2C_M_DMA_SAFE \<and> \<not> tst (flags priv) ID_P_NO_RXDMA
            \<and> dma_map_ok inp \<and> dma_prep_ok inp \<and> dma_submit_ok inp
          then pos ?p = 0 \<and> dma_direction ?p = DMA_FROM_DEVICE \<and> sg_len ?p = ?n - 2
          else pos ?p = 1 \<and> msg ?p = msg priv"
    proof (cases "fst (rcar_i2c_dma inp q)")
      case True
      note st = dma_taken_state [OF True]
      have e: "?p = irq_out (snd (rcar_i2c_dma inp q))" using True by (simp add: ev r)
      have "pos ?p = 0" unfolding e using fq(2) by simp
      moreover have "dma_direction ?p = DMA_FROM_DEVICE" unfolding e using st(1) rq by simp
      moreover have "sg_len ?p = ?n - 2" unfolding e using st(2) rq cq by simp
      moreover have "dma_feasible q \<and> dma_map_ok inp \<and> dma_prep_ok inp \<and> dma_submit_ok inp"
        using True by (simp add: dma_taken_iff)
      ultimately show ?thesis using feas by simp
    next
      case False
      define x where "x = (snd (rcar_i2c_dma inp q))\<lparr>pos := 1\<rparr>"
      have e: "?p = irq_out (recv_phase MDR False x)" using False by (simp add: ev r x_def)
      have px: "pos x = 1" "msg x = msg priv" by (simp_all add: x_def fq)
      have lx: "len (cur_msg x) = ?n" using cq by (simp add: x_def)
      have "2 \<le> ?n" using first d_rng by simp
      then have "pos (recv_phase MDR False x) = 1 \<and> msg (recv_phase MDR False x) = msg priv"
        using px lx by (simp add: recv_phase_def Let_def)
      then have "pos ?p = 1 \<and> msg ?p = msg priv" unfolding e by simp
      moreover have "\<not> (dma_feasible q \<and> dma_map_ok inp \<and> dma_prep_ok inp \<and> dma_submit_ok inp)"
        using False by (simp add: dma_taken_iff)
      ultimately show ?thesis using feas by auto
    qed
  }
qed

text \<open>
  For example, a block receive of declared length 1 whose first byte is 0 ends with the
  done and protocol-error flags and the result \<open>-EPROTO\<close>.
\<close>

lemma recv_len_first_byte_example:
  "rcar_i2c_is_recv (dma_priv [rdl]) \<and> tst (mflags (cur_msg (dma_priv [rdl]))) I2C_M_RECV_LEN
   \<and> pos (dma_priv [rdl]) = 0 \<and> 0 < len (cur_msg (dma_priv [rdl]))
   \<and> len (cur_msg (dma_priv [rdl])) + I2C_SMBUS_BLOCK_MAX \<le> 65535
   \<and> msg (dma_priv [rdl]) < length (msgs (dma_priv [rdl]))
   \<and> tst MDR MDR \<and> \<not> tst MDR MAT \<and> \<not> tst MDR MAL \<and> \<not> tst MDR MNR \<and> \<not> tst MDR MST
   \<and> \<not> tst (flags (dma_priv [rdl])) ID_NACK \<and> \<not> tst (flags (dma_priv [rdl])) ID_ARBLOST
   \<and> tst (flags (snd (rcar_i2c_irq (hw_ok MDR 0) MDR (dma_priv [rdl])))) ID_EPROTO
   \<and> fst (xfer_out (xfer_result True 1 (snd (rcar_i2c_irq (hw_ok MDR 0) MDR (dma_priv [rdl])))))
       = - EPROTO"
proof -
  have h1: "rcar_i2c_is_recv (dma_priv [rdl])"
    and h2: "tst (mflags (cur_msg (dma_priv [rdl]))) I2C_M_RECV_LEN"
    and h3: "pos (dma_priv [rdl]) = 0" and h4: "0 < len (cur_msg (dma_priv [rdl]))"
    and h5: "len (cur_msg (dma_priv [rdl])) + I2C_SMBUS_BLOCK_MAX \<le> 65535"
    and h6: "msg (dma_priv [rdl]) < length (msgs (dma_priv [rdl]))"
    by (simp_all add: dma_priv_def probe_priv_def rdl_def cur_msg_def rcar_i2c_is_recv_def
        I2C_SMBUS_BLOCK_MAX_def)
  have m: "tst MDR MDR" "\<not> tst MDR MAT" "\<not> tst MDR MAL" "\<not> tst MDR MNR" "\<not> tst MDR MST"
    by (simp_all add: tst_def MDR_def MAT_def MAL_def MNR_def MST_def BIT_def)
  have c: "\<not> tst (flags (dma_priv [rdl])) ID_NACK" "\<not> tst (flags (dma_priv [rdl])) ID_ARBLOST"
    by (simp_all add: dma_priv_def)
  have z: "ucast (icrxtx_in (hw_ok MDR 0)) = (0 :: 8 word)" by (simp add: hw_ok_def)
  from recv_len_first_byte [OF h1 h2 h3 h4 h5 h6 m c, of "hw_ok MDR 0" 1] z h1 h2 h3 h4 h5 h6 m c
  show ?thesis by simp
qed

text \<open>
  Claim C4.  The first byte of a length-prefixed receive is not always validated: the
  receive handler attempts DMA with the address phase, before any byte has arrived, and
  does not look at the length-not-final flag there.  A length-prefixed receive with a
  DMA-safe buffer and a declared length of 8, submitted on a Gen3 controller with a
  receive DMA channel, has its first six bytes, the length byte among them, moved by
  the DMA engine; the handler reads only the last two from the data register.  The
  transfer ends with the stop, the protocol-error flag is not set whatever the first
  byte was, the length is still 8, and the entry point returns 1.
\<close>

theorem recv_len_dma_skips_length_byte:
  "fst (rcar_i2c_master_xfer (env_ok rdl8_events) [rdl8] 1 (probe_priv I2C_RCAR_GEN3)) = 1
   \<and> flags (snd (rcar_i2c_master_xfer (env_ok rdl8_events) [rdl8] 1 (probe_priv I2C_RCAR_GEN3)))
       = ID_P_NO_RXDMA OR ID_P_NOT_ATOMIC OR ID_DONE OR ID_LAST_MSG
   \<and> \<not> tst (ID_P_NO_RXDMA OR ID_P_NOT_ATOMIC OR ID_DONE OR ID_LAST_MSG) ID_EPROTO
   \<and> len (cur_msg (snd (rcar_i2c_master_xfer (env_ok rdl8_events) [rdl8] 1 (probe_priv I2C_RCAR_GEN3)))) = 8
   \<and> pos (snd (rcar_i2c_master_xfer (env_ok rdl8_events) [rdl8] 1 (probe_priv I2C_RCAR_GEN3))) = 8
   \<and> filter (\<lambda>e. e = Read ICRXTX \<or> e = Dma_map 0 6 DMA_FROM_DEVICE \<or> e = Dma_unmap)
        (io_log (snd (rcar_i2c_master_xfer (env_ok rdl8_events) [rdl8] 1 (probe_priv I2C_RCAR_GEN3))))
       = [Dma_map 0 6 DMA_FROM_DEVICE, Dma_unmap, Read ICRXTX, Read ICRXTX]"
proof -
  have "fst (rcar_i2c_master_xfer (env_ok rdl8_events) [rdl8] 1 (probe_priv I2C_RCAR_GEN3)) = 1"
    by code_simp
  moreover have "flags (snd (rcar_i2c_master_xfer (env_ok rdl8_events) [rdl8] 1 (probe_priv I2C_RCAR_GEN3)))
       = ID_P_NO_RXDMA OR ID_P_NOT_ATOMIC OR ID_DONE OR ID_LAST_MSG"
    by code_simp
  moreover have "\<not> tst (ID_P_NO_RXDMA OR ID_P_NOT_ATOMIC OR ID_DONE OR ID_LAST_MSG :: w32) ID_EPROTO"
    by code_simp
  moreover have "len (cur_msg (snd (rcar_i2c_master_xfer (env_ok rdl8_events) [rdl8] 1 (probe_priv I2C_RCAR_GEN3)))) = 8"
    by code_simp
  moreover have "pos (snd (rcar_i2c_master_xfer (env_ok rdl8_events) [rdl8] 1 (probe_priv I2C_RCAR_GEN3))) = 8"
    by code_simp
  moreover have "filter (\<lambda>e. e = Read ICRXTX \<or> e = Dma_map 0 6 DMA_FROM_DEVICE \<or> e = Dma_unmap)
        (io_log (snd (rcar_i2c_master_xfer (env_ok rdl8_events) [rdl8] 1 (probe_priv I2C_RCAR_GEN3))))
       = [Dma_map 0 6 DMA_FROM_DEVICE, Dma_unmap, Read ICRXTX, Read ICRXTX]"
    by code_simp
  ultimately show ?thesis by blast
qed

section \<open>The invariant of a transfer\<close>

lemma core_inv_cong:
  assumes "flags q = flags p" "msgs q = msgs p" "msg q = msg p" "msgs_left q = msgs_left p"
    "pos q = pos p" "dma_direction q = dma_direction p" "sg_len q = sg_len p"
  shows "core_inv q = core_inv p"
  using assms by (simp add: core_inv_def cur_msg_def stopped_def)

lemma core_inv_frame [simp]:
  "core_inv (emit e priv) = core_inv priv"
  "core_inv (rcar_i2c_write r v priv) = core_inv priv"
  "core_inv (rcar_i2c_clear_irq v priv) = core_inv priv"
  "core_inv (irq_out priv) = core_inv priv"
  by (rule core_inv_cong; simp)+











lemma slave_irq_frame [simp]:
  "flags (snd (rcar_i2c_slave_irq inp priv)) = flags priv"
  "msgs (snd (rcar_i2c_slave_irq inp priv)) = msgs priv"
  "msg (snd (rcar_i2c_slave_irq inp priv)) = msg priv"
  "msgs_left (snd (rcar_i2c_slave_irq inp priv)) = msgs_left priv"
  "pos (snd (rcar_i2c_slave_irq inp priv)) = pos priv"
  "dma_direction (snd (rcar_i2c_slave_irq inp priv)) = dma_direction priv"
  "sg_len (snd (rcar_i2c_slave_irq inp priv)) = sg_len priv"
  "io_regs (snd (rcar_i2c_slave_irq inp priv)) ICMIER = io_regs priv ICMIER"
  by (simp_all add: rcar_i2c_slave_irq_def Let_def case_prod_beta i2c_slave_event_def
      slave_nack_def)



lemma gen2_unfold:
  "rcar_i2c_gen2_irq inp priv =
     rcar_i2c_irq inp
       (if tst (flags priv) ID_P_NOT_ATOMIC then icmsr_in inp AND io_regs priv ICMIER
        else icmsr_in inp)
       (priv\<lparr>io_regs := (if \<not> tst (flags priv) ID_REP_AFTER_RD
                          then (io_regs priv)(ICMCR := RCAR_BUS_PHASE_DATA) else io_regs priv),
             io_log := io_log priv
               @ (if \<not> tst (flags priv) ID_REP_AFTER_RD then [Write ICMCR RCAR_BUS_PHASE_DATA] else [])
               @ [Read ICMSR]
               @ (if tst (flags priv) ID_P_NOT_ATOMIC then [Read ICMIER] else [])\<rparr>)"
  by (simp add: rcar_i2c_gen2_irq_def read_msr_def Let_def emit_def rcar_i2c_write_def)

lemma gen3_unfold:
  "rcar_i2c_gen3_irq inp priv =
     rcar_i2c_irq inp
       (if tst (flags priv) ID_P_NOT_ATOMIC then icmsr_in inp AND io_regs priv ICMIER
        else icmsr_in inp)
       (priv\<lparr>io_regs := (if \<not> tst (flags priv) ID_REP_AFTER_RD
                             \<and> (if tst (flags priv) ID_P_NOT_ATOMIC
                                 then icmsr_in inp AND io_regs priv ICMIER else icmsr_in inp) \<noteq> 0
                          then (io_regs priv)(ICMCR := RCAR_BUS_PHASE_DATA) else io_regs priv),
             io_log := io_log priv
               @ [Read ICMSR]
               @ (if tst (flags priv) ID_P_NOT_ATOMIC then [Read ICMIER] else [])
               @ (if \<not> tst (flags priv) ID_REP_AFTER_RD
                     \<and> (if tst (flags priv) ID_P_NOT_ATOMIC
                         then icmsr_in inp AND io_regs priv ICMIER else icmsr_in inp) \<noteq> 0
                  then [Write ICMCR RCAR_BUS_PHASE_DATA] else [])\<rparr>)"
  by (simp add: rcar_i2c_gen3_irq_def read_msr_def Let_def emit_def rcar_i2c_write_def)



section \<open>The invariant of the message count\<close>

lemma count_inv_cong:
  assumes "tst (flags q) ID_DONE = tst (flags p) ID_DONE"
    "tst (flags q) ID_ARBLOST = tst (flags p) ID_ARBLOST"
    "tst (flags q) ID_EPROTO = tst (flags p) ID_EPROTO"
    "tst (flags q) ID_LAST_MSG = tst (flags p) ID_LAST_MSG"
    "length (msgs q) = length (msgs p)" "msg q = msg p" "msgs_left q = msgs_left p"
    "pos q = pos p" "dma_direction q = dma_direction p" "sg_len q = sg_len p"
  shows "count_inv q = count_inv p"
  using assms by (simp add: count_inv_def stopped_def)

lemma count_inv_frame [simp]:
  "count_inv (emit e priv) = count_inv priv"
  "count_inv (rcar_i2c_write r v priv) = count_inv priv"
  "count_inv (rcar_i2c_clear_irq v priv) = count_inv priv"
  "count_inv (irq_out priv) = count_inv priv"
  by (rule count_inv_cong; simp)+














lemma disciplined_reachable: "reachable_disciplined priv \<Longrightarrow> reachable priv"
proof (induction rule: reachable_disciplined.induct)
  case (start ms priv)
  have "batch_wf ms" using start(1)
    by (auto simp: batch_ok_def batch_wf_def msg_ok_def list_all_iff)
  then show ?case using start(2) by (rule reachable.start)
qed (auto intro: reachable.intros)

section \<open>Runs of a transfer\<close>

lemma entry_not_atomic [simp]:
  "tst (flags (snd (rcar_i2c_gen2_irq inp priv))) ID_P_NOT_ATOMIC = tst (flags priv) ID_P_NOT_ATOMIC"
  "tst (flags (snd (rcar_i2c_gen3_irq inp priv))) ID_P_NOT_ATOMIC = tst (flags priv) ID_P_NOT_ATOMIC"
  by (simp_all add: gen2_unfold gen3_unfold rcar_i2c_irq_def case_prod_beta)



lemma start_reachable:
  assumes "batch_wf ms" and "dma_direction priv = DMA_NONE" and "n = int (length ms)"
  shows "reachable (rcar_i2c_first_msg ms n priv)"
  using reachable.start [OF assms(1,2)] assms(3) by simp


section \<open>Bounds on position and message count\<close>




lemma init_fields [simp]:
  "flags (rcar_i2c_init priv) = flags priv"
  "msgs (rcar_i2c_init priv) = msgs priv"
  "msg (rcar_i2c_init priv) = msg priv"
  "msgs_left (rcar_i2c_init priv) = msgs_left priv"
  "pos (rcar_i2c_init priv) = pos priv"
  "devtype (rcar_i2c_init priv) = devtype priv"
  "dma_direction (rcar_i2c_init priv) = dma_direction priv"
  by (simp_all add: rcar_i2c_init_def Let_def)

lemma request_dma_fields [simp]:
  "flags (rcar_i2c_request_dma env m priv) = flags priv"
  "devtype (rcar_i2c_request_dma env m priv) = devtype priv"
  "dma_direction (rcar_i2c_request_dma env m priv) = dma_direction priv"
  by (simp_all add: rcar_i2c_request_dma_def Let_def)

lemma fold_request_dma_fields [simp]:
  "flags (fold (rcar_i2c_request_dma env) ms priv) = flags priv"
  "devtype (fold (rcar_i2c_request_dma env) ms priv) = devtype priv"
  "dma_direction (fold (rcar_i2c_request_dma env) ms priv) = dma_direction priv"
  by (induction ms arbitrary: priv) simp_all
lemma recv_phase_frame [simp]:
  "devtype (recv_phase irqs rli priv) = devtype priv"
  "length (msgs (recv_phase irqs rli priv)) = length (msgs priv)"
  by (simp_all add: recv_phase_def Let_def)

lemma set_cur_msg_length [simp]: "length (msgs (set_cur_msg m priv)) = length (msgs priv)"
  by (simp add: set_cur_msg_def)

lemma irq_send_frame [simp]:
  "devtype (rcar_i2c_irq_send inp msr priv) = devtype priv"
  "length (msgs (rcar_i2c_irq_send inp msr priv)) = length (msgs priv)"
  by (simp_all add: rcar_i2c_irq_send_def Let_def case_prod_beta)

lemma irq_recv_frame [simp]:
  "devtype (rcar_i2c_irq_recv inp msr priv) = devtype priv"
  "length (msgs (rcar_i2c_irq_recv inp msr priv)) = length (msgs priv)"
  by (simp_all add: rcar_i2c_irq_recv_def Let_def case_prod_beta)

lemma irq_event_frame [simp]:
  "devtype (irq_event inp msr priv) = devtype priv"
  "length (msgs (irq_event inp msr priv)) = length (msgs priv)"
  by (simp_all add: irq_event_def Let_def)

lemma irq_out_frame [simp]:
  "devtype (irq_out priv) = devtype priv"
  "msgs (irq_out priv) = msgs priv"
  by (simp_all add: irq_out_def Let_def)

lemma slave_irq_devtype [simp]: "devtype (snd (rcar_i2c_slave_irq inp priv)) = devtype priv"
  by (simp add: rcar_i2c_slave_irq_def Let_def case_prod_beta i2c_slave_event_def slave_nack_def)

lemma entry_frame [simp]:
  "devtype (snd (rcar_i2c_gen2_irq inp priv)) = devtype priv"
  "devtype (snd (rcar_i2c_gen3_irq inp priv)) = devtype priv"
  "length (msgs (snd (rcar_i2c_gen2_irq inp priv))) = length (msgs priv)"
  "length (msgs (snd (rcar_i2c_gen3_irq inp priv))) = length (msgs priv)"
  by (simp_all add: gen2_unfold gen3_unfold rcar_i2c_irq_def case_prod_beta)

lemma deliver_frame [simp]:
  "devtype (deliver e priv) = devtype priv"
  "length (msgs (deliver e priv)) = length (msgs priv)"
  by (cases e; simp add: irqhandler_def)+

lemma run_frame [simp]:
  "devtype (fold deliver evs priv) = devtype priv"
  "length (msgs (fold deliver evs priv)) = length (msgs priv)"
  by (induction evs arbitrary: priv) simp_all





end
